theory Spec2Isabelle
  imports Main "HOL-Library.Word"
begin

unbundle bit_operations_syntax

section \<open>Machine types\<close>

text \<open>
  \<open>PhysPt\<close> is the 32-bit guest address type, \<open>HostPt\<close> a host pointer
  (a 64-bit address, null is 0).
\<close>

type_synonym PhysPt = "32 word"
type_synonym HostPt = "64 word"

section \<open>The FPU top-of-stack pointer (core_dynrec/dyn_fpu.h)\<close>

text \<open>
  \<open>TOP\<close> is the source's macro for \<open>fpu.top\<close>, an unsigned 32-bit field (the dynamic
  recompiler loads it as a dword); the field carries the macro's name here, since
  \<open>top\<close> is the greatest element of a lattice in HOL.  \<open>sw\<close> and \<open>cw\<close> are the
  status and control words.
\<close>

record FPU_rec =
  TOP :: "32 word"
  sw :: "16 word"
  cw :: "16 word"

definition FPU_FDECSTP :: "FPU_rec \<Rightarrow> FPU_rec" where
  "FPU_FDECSTP fpu = fpu\<lparr>TOP := (TOP fpu - 1) AND 7\<rparr>"

definition FPU_FINCSTP :: "FPU_rec \<Rightarrow> FPU_rec" where
  "FPU_FINCSTP fpu = fpu\<lparr>TOP := (TOP fpu + 1) AND 7\<rparr>"

section \<open>Page-table entries (include/paging.h)\<close>

text \<open>
  \<open>X86PageEntry\<close> is a struct of bit-fields.  Each field is kept as the 32-bit value
  the bit-field holds; an assignment to a bit-field of width \<open>w\<close> keeps the low \<open>w\<close>
  bits, which is the mask \<open>set\<close> applies itself.
\<close>

record X86PageEntry =
  p :: "32 word"
  wr :: "32 word"
  us :: "32 word"
  pwt :: "32 word"
  pcd :: "32 word"
  a :: "32 word"
  d :: "32 word"
  pat :: "32 word"
  g :: "32 word"
  avl :: "32 word"
  base :: "32 word"

definition X86PageEntry_set :: "32 word \<Rightarrow> X86PageEntry \<Rightarrow> X86PageEntry" where
  "X86PageEntry_set v e =
     e\<lparr>p := v AND 0x1,
       wr := drop_bit 1 v AND 0x1,
       us := drop_bit 2 v AND 0x1,
       pwt := drop_bit 3 v AND 0x1,
       pcd := drop_bit 4 v AND 0x1,
       a := drop_bit 5 v AND 0x1,
       d := drop_bit 6 v AND 0x1,
       pat := drop_bit 7 v AND 0x1,
       g := drop_bit 8 v AND 0x1,
       avl := drop_bit 9 v AND 0x7,
       base := drop_bit 12 v AND 0xFFFFF\<rparr>"

definition X86PageEntry_get :: "X86PageEntry \<Rightarrow> 32 word" where
  "X86PageEntry_get e =
     (let v0 = 0 :: 32 word;
          v1 = v0 OR p e;
          v2 = v1 OR push_bit 1 (wr e);
          v3 = v2 OR push_bit 2 (us e);
          v4 = v3 OR push_bit 3 (pwt e);
          v5 = v4 OR push_bit 4 (pcd e);
          v6 = v5 OR push_bit 5 (a e);
          v7 = v6 OR push_bit 6 (d e);
          v8 = v7 OR push_bit 7 (pat e);
          v9 = v8 OR push_bit 8 (g e);
          v10 = v9 OR push_bit 9 (avl e);
          v11 = v10 OR push_bit 12 (base e)
      in v11)"

section \<open>Host memory (include/mem.h)\<close>

text \<open>
  The host helpers \<open>host_readb\<close> \<dots> \<open>host_writeq\<close> live in mem.h, which is not among
  the sources.  They read and write the guest's little-endian byte order at a host
  address; host memory is a function from host addresses to bytes.
\<close>

type_synonym host_bytes = "HostPt \<Rightarrow> 8 word"

primrec le_read :: "host_bytes \<Rightarrow> HostPt \<Rightarrow> nat \<Rightarrow> 'w::len word" where
  "le_read mem ptr 0 = 0"
| "le_read mem ptr (Suc n) = ucast (mem ptr) OR push_bit 8 (le_read mem (ptr + 1) n)"

primrec le_write :: "host_bytes \<Rightarrow> HostPt \<Rightarrow> nat \<Rightarrow> 'w::len word \<Rightarrow> host_bytes" where
  "le_write mem ptr 0 val = mem"
| "le_write mem ptr (Suc n) val = le_write (mem(ptr := ucast val)) (ptr + 1) n (drop_bit 8 val)"

section \<open>The paging block and the TLB accessors (include/paging.h, USE_FULL_TLB)\<close>

text \<open>
  \<open>paging.tlb\<close> holds, for every linear page number, a host read pointer, a host write
  pointer (null when the access must go through a handler), the read and write handlers
  and the physical page.  A \<open>PageHandler*\<close> is an index into a table of handlers.
  The record is extensible: its extension part stands for the state of the devices and of
  the debugger that handlers and hooks may change.
\<close>

record machine =
  tlb_read :: "32 word \<Rightarrow> HostPt"
  tlb_write :: "32 word \<Rightarrow> HostPt"
  tlb_readhandler :: "32 word \<Rightarrow> nat"
  tlb_writehandler :: "32 word \<Rightarrow> nat"
  tlb_phys_page :: "32 word \<Rightarrow> 32 word"
  host_mem :: host_bytes

text \<open>
  The virtual interface of \<open>PageHandler\<close>: every member takes the machine and returns it
  changed.  A checked read takes the present content of the caller's output location
  \<open>*val\<close> and returns the flag, the content of \<open>*val\<close> afterwards and the machine.
\<close>

record 'm PageHandler =
  readb :: "PhysPt \<Rightarrow> 'm \<Rightarrow> 8 word \<times> 'm"
  readw :: "PhysPt \<Rightarrow> 'm \<Rightarrow> 16 word \<times> 'm"
  readd :: "PhysPt \<Rightarrow> 'm \<Rightarrow> 32 word \<times> 'm"
  readq :: "PhysPt \<Rightarrow> 'm \<Rightarrow> 64 word \<times> 'm"
  writeb :: "PhysPt \<Rightarrow> 8 word \<Rightarrow> 'm \<Rightarrow> 'm"
  writew :: "PhysPt \<Rightarrow> 16 word \<Rightarrow> 'm \<Rightarrow> 'm"
  writed :: "PhysPt \<Rightarrow> 32 word \<Rightarrow> 'm \<Rightarrow> 'm"
  writeq :: "PhysPt \<Rightarrow> 64 word \<Rightarrow> 'm \<Rightarrow> 'm"
  readb_checked :: "PhysPt \<Rightarrow> 8 word \<Rightarrow> 'm \<Rightarrow> bool \<times> 8 word \<times> 'm"
  readw_checked :: "PhysPt \<Rightarrow> 16 word \<Rightarrow> 'm \<Rightarrow> bool \<times> 16 word \<times> 'm"
  readd_checked :: "PhysPt \<Rightarrow> 32 word \<Rightarrow> 'm \<Rightarrow> bool \<times> 32 word \<times> 'm"
  readq_checked :: "PhysPt \<Rightarrow> 64 word \<Rightarrow> 'm \<Rightarrow> bool \<times> 64 word \<times> 'm"
  writeb_checked :: "PhysPt \<Rightarrow> 8 word \<Rightarrow> 'm \<Rightarrow> bool \<times> 'm"
  writew_checked :: "PhysPt \<Rightarrow> 16 word \<Rightarrow> 'm \<Rightarrow> bool \<times> 'm"
  writed_checked :: "PhysPt \<Rightarrow> 32 word \<Rightarrow> 'm \<Rightarrow> bool \<times> 'm"
  writeq_checked :: "PhysPt \<Rightarrow> 64 word \<Rightarrow> 'm \<Rightarrow> bool \<times> 'm"

text \<open>
  What the functions of paging.h use and the sources do not contain: the handler objects
  behind the \<open>PageHandler*\<close> values, and the debugger's hook
  \<open>DEBUG_UpdateMemoryReadBreakpoints<T>(address)\<close> of debug.h, which takes \<open>sizeof(T)\<close>
  and the address.  Both are parameters.
\<close>

record 'm env =
  handlers :: "nat \<Rightarrow> 'm PageHandler"
  DEBUG_UpdateMemoryReadBreakpoints :: "nat \<Rightarrow> PhysPt \<Rightarrow> 'm \<Rightarrow> 'm"

datatype MemOpMode = WithBreakpoints | SkipBreakpoints

definition host_readb :: "'x machine_scheme \<Rightarrow> HostPt \<Rightarrow> 8 word" where
  "host_readb m ptr = host_mem m ptr"

definition host_readw :: "'x machine_scheme \<Rightarrow> HostPt \<Rightarrow> 16 word" where
  "host_readw m ptr = le_read (host_mem m) ptr 2"

definition host_readd :: "'x machine_scheme \<Rightarrow> HostPt \<Rightarrow> 32 word" where
  "host_readd m ptr = le_read (host_mem m) ptr 4"

definition host_readq :: "'x machine_scheme \<Rightarrow> HostPt \<Rightarrow> 64 word" where
  "host_readq m ptr = le_read (host_mem m) ptr 8"

definition host_writeb :: "HostPt \<Rightarrow> 8 word \<Rightarrow> 'x machine_scheme \<Rightarrow> 'x machine_scheme" where
  "host_writeb ptr val m = m\<lparr>host_mem := (host_mem m)(ptr := val)\<rparr>"

definition host_writew :: "HostPt \<Rightarrow> 16 word \<Rightarrow> 'x machine_scheme \<Rightarrow> 'x machine_scheme" where
  "host_writew ptr val m = m\<lparr>host_mem := le_write (host_mem m) ptr 2 val\<rparr>"

definition host_writed :: "HostPt \<Rightarrow> 32 word \<Rightarrow> 'x machine_scheme \<Rightarrow> 'x machine_scheme" where
  "host_writed ptr val m = m\<lparr>host_mem := le_write (host_mem m) ptr 4 val\<rparr>"

definition host_writeq :: "HostPt \<Rightarrow> 64 word \<Rightarrow> 'x machine_scheme \<Rightarrow> 'x machine_scheme" where
  "host_writeq ptr val m = m\<lparr>host_mem := le_write (host_mem m) ptr 8 val\<rparr>"

definition get_tlb_read :: "'x machine_scheme \<Rightarrow> PhysPt \<Rightarrow> HostPt" where
  "get_tlb_read m address = tlb_read m (drop_bit 12 address)"

definition get_tlb_write :: "'x machine_scheme \<Rightarrow> PhysPt \<Rightarrow> HostPt" where
  "get_tlb_write m address = tlb_write m (drop_bit 12 address)"

definition get_tlb_readhandler :: "'x machine_scheme \<Rightarrow> PhysPt \<Rightarrow> nat" where
  "get_tlb_readhandler m address = tlb_readhandler m (drop_bit 12 address)"

definition get_tlb_writehandler :: "'x machine_scheme \<Rightarrow> PhysPt \<Rightarrow> nat" where
  "get_tlb_writehandler m address = tlb_writehandler m (drop_bit 12 address)"

definition PAGING_GetPhysicalPage :: "'x machine_scheme \<Rightarrow> PhysPt \<Rightarrow> PhysPt" where
  "PAGING_GetPhysicalPage m linePage = push_bit 12 (tlb_phys_page m (drop_bit 12 linePage))"

definition PAGING_GetPhysicalAddress :: "'x machine_scheme \<Rightarrow> PhysPt \<Rightarrow> PhysPt" where
  "PAGING_GetPhysicalAddress m linAddr =
     push_bit 12 (tlb_phys_page m (drop_bit 12 linAddr)) OR (linAddr AND 0xfff)"

text \<open>
  The \<open>if constexpr (op_mode == MemOpMode::WithBreakpoints)\<close> prologue of the four
  inline reads.
\<close>

definition update_breakpoints ::
  "'x machine_scheme env \<Rightarrow> MemOpMode \<Rightarrow> nat \<Rightarrow> PhysPt \<Rightarrow> 'x machine_scheme \<Rightarrow> 'x machine_scheme" where
  "update_breakpoints E op_mode sz address m =
     (if op_mode = WithBreakpoints then DEBUG_UpdateMemoryReadBreakpoints E sz address m else m)"

definition mem_readb_inline ::
  "'x machine_scheme env \<Rightarrow> MemOpMode \<Rightarrow> PhysPt \<Rightarrow> 'x machine_scheme \<Rightarrow> 8 word \<times> 'x machine_scheme" where
  "mem_readb_inline E op_mode address m0 =
     (let m = update_breakpoints E op_mode 1 address m0;
          tlb_addr = get_tlb_read m address
      in if tlb_addr \<noteq> 0 then (host_readb m (tlb_addr + ucast address), m)
         else readb (handlers E (get_tlb_readhandler m address)) address m)"

definition mem_writeb_inline ::
  "'x machine_scheme env \<Rightarrow> PhysPt \<Rightarrow> 8 word \<Rightarrow> 'x machine_scheme \<Rightarrow> 'x machine_scheme" where
  "mem_writeb_inline E address val m =
     (let tlb_addr = get_tlb_write m address
      in if tlb_addr \<noteq> 0 then host_writeb (tlb_addr + ucast address) val m
         else writeb (handlers E (get_tlb_writehandler m address)) address val m)"

section \<open>Unaligned access fallbacks (declared in include/paging.h)\<close>

text \<open>
  Modelled from the spec: the bodies of \<open>mem_unalignedreadw\<close> \<dots> \<open>mem_unalignedwriteq\<close>
  are not among the sources, paging.h only declares them.  The spec has an access that
  straddles a page boundary decompose into the sequence of single-page operations, a
  straddling word write being two byte writes at the same addresses in the same order,
  and the value reassembled in the guest's byte order.  Each fallback is the sequence of
  byte accesses through \<open>mem_readb_inline\<close> or \<open>mem_writeb_inline\<close>, lowest address
  first.
\<close>

primrec unaligned_read ::
  "'x machine_scheme env \<Rightarrow> nat \<Rightarrow> PhysPt \<Rightarrow> 'x machine_scheme \<Rightarrow> 'w::len word \<times> 'x machine_scheme" where
  "unaligned_read E 0 address m = (0, m)"
| "unaligned_read E (Suc n) address m =
     (case mem_readb_inline E WithBreakpoints address m of
        (lo, m1) \<Rightarrow>
          (case unaligned_read E n (address + 1) m1 of
             (hi, m2) \<Rightarrow> (ucast lo OR push_bit 8 hi, m2)))"

primrec unaligned_write ::
  "'x machine_scheme env \<Rightarrow> nat \<Rightarrow> PhysPt \<Rightarrow> 'w::len word \<Rightarrow> 'x machine_scheme \<Rightarrow> 'x machine_scheme" where
  "unaligned_write E 0 address val m = m"
| "unaligned_write E (Suc n) address val m =
     unaligned_write E n (address + 1) (drop_bit 8 val) (mem_writeb_inline E address (ucast val) m)"

definition mem_unalignedreadw ::
  "'x machine_scheme env \<Rightarrow> PhysPt \<Rightarrow> 'x machine_scheme \<Rightarrow> 16 word \<times> 'x machine_scheme" where
  "mem_unalignedreadw E address m = unaligned_read E 2 address m"

definition mem_unalignedreadd ::
  "'x machine_scheme env \<Rightarrow> PhysPt \<Rightarrow> 'x machine_scheme \<Rightarrow> 32 word \<times> 'x machine_scheme" where
  "mem_unalignedreadd E address m = unaligned_read E 4 address m"

definition mem_unalignedreadq ::
  "'x machine_scheme env \<Rightarrow> PhysPt \<Rightarrow> 'x machine_scheme \<Rightarrow> 64 word \<times> 'x machine_scheme" where
  "mem_unalignedreadq E address m = unaligned_read E 8 address m"

definition mem_unalignedwritew ::
  "'x machine_scheme env \<Rightarrow> PhysPt \<Rightarrow> 16 word \<Rightarrow> 'x machine_scheme \<Rightarrow> 'x machine_scheme" where
  "mem_unalignedwritew E address val m = unaligned_write E 2 address val m"

definition mem_unalignedwrited ::
  "'x machine_scheme env \<Rightarrow> PhysPt \<Rightarrow> 32 word \<Rightarrow> 'x machine_scheme \<Rightarrow> 'x machine_scheme" where
  "mem_unalignedwrited E address val m = unaligned_write E 4 address val m"

definition mem_unalignedwriteq ::
  "'x machine_scheme env \<Rightarrow> PhysPt \<Rightarrow> 64 word \<Rightarrow> 'x machine_scheme \<Rightarrow> 'x machine_scheme" where
  "mem_unalignedwriteq E address val m = unaligned_write E 8 address val m"

section \<open>Word, dword and quadword accesses (include/paging.h)\<close>

definition mem_readw_inline ::
  "'x machine_scheme env \<Rightarrow> MemOpMode \<Rightarrow> PhysPt \<Rightarrow> 'x machine_scheme \<Rightarrow> 16 word \<times> 'x machine_scheme" where
  "mem_readw_inline E op_mode address m0 =
     (let m = update_breakpoints E op_mode 2 address m0
      in if (address AND 0xfff) < 0xfff then
           (let tlb_addr = get_tlb_read m address
            in if tlb_addr \<noteq> 0 then (host_readw m (tlb_addr + ucast address), m)
               else readw (handlers E (get_tlb_readhandler m address)) address m)
         else mem_unalignedreadw E address m)"

definition mem_readd_inline ::
  "'x machine_scheme env \<Rightarrow> MemOpMode \<Rightarrow> PhysPt \<Rightarrow> 'x machine_scheme \<Rightarrow> 32 word \<times> 'x machine_scheme" where
  "mem_readd_inline E op_mode address m0 =
     (let m = update_breakpoints E op_mode 4 address m0
      in if (address AND 0xfff) < 0xffd then
           (let tlb_addr = get_tlb_read m address
            in if tlb_addr \<noteq> 0 then (host_readd m (tlb_addr + ucast address), m)
               else readd (handlers E (get_tlb_readhandler m address)) address m)
         else mem_unalignedreadd E address m)"

definition mem_readq_inline ::
  "'x machine_scheme env \<Rightarrow> MemOpMode \<Rightarrow> PhysPt \<Rightarrow> 'x machine_scheme \<Rightarrow> 64 word \<times> 'x machine_scheme" where
  "mem_readq_inline E op_mode address m0 =
     (let m = update_breakpoints E op_mode 8 address m0
      in if (address AND 0xfff) < 0xff9 then
           (let tlb_addr = get_tlb_read m address
            in if tlb_addr \<noteq> 0 then (host_readq m (tlb_addr + ucast address), m)
               else readq (handlers E (get_tlb_readhandler m address)) address m)
         else mem_unalignedreadq E address m)"

definition mem_writew_inline ::
  "'x machine_scheme env \<Rightarrow> PhysPt \<Rightarrow> 16 word \<Rightarrow> 'x machine_scheme \<Rightarrow> 'x machine_scheme" where
  "mem_writew_inline E address val m =
     (if (address AND 0xfff) < 0xfff then
        (let tlb_addr = get_tlb_write m address
         in if tlb_addr \<noteq> 0 then host_writew (tlb_addr + ucast address) val m
            else writew (handlers E (get_tlb_writehandler m address)) address val m)
      else mem_unalignedwritew E address val m)"

definition mem_writed_inline ::
  "'x machine_scheme env \<Rightarrow> PhysPt \<Rightarrow> 32 word \<Rightarrow> 'x machine_scheme \<Rightarrow> 'x machine_scheme" where
  "mem_writed_inline E address val m =
     (if (address AND 0xfff) < 0xffd then
        (let tlb_addr = get_tlb_write m address
         in if tlb_addr \<noteq> 0 then host_writed (tlb_addr + ucast address) val m
            else writed (handlers E (get_tlb_writehandler m address)) address val m)
      else mem_unalignedwrited E address val m)"

definition mem_writeq_inline ::
  "'x machine_scheme env \<Rightarrow> PhysPt \<Rightarrow> 64 word \<Rightarrow> 'x machine_scheme \<Rightarrow> 'x machine_scheme" where
  "mem_writeq_inline E address val m =
     (if (address AND 0xfff) < 0xff9 then
        (let tlb_addr = get_tlb_write m address
         in if tlb_addr \<noteq> 0 then host_writeq (tlb_addr + ucast address) val m
            else writeq (handlers E (get_tlb_writehandler m address)) address val m)
      else mem_unalignedwriteq E address val m)"

section \<open>Checked accesses (include/paging.h)\<close>

text \<open>
  A checked read takes the present content \<open>val\<close> of the caller's output location and
  returns the flag, the content of the location afterwards and the machine.  The source
  returns \<open>false\<close> after the access through the cached host pointer.
\<close>

definition mem_readb_checked ::
  "'x machine_scheme env \<Rightarrow> PhysPt \<Rightarrow> 8 word \<Rightarrow> 'x machine_scheme \<Rightarrow> bool \<times> 8 word \<times> 'x machine_scheme" where
  "mem_readb_checked E address val m =
     (let tlb_addr = get_tlb_read m address
      in if tlb_addr \<noteq> 0 then (False, host_readb m (tlb_addr + ucast address), m)
         else readb_checked (handlers E (get_tlb_readhandler m address)) address val m)"

definition mem_writeb_checked ::
  "'x machine_scheme env \<Rightarrow> PhysPt \<Rightarrow> 8 word \<Rightarrow> 'x machine_scheme \<Rightarrow> bool \<times> 'x machine_scheme" where
  "mem_writeb_checked E address val m =
     (let tlb_addr = get_tlb_write m address
      in if tlb_addr \<noteq> 0 then (False, host_writeb (tlb_addr + ucast address) val m)
         else writeb_checked (handlers E (get_tlb_writehandler m address)) address val m)"

text \<open>
  Modelled from the spec: the bodies of \<open>mem_unalignedreadw_checked\<close> \<dots>
  \<open>mem_unalignedwriteq_checked\<close> are not among the sources.  By the spec a straddling
  access is the sequence of its single-page operations, and a checked variant reports
  a failure through its flag and leaves the output unmodified then.  Each fallback runs
  the checked byte accesses lowest address first, stops at the first one that fails and
  returns \<open>true\<close>, and stores the reassembled value only after all of them succeeded.
\<close>

primrec unaligned_read_checked ::
  "'x machine_scheme env \<Rightarrow> nat \<Rightarrow> PhysPt \<Rightarrow> 'x machine_scheme \<Rightarrow> bool \<times> 'w::len word \<times> 'x machine_scheme" where
  "unaligned_read_checked E 0 address m = (False, 0, m)"
| "unaligned_read_checked E (Suc n) address m =
     (case mem_readb_checked E address 0 m of
        (True, rval, m1) \<Rightarrow> (True, 0, m1)
      | (False, rval, m1) \<Rightarrow>
          (case unaligned_read_checked E n (address + 1) m1 of
             (True, hi, m2) \<Rightarrow> (True, 0, m2)
           | (False, hi, m2) \<Rightarrow> (False, ucast rval OR push_bit 8 hi, m2)))"

primrec unaligned_write_checked ::
  "'x machine_scheme env \<Rightarrow> nat \<Rightarrow> PhysPt \<Rightarrow> 'w::len word \<Rightarrow> 'x machine_scheme \<Rightarrow> bool \<times> 'x machine_scheme" where
  "unaligned_write_checked E 0 address val m = (False, m)"
| "unaligned_write_checked E (Suc n) address val m =
     (case mem_writeb_checked E address (ucast val) m of
        (True, m1) \<Rightarrow> (True, m1)
      | (False, m1) \<Rightarrow> unaligned_write_checked E n (address + 1) (drop_bit 8 val) m1)"

definition store_if_ok :: "'v \<Rightarrow> bool \<times> 'v \<times> 's \<Rightarrow> bool \<times> 'v \<times> 's" where
  "store_if_ok val r = (case r of (True, v, m) \<Rightarrow> (True, val, m) | (False, v, m) \<Rightarrow> (False, v, m))"

definition mem_unalignedreadw_checked ::
  "'x machine_scheme env \<Rightarrow> PhysPt \<Rightarrow> 16 word \<Rightarrow> 'x machine_scheme \<Rightarrow> bool \<times> 16 word \<times> 'x machine_scheme" where
  "mem_unalignedreadw_checked E address val m = store_if_ok val (unaligned_read_checked E 2 address m)"

definition mem_unalignedreadd_checked ::
  "'x machine_scheme env \<Rightarrow> PhysPt \<Rightarrow> 32 word \<Rightarrow> 'x machine_scheme \<Rightarrow> bool \<times> 32 word \<times> 'x machine_scheme" where
  "mem_unalignedreadd_checked E address val m = store_if_ok val (unaligned_read_checked E 4 address m)"

definition mem_unalignedreadq_checked ::
  "'x machine_scheme env \<Rightarrow> PhysPt \<Rightarrow> 64 word \<Rightarrow> 'x machine_scheme \<Rightarrow> bool \<times> 64 word \<times> 'x machine_scheme" where
  "mem_unalignedreadq_checked E address val m = store_if_ok val (unaligned_read_checked E 8 address m)"

definition mem_unalignedwritew_checked ::
  "'x machine_scheme env \<Rightarrow> PhysPt \<Rightarrow> 16 word \<Rightarrow> 'x machine_scheme \<Rightarrow> bool \<times> 'x machine_scheme" where
  "mem_unalignedwritew_checked E address val m = unaligned_write_checked E 2 address val m"

definition mem_unalignedwrited_checked ::
  "'x machine_scheme env \<Rightarrow> PhysPt \<Rightarrow> 32 word \<Rightarrow> 'x machine_scheme \<Rightarrow> bool \<times> 'x machine_scheme" where
  "mem_unalignedwrited_checked E address val m = unaligned_write_checked E 4 address val m"

definition mem_unalignedwriteq_checked ::
  "'x machine_scheme env \<Rightarrow> PhysPt \<Rightarrow> 64 word \<Rightarrow> 'x machine_scheme \<Rightarrow> bool \<times> 'x machine_scheme" where
  "mem_unalignedwriteq_checked E address val m = unaligned_write_checked E 8 address val m"

definition mem_readw_checked ::
  "'x machine_scheme env \<Rightarrow> PhysPt \<Rightarrow> 16 word \<Rightarrow> 'x machine_scheme \<Rightarrow> bool \<times> 16 word \<times> 'x machine_scheme" where
  "mem_readw_checked E address val m =
     (if (address AND 0xfff) < 0xfff then
        (let tlb_addr = get_tlb_read m address
         in if tlb_addr \<noteq> 0 then (False, host_readw m (tlb_addr + ucast address), m)
            else readw_checked (handlers E (get_tlb_readhandler m address)) address val m)
      else mem_unalignedreadw_checked E address val m)"

definition mem_readd_checked ::
  "'x machine_scheme env \<Rightarrow> PhysPt \<Rightarrow> 32 word \<Rightarrow> 'x machine_scheme \<Rightarrow> bool \<times> 32 word \<times> 'x machine_scheme" where
  "mem_readd_checked E address val m =
     (if (address AND 0xfff) < 0xffd then
        (let tlb_addr = get_tlb_read m address
         in if tlb_addr \<noteq> 0 then (False, host_readd m (tlb_addr + ucast address), m)
            else readd_checked (handlers E (get_tlb_readhandler m address)) address val m)
      else mem_unalignedreadd_checked E address val m)"

definition mem_readq_checked ::
  "'x machine_scheme env \<Rightarrow> PhysPt \<Rightarrow> 64 word \<Rightarrow> 'x machine_scheme \<Rightarrow> bool \<times> 64 word \<times> 'x machine_scheme" where
  "mem_readq_checked E address val m =
     (if (address AND 0xfff) < 0xff9 then
        (let tlb_addr = get_tlb_read m address
         in if tlb_addr \<noteq> 0 then (False, host_readq m (tlb_addr + ucast address), m)
            else readq_checked (handlers E (get_tlb_readhandler m address)) address val m)
      else mem_unalignedreadq_checked E address val m)"

definition mem_writew_checked ::
  "'x machine_scheme env \<Rightarrow> PhysPt \<Rightarrow> 16 word \<Rightarrow> 'x machine_scheme \<Rightarrow> bool \<times> 'x machine_scheme" where
  "mem_writew_checked E address val m =
     (if (address AND 0xfff) < 0xfff then
        (let tlb_addr = get_tlb_write m address
         in if tlb_addr \<noteq> 0 then (False, host_writew (tlb_addr + ucast address) val m)
            else writew_checked (handlers E (get_tlb_writehandler m address)) address val m)
      else mem_unalignedwritew_checked E address val m)"

definition mem_writed_checked ::
  "'x machine_scheme env \<Rightarrow> PhysPt \<Rightarrow> 32 word \<Rightarrow> 'x machine_scheme \<Rightarrow> bool \<times> 'x machine_scheme" where
  "mem_writed_checked E address val m =
     (if (address AND 0xfff) < 0xffd then
        (let tlb_addr = get_tlb_write m address
         in if tlb_addr \<noteq> 0 then (False, host_writed (tlb_addr + ucast address) val m)
            else writed_checked (handlers E (get_tlb_writehandler m address)) address val m)
      else mem_unalignedwrited_checked E address val m)"

definition mem_writeq_checked ::
  "'x machine_scheme env \<Rightarrow> PhysPt \<Rightarrow> 64 word \<Rightarrow> 'x machine_scheme \<Rightarrow> bool \<times> 'x machine_scheme" where
  "mem_writeq_checked E address val m =
     (if (address AND 0xfff) < 0xff9 then
        (let tlb_addr = get_tlb_write m address
         in if tlb_addr \<noteq> 0 then (False, host_writeq (tlb_addr + ucast address) val m)
            else writeq_checked (handlers E (get_tlb_writehandler m address)) address val m)
      else mem_unalignedwriteq_checked E address val m)"

section \<open>Pages\<close>

text \<open>
  The bytes of an access of \<open>n\<close> bytes at \<open>address\<close> all lie within one 4096-byte page
  when every one of them has the page number (\<open>address >> 12\<close>) of the first.  Addresses
  wrap around at 32 bits, as \<open>PhysPt\<close> arithmetic does.
\<close>

definition within_one_page :: "PhysPt \<Rightarrow> nat \<Rightarrow> bool" where
  "within_one_page address n =
     list_all (\<lambda>i. drop_bit 12 (address + of_nat i) = drop_bit 12 address) [0..<n]"

text \<open>
  The single-page dispatch as the spec describes it for the wide accesses: through the
  cached host pointer when it is non-null, through the page's handler otherwise.  These
  six functions are not in the source; the theorems compare the source's functions with
  them.
\<close>

definition single_page_readw ::
  "'x machine_scheme env \<Rightarrow> PhysPt \<Rightarrow> 'x machine_scheme \<Rightarrow> 16 word \<times> 'x machine_scheme" where
  "single_page_readw E address m =
     (if get_tlb_read m address \<noteq> 0 then (host_readw m (get_tlb_read m address + ucast address), m)
      else readw (handlers E (get_tlb_readhandler m address)) address m)"

definition single_page_readd ::
  "'x machine_scheme env \<Rightarrow> PhysPt \<Rightarrow> 'x machine_scheme \<Rightarrow> 32 word \<times> 'x machine_scheme" where
  "single_page_readd E address m =
     (if get_tlb_read m address \<noteq> 0 then (host_readd m (get_tlb_read m address + ucast address), m)
      else readd (handlers E (get_tlb_readhandler m address)) address m)"

definition single_page_readq ::
  "'x machine_scheme env \<Rightarrow> PhysPt \<Rightarrow> 'x machine_scheme \<Rightarrow> 64 word \<times> 'x machine_scheme" where
  "single_page_readq E address m =
     (if get_tlb_read m address \<noteq> 0 then (host_readq m (get_tlb_read m address + ucast address), m)
      else readq (handlers E (get_tlb_readhandler m address)) address m)"

definition single_page_writew ::
  "'x machine_scheme env \<Rightarrow> PhysPt \<Rightarrow> 16 word \<Rightarrow> 'x machine_scheme \<Rightarrow> 'x machine_scheme" where
  "single_page_writew E address val m =
     (if get_tlb_write m address \<noteq> 0 then host_writew (get_tlb_write m address + ucast address) val m
      else writew (handlers E (get_tlb_writehandler m address)) address val m)"

definition single_page_writed ::
  "'x machine_scheme env \<Rightarrow> PhysPt \<Rightarrow> 32 word \<Rightarrow> 'x machine_scheme \<Rightarrow> 'x machine_scheme" where
  "single_page_writed E address val m =
     (if get_tlb_write m address \<noteq> 0 then host_writed (get_tlb_write m address + ucast address) val m
      else writed (handlers E (get_tlb_writehandler m address)) address val m)"

definition single_page_writeq ::
  "'x machine_scheme env \<Rightarrow> PhysPt \<Rightarrow> 64 word \<Rightarrow> 'x machine_scheme \<Rightarrow> 'x machine_scheme" where
  "single_page_writeq E address val m =
     (if get_tlb_write m address \<noteq> 0 then host_writeq (get_tlb_write m address + ucast address) val m
      else writeq (handlers E (get_tlb_writehandler m address)) address val m)"

section \<open>The handlers' checked reads\<close>

text \<open>
  Modelled from the spec: the bodies behind the virtual members \<open>readb_checked\<close> \<dots>
  \<open>readq_checked\<close> of \<open>PageHandler\<close> are not among the sources, paging.h only
  declares the members.  By the spec a page handler has checked variants of its sized
  reads, and a checked variant reports a failure through its flag, never raises and
  leaves the output unmodified on failure.  The body of a handler's checked read is what
  it finds at the address: nothing, when the read fails, or the value.  As the member it
  returns \<open>true\<close> with \<open>*val\<close> as it was in the first case; in the second it stores
  the value into \<open>*val\<close> and returns \<open>false\<close>, as the source does after the access
  through the cached pointer.
\<close>

definition checked_read_member ::
  "(PhysPt \<Rightarrow> 'm \<Rightarrow> 'v option \<times> 'm) \<Rightarrow> PhysPt \<Rightarrow> 'v \<Rightarrow> 'm \<Rightarrow> bool \<times> 'v \<times> 'm" where
  "checked_read_member body address val m =
     (case body address m of
        (None, m1) \<Rightarrow> (True, val, m1)
      | (Some v, m1) \<Rightarrow> (False, v, m1))"

record 'm checked_read_bodies =
  body_readb :: "PhysPt \<Rightarrow> 'm \<Rightarrow> 8 word option \<times> 'm"
  body_readw :: "PhysPt \<Rightarrow> 'm \<Rightarrow> 16 word option \<times> 'm"
  body_readd :: "PhysPt \<Rightarrow> 'm \<Rightarrow> 32 word option \<times> 'm"
  body_readq :: "PhysPt \<Rightarrow> 'm \<Rightarrow> 64 word option \<times> 'm"

text \<open>
  A handler with the checked reads of the given bodies, its other members as they are,
  and the environment whose handler \<open>h\<close> has the bodies \<open>B h\<close>.
\<close>

definition handler_with_bodies :: "'m checked_read_bodies \<Rightarrow> 'm PageHandler \<Rightarrow> 'm PageHandler" where
  "handler_with_bodies B H =
     H\<lparr>readb_checked := checked_read_member (body_readb B),
       readw_checked := checked_read_member (body_readw B),
       readd_checked := checked_read_member (body_readd B),
       readq_checked := checked_read_member (body_readq B)\<rparr>"

definition env_with_bodies :: "(nat \<Rightarrow> 'm checked_read_bodies) \<Rightarrow> 'm env \<Rightarrow> 'm env" where
  "env_with_bodies B E = E\<lparr>handlers := (\<lambda>h. handler_with_bodies (B h) (handlers E h))\<rparr>"

text \<open>
  The trapping members of a handler are \<open>readb\<close> \<dots> \<open>writeq\<close>.  The environment
  below keeps the checked members of every handler, takes the trapping members of
  handler \<open>h\<close> from \<open>T h\<close> and has \<open>D\<close> for the debugger's hook.  An access that gives
  the same result in both environments calls no trapping member and no hook.
\<close>

definition trapping_members_from :: "'m PageHandler \<Rightarrow> 'm PageHandler \<Rightarrow> 'm PageHandler" where
  "trapping_members_from T H =
     H\<lparr>readb := readb T, readw := readw T, readd := readd T, readq := readq T,
       writeb := writeb T, writew := writew T, writed := writed T, writeq := writeq T\<rparr>"

definition env_with_trapping ::
  "(nat \<Rightarrow> 'm PageHandler) \<Rightarrow> (nat \<Rightarrow> PhysPt \<Rightarrow> 'm \<Rightarrow> 'm) \<Rightarrow> 'm env \<Rightarrow> 'm env" where
  "env_with_trapping T D E =
     \<lparr>handlers = (\<lambda>h. trapping_members_from (T h) (handlers E h)),
      DEBUG_UpdateMemoryReadBreakpoints = D\<rparr>"

section \<open>A concrete machine\<close>

text \<open>
  One page of RAM: the linear page 1 (addresses \<open>0x1000..0x1fff\<close>) is mapped for reading
  and writing at host address \<open>0x7f0000001000\<close> (the TLB holds the host base minus the
  linear base, \<open>0x7f0000000000\<close>); every other page has null pointers and handler 0,
  which answers every read with \<open>0xff\<close>, drops every write and refuses every checked
  access, the way an unmapped page does.  The byte at linear \<open>0x1234\<close> is \<open>0xab\<close>.
\<close>

definition unmapped_handler :: "'m PageHandler" where
  "unmapped_handler =
     \<lparr>readb = (\<lambda>address m. (0xff, m)), readw = (\<lambda>address m. (0xffff, m)),
      readd = (\<lambda>address m. (0xffffffff, m)), readq = (\<lambda>address m. (0xffffffffffffffff, m)),
      writeb = (\<lambda>address val m. m), writew = (\<lambda>address val m. m),
      writed = (\<lambda>address val m. m), writeq = (\<lambda>address val m. m),
      readb_checked = (\<lambda>address val m. (True, val, m)),
      readw_checked = (\<lambda>address val m. (True, val, m)),
      readd_checked = (\<lambda>address val m. (True, val, m)),
      readq_checked = (\<lambda>address val m. (True, val, m)),
      writeb_checked = (\<lambda>address val m. (True, m)),
      writew_checked = (\<lambda>address val m. (True, m)),
      writed_checked = (\<lambda>address val m. (True, m)),
      writeq_checked = (\<lambda>address val m. (True, m))\<rparr>"

definition env0 :: "machine env" where
  "env0 = \<lparr>handlers = (\<lambda>h. unmapped_handler),
           DEBUG_UpdateMemoryReadBreakpoints = (\<lambda>sz address m. m)\<rparr>"

definition machine0 :: machine where
  "machine0 =
     \<lparr>tlb_read = (\<lambda>page. if page = 1 then 0x7f0000000000 else 0),
      tlb_write = (\<lambda>page. if page = 1 then 0x7f0000000000 else 0),
      tlb_readhandler = (\<lambda>page. 0),
      tlb_writehandler = (\<lambda>page. 0),
      tlb_phys_page = (\<lambda>page. page),
      host_mem = (\<lambda>ptr. if ptr = 0x7f0000001234 then 0xab else 0)\<rparr>"

text \<open>
  Bodies for the checked reads of a handler: the byte at \<open>0x3000\<close> reads as \<open>0x5a\<close>,
  every other checked read fails.  \<open>env_rom\<close> is the concrete environment with these
  bodies, and \<open>env_loud\<close> the one whose trapping members and hook all write \<open>0xee\<close>
  to the host byte 0.
\<close>

definition bodies0 :: "'m checked_read_bodies" where
  "bodies0 =
     \<lparr>body_readb = (\<lambda>address m. if address = 0x3000 then (Some 0x5a, m) else (None, m)),
      body_readw = (\<lambda>address m. (None, m)),
      body_readd = (\<lambda>address m. (None, m)),
      body_readq = (\<lambda>address m. (None, m))\<rparr>"

definition env_rom :: "machine env" where
  "env_rom = env_with_bodies (\<lambda>h. bodies0) env0"

definition loud_handler :: "machine PageHandler" where
  "loud_handler =
     \<lparr>readb = (\<lambda>address m. (0, host_writeb 0 0xee m)),
      readw = (\<lambda>address m. (0, host_writeb 0 0xee m)),
      readd = (\<lambda>address m. (0, host_writeb 0 0xee m)),
      readq = (\<lambda>address m. (0, host_writeb 0 0xee m)),
      writeb = (\<lambda>address val m. host_writeb 0 0xee m),
      writew = (\<lambda>address val m. host_writeb 0 0xee m),
      writed = (\<lambda>address val m. host_writeb 0 0xee m),
      writeq = (\<lambda>address val m. host_writeb 0 0xee m),
      readb_checked = (\<lambda>address val m. (True, val, m)),
      readw_checked = (\<lambda>address val m. (True, val, m)),
      readd_checked = (\<lambda>address val m. (True, val, m)),
      readq_checked = (\<lambda>address val m. (True, val, m)),
      writeb_checked = (\<lambda>address val m. (True, m)),
      writew_checked = (\<lambda>address val m. (True, m)),
      writed_checked = (\<lambda>address val m. (True, m)),
      writeq_checked = (\<lambda>address val m. (True, m))\<rparr>"

definition env_loud :: "machine env" where
  "env_loud = env_with_trapping (\<lambda>h. loud_handler) (\<lambda>sz address m. host_writeb 0 0xee m) env_rom"

section \<open>CPU state of the normal core\<close>

text \<open>
  The register file, the flags and the CPU block are declared in regs.h and cpu.h, which
  are not among the sources; the opcode cases of prefix_0f.h reach them through macros
  (\<open>reg_al\<close>, \<open>reg_ax\<close>, \<open>reg_flags\<close>, \<open>cpu.cpl\<close>, \<open>SETFLAGBIT\<close>) and through the
  lookup tables of the ModRM byte.  The eight general registers are 32-bit values in the
  x86 order EAX, ECX, EDX, EBX, ESP, EBP, ESI, EDI; a 16-bit register is the low half of
  one of them, and the byte registers are, in the order AL, CL, DL, BL, AH, CH, DH, BH,
  the low bytes of the first four and then their second bytes.
\<close>

text \<open>
  \<open>lflags.type\<close> says which instruction the lazily computed flags come from.  The
  cases embedded here only assign \<open>t_UNKNOWN\<close> (the flags in \<open>reg_flags\<close> are the
  current ones); \<open>t_KNOWN\<close> stands for every other value of the enumeration.
\<close>

datatype lflag_type = t_UNKNOWN | t_KNOWN

record cpu_state =
  regs :: "nat \<Rightarrow> 32 word"
  reg_flags :: "32 word"
  lflags_type :: lflag_type
  cpl :: nat
  pmode :: bool
  cr :: "nat \<Rightarrow> 32 word"
  CPU_ArchitectureType :: nat

text \<open>
  The order of \<open>ArchitectureType\<close> is all the cases use; \<open>Intel486OldSlow\<close> is the
  first generation that has CMPXCHG, XADD and BSWAP.
\<close>

definition Intel486OldSlow :: nat where
  "Intel486OldSlow = 0x40"

definition FLAG_ZF :: "32 word" where
  "FLAG_ZF = 0x40"

definition EXCEPTION_GP :: nat where
  "EXCEPTION_GP = 13"

definition SETFLAGBIT :: "32 word \<Rightarrow> bool \<Rightarrow> cpu_state \<Rightarrow> cpu_state" where
  "SETFLAGBIT flag test cpu =
     (if test then cpu\<lparr>reg_flags := reg_flags cpu OR flag\<rparr>
      else cpu\<lparr>reg_flags := reg_flags cpu AND NOT flag\<rparr>)"

definition get_reg8 :: "cpu_state \<Rightarrow> nat \<Rightarrow> 8 word" where
  "get_reg8 cpu i = (if i < 4 then ucast (regs cpu i) else ucast (drop_bit 8 (regs cpu (i - 4))))"

definition set_reg8 :: "nat \<Rightarrow> 8 word \<Rightarrow> cpu_state \<Rightarrow> cpu_state" where
  "set_reg8 i v cpu =
     (if i < 4 then cpu\<lparr>regs := (regs cpu)(i := push_bit 8 (drop_bit 8 (regs cpu i)) OR ucast v)\<rparr>
      else cpu\<lparr>regs := (regs cpu)(i - 4 :=
             push_bit 16 (drop_bit 16 (regs cpu (i - 4))) OR push_bit 8 (ucast v)
               OR take_bit 8 (regs cpu (i - 4)))\<rparr>)"

definition get_reg16 :: "cpu_state \<Rightarrow> nat \<Rightarrow> 16 word" where
  "get_reg16 cpu i = ucast (regs cpu i)"

definition set_reg16 :: "nat \<Rightarrow> 16 word \<Rightarrow> cpu_state \<Rightarrow> cpu_state" where
  "set_reg16 i v cpu = cpu\<lparr>regs := (regs cpu)(i := push_bit 16 (drop_bit 16 (regs cpu i)) OR ucast v)\<rparr>"

definition set_reg32 :: "nat \<Rightarrow> 32 word \<Rightarrow> cpu_state \<Rightarrow> cpu_state" where
  "set_reg32 i v cpu = cpu\<lparr>regs := (regs cpu)(i := v)\<rparr>"

text \<open>\<open>reg_al\<close> and \<open>reg_ax\<close>: the accumulator is register 0.\<close>

definition reg_al :: "cpu_state \<Rightarrow> 8 word" where
  "reg_al cpu = get_reg8 cpu 0"

definition reg_ax :: "cpu_state \<Rightarrow> 16 word" where
  "reg_ax cpu = get_reg16 cpu 0"

text \<open>
  The lookup tables map the ModRM byte to a register: \<open>lookupRMreg*\<close> by its \<open>reg\<close>
  field (bits 3 to 5), \<open>lookupRMEAreg*\<close> by its \<open>rm\<close> field (bits 0 to 2), used when
  the byte is \<open>0xc0\<close> or above.
\<close>

definition lookupRMregb :: "8 word \<Rightarrow> nat" where
  "lookupRMregb rm = unat (drop_bit 3 rm AND 7)"

definition lookupRMregw :: "8 word \<Rightarrow> nat" where
  "lookupRMregw rm = unat (drop_bit 3 rm AND 7)"

definition lookupRMEAregb :: "8 word \<Rightarrow> nat" where
  "lookupRMEAregb rm = unat (rm AND 7)"

definition lookupRMEAregw :: "8 word \<Rightarrow> nat" where
  "lookupRMEAregw rm = unat (rm AND 7)"

definition lookupRMEAregd :: "8 word \<Rightarrow> nat" where
  "lookupRMEAregd rm = unat (rm AND 7)"

text \<open>
  \<open>LoadMb\<close>, \<open>LoadMw\<close>, \<open>SaveMb\<close> and \<open>SaveMw\<close> are the core's names for \<open>mem_readb\<close>,
  \<open>mem_readw\<close>, \<open>mem_writeb\<close> and \<open>mem_writew\<close>, which call the inline functions of
  paging.h with the default \<open>op_mode\<close>.
\<close>

definition LoadMb :: "'x machine_scheme env \<Rightarrow> PhysPt \<Rightarrow> 'x machine_scheme \<Rightarrow> 8 word \<times> 'x machine_scheme" where
  "LoadMb E off m = mem_readb_inline E WithBreakpoints off m"

definition LoadMw :: "'x machine_scheme env \<Rightarrow> PhysPt \<Rightarrow> 'x machine_scheme \<Rightarrow> 16 word \<times> 'x machine_scheme" where
  "LoadMw E off m = mem_readw_inline E WithBreakpoints off m"

definition SaveMb :: "'x machine_scheme env \<Rightarrow> PhysPt \<Rightarrow> 8 word \<Rightarrow> 'x machine_scheme \<Rightarrow> 'x machine_scheme" where
  "SaveMb E off val m = mem_writeb_inline E off val m"

definition SaveMw :: "'x machine_scheme env \<Rightarrow> PhysPt \<Rightarrow> 16 word \<Rightarrow> 'x machine_scheme \<Rightarrow> 'x machine_scheme" where
  "SaveMw E off val m = mem_writew_inline E off val m"

text \<open>
  How a case of the opcode switch ends: \<open>break\<close> (the instruction is done),
  \<open>goto illegal_opcode\<close>, or \<open>RUNEXCEPTION()\<close> with the prepared exception.
\<close>

datatype core_result = Done | IllegalOpcode | RunException nat

section \<open>CMPXCHG (core_normal/prefix_0f.h, cases 0xb0 and 0xb1)\<close>

text \<open>
  A case takes the ModRM byte \<open>rm\<close> that \<open>GetRMrb\<close> or \<open>GetRMrw\<close> fetched and, for a
  memory operand, the effective address \<open>eaa\<close> that \<open>GetEAa\<close> computed.  \<open>FillFlags\<close>
  (lazyflags, not among the sources) is a parameter.
\<close>

definition CASE_0F_B_0xb0 ::
  "'x machine_scheme env \<Rightarrow> (cpu_state \<Rightarrow> cpu_state) \<Rightarrow> 8 word \<Rightarrow> PhysPt \<Rightarrow> cpu_state \<Rightarrow> 'x machine_scheme
     \<Rightarrow> core_result \<times> cpu_state \<times> 'x machine_scheme" where
  "CASE_0F_B_0xb0 E FillFlags rm eaa cpu_in m =
     (if CPU_ArchitectureType cpu_in < Intel486OldSlow then (IllegalOpcode, cpu_in, m)
      else
        let cpu = FillFlags cpu_in;
            rmrb = lookupRMregb rm
        in if rm \<ge> 0xc0 then
             (let earb = lookupRMEAregb rm
              in if reg_al cpu = get_reg8 cpu earb
                 then (Done, SETFLAGBIT FLAG_ZF True (set_reg8 earb (get_reg8 cpu rmrb) cpu), m)
                 else (Done, SETFLAGBIT FLAG_ZF False (set_reg8 0 (get_reg8 cpu earb) cpu), m))
           else
             (case LoadMb E eaa m of
                (val, m1) \<Rightarrow>
                  if reg_al cpu = val
                  then (Done, SETFLAGBIT FLAG_ZF True cpu, SaveMb E eaa (get_reg8 cpu rmrb) m1)
                  else (Done, SETFLAGBIT FLAG_ZF False (set_reg8 0 val cpu), SaveMb E eaa val m1)))"

definition CASE_0F_W_0xb1 ::
  "'x machine_scheme env \<Rightarrow> (cpu_state \<Rightarrow> cpu_state) \<Rightarrow> 8 word \<Rightarrow> PhysPt \<Rightarrow> cpu_state \<Rightarrow> 'x machine_scheme
     \<Rightarrow> core_result \<times> cpu_state \<times> 'x machine_scheme" where
  "CASE_0F_W_0xb1 E FillFlags rm eaa cpu_in m =
     (if CPU_ArchitectureType cpu_in < Intel486OldSlow then (IllegalOpcode, cpu_in, m)
      else
        let cpu = FillFlags cpu_in;
            rmrw = lookupRMregw rm
        in if rm \<ge> 0xc0 then
             (let earw = lookupRMEAregw rm
              in if reg_ax cpu = get_reg16 cpu earw
                 then (Done, SETFLAGBIT FLAG_ZF True (set_reg16 earw (get_reg16 cpu rmrw) cpu), m)
                 else (Done, SETFLAGBIT FLAG_ZF False (set_reg16 0 (get_reg16 cpu earw) cpu), m))
           else
             (case LoadMw E eaa m of
                (val, m1) \<Rightarrow>
                  if reg_ax cpu = val
                  then (Done, SETFLAGBIT FLAG_ZF True cpu, SaveMw E eaa (get_reg16 cpu rmrw) m1)
                  else (Done, SETFLAGBIT FLAG_ZF False (set_reg16 0 val cpu), SaveMw E eaa val m1)))"

section \<open>BSF Gw,Ew (core_normal/prefix_0f.h, case 0xbc)\<close>

text \<open>
  The loop \<open>while ((value & 0x01)==0) { result++; value>>=1; }\<close> on 16-bit values.
  It does not return on \<open>value = 0\<close>, so its result is an option and \<open>None\<close> stands for
  not returning.
\<close>

partial_function (option) bsf_loop :: "16 word \<Rightarrow> 16 word \<Rightarrow> 16 word option" where
  "bsf_loop result val =
     (if val AND 0x01 = 0 then bsf_loop (result + 1) (drop_bit 1 val) else Some result)"

definition CASE_0F_W_0xbc ::
  "'x machine_scheme env \<Rightarrow> 8 word \<Rightarrow> PhysPt \<Rightarrow> cpu_state \<Rightarrow> 'x machine_scheme
     \<Rightarrow> (core_result \<times> cpu_state \<times> 'x machine_scheme) option" where
  "CASE_0F_W_0xbc E rm eaa cpu m =
     (let rmrw = lookupRMregw rm
      in case (if rm \<ge> 0xc0 then (get_reg16 cpu (lookupRMEAregw rm), m) else LoadMw E eaa m) of
           (val, m1) \<Rightarrow>
             if val = 0 then Some (Done, (SETFLAGBIT FLAG_ZF True cpu)\<lparr>lflags_type := t_UNKNOWN\<rparr>, m1)
             else
               (case bsf_loop 0 val of
                  None \<Rightarrow> None
                | Some result \<Rightarrow>
                    Some (Done,
                          (set_reg16 rmrw result (SETFLAGBIT FLAG_ZF False cpu))\<lparr>lflags_type := t_UNKNOWN\<rparr>,
                          m1)))"

section \<open>MOV Rd,CRx (core_normal/prefix_0f.h, case 0x20)\<close>

text \<open>
  Modelled from the spec: \<open>CPU_READ_CRX\<close> is defined in cpu.cpp, which is not among the
  sources.  By the spec the move from a control register at privilege level 0 reads the
  designated control register's value, and at a non-zero privilege level it is a
  protection violation raised before any state mutation.  The function returns the
  exception as a value (\<open>Inl\<close>) where the source returns \<open>true\<close> with the exception
  prepared in \<open>cpu.exception\<close>.
\<close>

definition CPU_READ_CRX :: "nat \<Rightarrow> cpu_state \<Rightarrow> nat + 32 word" where
  "CPU_READ_CRX which cpu = (if cpl cpu \<noteq> 0 then Inl EXCEPTION_GP else Inr (cr cpu which))"

text \<open>
  The case itself: a ModRM byte below \<open>0xc0\<close> is logged and treated as register-direct;
  the destination register is written only after \<open>CPU_READ_CRX\<close> succeeded.
\<close>

definition CASE_0F_B_0x20 :: "8 word \<Rightarrow> cpu_state \<Rightarrow> core_result \<times> cpu_state" where
  "CASE_0F_B_0x20 rm0 cpu =
     (let which = unat (drop_bit 3 rm0 AND 7);
          rm = (if rm0 < 0xc0 then rm0 OR 0xc0 else rm0);
          eard = lookupRMEAregd rm
      in case CPU_READ_CRX which cpu of
           Inl exception \<Rightarrow> (RunException exception, cpu)
         | Inr crx_value \<Rightarrow> (Done, set_reg32 eard crx_value cpu))"

section \<open>A concrete CPU state\<close>

text \<open>
  Protected mode at privilege level 0 on a 486: \<open>EAX = 0x11112233\<close>, \<open>ECX = 0x12345678\<close>,
  \<open>EBX = 0x00000028\<close>, the other general registers 0, \<open>CR0 = 0x60000011\<close>, and only
  the reserved flag bit 1 set.
\<close>

definition cpu_ring0 :: cpu_state where
  "cpu_ring0 =
     \<lparr>regs = (\<lambda>i. if i = 0 then 0x11112233 else if i = 1 then 0x12345678
                   else if i = 3 then 0x00000028 else 0),
      reg_flags = 0x2,
      lflags_type = t_KNOWN,
      cpl = 0,
      pmode = True,
      cr = (\<lambda>i. if i = 0 then 0x60000011 else 0),
      CPU_ArchitectureType = 0x45\<rparr>"

section \<open>The dynamic recompiler's FPU translation (core_dynrec/dyn_fpu.h)\<close>

text \<open>
  The \<open>dyn_fpu_esc\<close> functions emit host code through the \<open>gen_\<close> primitives of the
  recompiler's back end, which is not among the sources.  The emitted code is the list
  of the primitives called, in order; a function pointer is the name of the function.
  \<open>LOG\<close> and \<open>FPU_LOG_WARN\<close> write to the log at translation time and emit nothing.
\<close>

datatype HostReg = FC_OP1 | FC_OP2 | FC_ADDR

datatype host_loc = loc_TOP | loc_fpu_sw

datatype gen_op =
    gen_mov_word_to_reg HostReg host_loc bool
  | gen_add_imm HostReg nat
  | gen_and_imm HostReg nat
  | gen_call_function_raw string
  | gen_call_function_R string HostReg
  | gen_call_function_RR string HostReg HostReg
  | gen_protect_reg HostReg
  | gen_restore_reg HostReg
  | dyn_fill_ea HostReg
  | MOV_REG_WORD16_FROM_HOST_REG HostReg

text \<open>
  \<open>decode.modrm\<close> as \<open>dyn_get_modrm\<close> (decoder_basic.h, not among the sources) fills
  it from the ModRM byte: the byte, its mode field (bits 6 and 7), its \<open>reg\<close> field
  (bits 3 to 5) and its \<open>rm\<close> field (bits 0 to 2).
\<close>

record modrm =
  modrm_val :: nat
  modrm_mod :: nat
  modrm_reg :: nat
  modrm_rm :: nat

definition dyn_get_modrm :: "8 word \<Rightarrow> modrm" where
  "dyn_get_modrm b =
     \<lparr>modrm_val = unat b,
      modrm_mod = unat (drop_bit 6 b AND 3),
      modrm_reg = unat (drop_bit 3 b AND 7),
      modrm_rm = unat (b AND 7)\<rparr>"

definition dyn_fpu_top :: "modrm \<Rightarrow> gen_op list" where
  "dyn_fpu_top decode =
     [gen_mov_word_to_reg FC_OP2 loc_TOP True,
      gen_add_imm FC_OP2 (modrm_rm decode),
      gen_and_imm FC_OP2 7,
      gen_mov_word_to_reg FC_OP1 loc_TOP True]"

definition dyn_fpu_top_swapped :: "modrm \<Rightarrow> gen_op list" where
  "dyn_fpu_top_swapped decode =
     [gen_mov_word_to_reg FC_OP1 loc_TOP True,
      gen_add_imm FC_OP1 (modrm_rm decode),
      gen_and_imm FC_OP1 7,
      gen_mov_word_to_reg FC_OP2 loc_TOP True]"

definition dyn_eatree :: "modrm \<Rightarrow> gen_op list" where
  "dyn_eatree decode =
     (let group = modrm_reg decode mod 8
      in if group = 0x00 then [gen_call_function_R ''FPU_FADD_EA'' FC_OP1]
         else if group = 0x01 then [gen_call_function_R ''FPU_FMUL_EA'' FC_OP1]
         else if group = 0x02 then [gen_call_function_R ''FPU_FCOM_EA'' FC_OP1]
         else if group = 0x03 then
           [gen_call_function_R ''FPU_FCOM_EA'' FC_OP1, gen_call_function_raw ''FPU_FPOP'']
         else if group = 0x04 then [gen_call_function_R ''FPU_FSUB_EA'' FC_OP1]
         else if group = 0x05 then [gen_call_function_R ''FPU_FSUBR_EA'' FC_OP1]
         else if group = 0x06 then [gen_call_function_R ''FPU_FDIV_EA'' FC_OP1]
         else if group = 0x07 then [gen_call_function_R ''FPU_FDIVR_EA'' FC_OP1]
         else [])"

definition dyn_fpu_esc0 :: "modrm \<Rightarrow> gen_op list" where
  "dyn_fpu_esc0 decode =
     (if modrm_mod decode = 3 then
        dyn_fpu_top decode @
        (let reg = modrm_reg decode
         in if reg = 0x00 then [gen_call_function_RR ''FPU_FADD'' FC_OP1 FC_OP2]
            else if reg = 0x01 then [gen_call_function_RR ''FPU_FMUL'' FC_OP1 FC_OP2]
            else if reg = 0x02 then [gen_call_function_RR ''FPU_FCOM'' FC_OP1 FC_OP2]
            else if reg = 0x03 then
              [gen_call_function_RR ''FPU_FCOM'' FC_OP1 FC_OP2, gen_call_function_raw ''FPU_FPOP'']
            else if reg = 0x04 then [gen_call_function_RR ''FPU_FSUB'' FC_OP1 FC_OP2]
            else if reg = 0x05 then [gen_call_function_RR ''FPU_FSUBR'' FC_OP1 FC_OP2]
            else if reg = 0x06 then [gen_call_function_RR ''FPU_FDIV'' FC_OP1 FC_OP2]
            else if reg = 0x07 then [gen_call_function_RR ''FPU_FDIVR'' FC_OP1 FC_OP2]
            else [])
      else
        [dyn_fill_ea FC_ADDR,
         gen_call_function_R ''FPU_FLD_F32_EA'' FC_ADDR,
         gen_mov_word_to_reg FC_OP1 loc_TOP True] @ dyn_eatree decode)"

definition dyn_fpu_esc1 :: "modrm \<Rightarrow> gen_op list" where
  "dyn_fpu_esc1 decode =
     (let reg = modrm_reg decode; rm = modrm_rm decode
      in if modrm_mod decode = 3 then
           (if reg = 0x00 then
              [gen_mov_word_to_reg FC_OP1 loc_TOP True,
               gen_add_imm FC_OP1 rm,
               gen_and_imm FC_OP1 7,
               gen_protect_reg FC_OP1,
               gen_call_function_raw ''FPU_PREP_PUSH'',
               gen_mov_word_to_reg FC_OP2 loc_TOP True,
               gen_restore_reg FC_OP1,
               gen_call_function_RR ''FPU_FST'' FC_OP1 FC_OP2]
            else if reg = 0x01 then
              dyn_fpu_top decode @ [gen_call_function_RR ''FPU_FXCH'' FC_OP1 FC_OP2]
            else if reg = 0x02 then [gen_call_function_raw ''FPU_FNOP'']
            else if reg = 0x03 then
              dyn_fpu_top decode @
              [gen_call_function_RR ''FPU_FST'' FC_OP1 FC_OP2, gen_call_function_raw ''FPU_FPOP'']
            else if reg = 0x04 then
              (if rm = 0x00 then [gen_call_function_raw ''FPU_FCHS'']
               else if rm = 0x01 then [gen_call_function_raw ''FPU_FABS'']
               else if rm = 0x02 \<or> rm = 0x03 then []
               else if rm = 0x04 then [gen_call_function_raw ''FPU_FTST'']
               else if rm = 0x05 then [gen_call_function_raw ''FPU_FXAM'']
               else [])
            else if reg = 0x05 then
              (if rm = 0x00 then [gen_call_function_raw ''FPU_FLD1'']
               else if rm = 0x01 then [gen_call_function_raw ''FPU_FLDL2T'']
               else if rm = 0x02 then [gen_call_function_raw ''FPU_FLDL2E'']
               else if rm = 0x03 then [gen_call_function_raw ''FPU_FLDPI'']
               else if rm = 0x04 then [gen_call_function_raw ''FPU_FLDLG2'']
               else if rm = 0x05 then [gen_call_function_raw ''FPU_FLDLN2'']
               else if rm = 0x06 then [gen_call_function_raw ''FPU_FLDZ'']
               else [])
            else if reg = 0x06 then
              (if rm = 0x00 then [gen_call_function_raw ''FPU_F2XM1'']
               else if rm = 0x01 then [gen_call_function_raw ''FPU_FYL2X'']
               else if rm = 0x02 then [gen_call_function_raw ''FPU_FPTAN'']
               else if rm = 0x03 then [gen_call_function_raw ''FPU_FPATAN'']
               else if rm = 0x04 then [gen_call_function_raw ''FPU_FXTRACT'']
               else if rm = 0x05 then [gen_call_function_raw ''FPU_FPREM1'']
               else if rm = 0x06 then [gen_call_function_raw ''FPU_FDECSTP'']
               else if rm = 0x07 then [gen_call_function_raw ''FPU_FINCSTP'']
               else [])
            else if reg = 0x07 then
              (if rm = 0x00 then [gen_call_function_raw ''FPU_FPREM'']
               else if rm = 0x01 then [gen_call_function_raw ''FPU_FYL2XP1'']
               else if rm = 0x02 then [gen_call_function_raw ''FPU_FSQRT'']
               else if rm = 0x03 then [gen_call_function_raw ''FPU_FSINCOS'']
               else if rm = 0x04 then [gen_call_function_raw ''FPU_FRNDINT'']
               else if rm = 0x05 then [gen_call_function_raw ''FPU_FSCALE'']
               else if rm = 0x06 then [gen_call_function_raw ''FPU_FSIN'']
               else if rm = 0x07 then [gen_call_function_raw ''FPU_FCOS'']
               else [])
            else [])
         else
           (if reg = 0x00 then
              [gen_call_function_raw ''FPU_PREP_PUSH'',
               dyn_fill_ea FC_OP1,
               gen_mov_word_to_reg FC_OP2 loc_TOP True,
               gen_call_function_RR ''FPU_FLD_F32'' FC_OP1 FC_OP2]
            else if reg = 0x01 then []
            else if reg = 0x02 then
              [dyn_fill_ea FC_ADDR, gen_call_function_R ''FPU_FST_F32'' FC_ADDR]
            else if reg = 0x03 then
              [dyn_fill_ea FC_ADDR, gen_call_function_R ''FPU_FST_F32'' FC_ADDR,
               gen_call_function_raw ''FPU_FPOP'']
            else if reg = 0x04 then
              [dyn_fill_ea FC_ADDR, gen_call_function_R ''FPU_FLDENV'' FC_ADDR]
            else if reg = 0x05 then
              [dyn_fill_ea FC_ADDR, gen_call_function_R ''FPU_FLDCW'' FC_ADDR]
            else if reg = 0x06 then
              [dyn_fill_ea FC_ADDR, gen_call_function_R ''FPU_FSTENV'' FC_ADDR]
            else if reg = 0x07 then
              [dyn_fill_ea FC_ADDR, gen_call_function_R ''FPU_FNSTCW'' FC_ADDR]
            else []))"

definition dyn_fpu_esc2 :: "modrm \<Rightarrow> gen_op list" where
  "dyn_fpu_esc2 decode =
     (if modrm_mod decode = 3 then
        (if modrm_reg decode = 0x05 then
           (if modrm_rm decode = 0x01 then
              [gen_mov_word_to_reg FC_OP2 loc_TOP True,
               gen_add_imm FC_OP2 1,
               gen_and_imm FC_OP2 7,
               gen_mov_word_to_reg FC_OP1 loc_TOP True,
               gen_call_function_RR ''FPU_FUCOM'' FC_OP1 FC_OP2,
               gen_call_function_raw ''FPU_FPOP'',
               gen_call_function_raw ''FPU_FPOP'']
            else [])
         else [])
      else
        [dyn_fill_ea FC_ADDR,
         gen_call_function_R ''FPU_FLD_I32_EA'' FC_ADDR,
         gen_mov_word_to_reg FC_OP1 loc_TOP True] @ dyn_eatree decode)"

text \<open>\<open>E_Exit\<close> ends the emulator; the translation that reaches it is \<open>Inl\<close> its message.\<close>

definition dyn_fpu_esc3 :: "modrm \<Rightarrow> string + gen_op list" where
  "dyn_fpu_esc3 decode =
     (let reg = modrm_reg decode; rm = modrm_rm decode
      in if modrm_mod decode = 3 then
           (if reg = 0x04 then
              (if rm = 0x00 \<or> rm = 0x01 then Inr []
               else if rm = 0x02 then Inr [gen_call_function_raw ''FPU_FCLEX'']
               else if rm = 0x03 then Inr [gen_call_function_raw ''FPU_FINIT'']
               else if rm = 0x04 \<or> rm = 0x05 then Inr []
               else Inl ''ESC 3:ILLEGAL OPCODE'')
            else Inr [])
         else
           (if reg = 0x00 then
              Inr [gen_call_function_raw ''FPU_PREP_PUSH'',
                   dyn_fill_ea FC_OP1,
                   gen_mov_word_to_reg FC_OP2 loc_TOP True,
                   gen_call_function_RR ''FPU_FLD_I32'' FC_OP1 FC_OP2]
            else if reg = 0x01 then Inr []
            else if reg = 0x02 then
              Inr [dyn_fill_ea FC_ADDR, gen_call_function_R ''FPU_FST_I32'' FC_ADDR]
            else if reg = 0x03 then
              Inr [dyn_fill_ea FC_ADDR, gen_call_function_R ''FPU_FST_I32'' FC_ADDR,
                   gen_call_function_raw ''FPU_FPOP'']
            else if reg = 0x05 then
              Inr [gen_call_function_raw ''FPU_PREP_PUSH'',
                   dyn_fill_ea FC_ADDR,
                   gen_call_function_R ''FPU_FLD_F80'' FC_ADDR]
            else if reg = 0x07 then
              Inr [dyn_fill_ea FC_ADDR, gen_call_function_R ''FPU_FST_F80'' FC_ADDR,
                   gen_call_function_raw ''FPU_FPOP'']
            else Inr []))"

definition dyn_fpu_esc4 :: "modrm \<Rightarrow> gen_op list" where
  "dyn_fpu_esc4 decode =
     (let reg = modrm_reg decode
      in if modrm_mod decode = 3 then
           (if reg = 0x00 then
              dyn_fpu_top_swapped decode @ [gen_call_function_RR ''FPU_FADD'' FC_OP1 FC_OP2]
            else if reg = 0x01 then
              dyn_fpu_top_swapped decode @ [gen_call_function_RR ''FPU_FMUL'' FC_OP1 FC_OP2]
            else if reg = 0x02 then
              dyn_fpu_top decode @ [gen_call_function_RR ''FPU_FCOM'' FC_OP1 FC_OP2]
            else if reg = 0x03 then
              dyn_fpu_top decode @
              [gen_call_function_RR ''FPU_FCOM'' FC_OP1 FC_OP2, gen_call_function_raw ''FPU_FPOP'']
            else if reg = 0x04 then
              dyn_fpu_top_swapped decode @ [gen_call_function_RR ''FPU_FSUBR'' FC_OP1 FC_OP2]
            else if reg = 0x05 then
              dyn_fpu_top_swapped decode @ [gen_call_function_RR ''FPU_FSUB'' FC_OP1 FC_OP2]
            else if reg = 0x06 then
              dyn_fpu_top_swapped decode @ [gen_call_function_RR ''FPU_FDIVR'' FC_OP1 FC_OP2]
            else if reg = 0x07 then
              dyn_fpu_top_swapped decode @ [gen_call_function_RR ''FPU_FDIV'' FC_OP1 FC_OP2]
            else [])
         else
           [dyn_fill_ea FC_ADDR,
            gen_call_function_R ''FPU_FLD_F64_EA'' FC_ADDR,
            gen_mov_word_to_reg FC_OP1 loc_TOP True] @ dyn_eatree decode)"

definition dyn_fpu_esc5 :: "modrm \<Rightarrow> gen_op list" where
  "dyn_fpu_esc5 decode =
     (let reg = modrm_reg decode
      in if modrm_mod decode = 3 then
           dyn_fpu_top decode @
           (if reg = 0x00 then [gen_call_function_R ''FPU_FFREE'' FC_OP2]
            else if reg = 0x01 then [gen_call_function_RR ''FPU_FXCH'' FC_OP1 FC_OP2]
            else if reg = 0x02 then [gen_call_function_RR ''FPU_FST'' FC_OP1 FC_OP2]
            else if reg = 0x03 then
              [gen_call_function_RR ''FPU_FST'' FC_OP1 FC_OP2, gen_call_function_raw ''FPU_FPOP'']
            else if reg = 0x04 then [gen_call_function_RR ''FPU_FUCOM'' FC_OP1 FC_OP2]
            else if reg = 0x05 then
              [gen_call_function_RR ''FPU_FUCOM'' FC_OP1 FC_OP2, gen_call_function_raw ''FPU_FPOP'']
            else [])
         else
           (if reg = 0x00 then
              [gen_call_function_raw ''FPU_PREP_PUSH'',
               dyn_fill_ea FC_OP1,
               gen_mov_word_to_reg FC_OP2 loc_TOP True,
               gen_call_function_RR ''FPU_FLD_F64'' FC_OP1 FC_OP2]
            else if reg = 0x01 then []
            else if reg = 0x02 then
              [dyn_fill_ea FC_ADDR, gen_call_function_R ''FPU_FST_F64'' FC_ADDR]
            else if reg = 0x03 then
              [dyn_fill_ea FC_ADDR, gen_call_function_R ''FPU_FST_F64'' FC_ADDR,
               gen_call_function_raw ''FPU_FPOP'']
            else if reg = 0x04 then
              [dyn_fill_ea FC_ADDR, gen_call_function_R ''FPU_FRSTOR'' FC_ADDR]
            else if reg = 0x06 then
              [dyn_fill_ea FC_ADDR, gen_call_function_R ''FPU_FSAVE'' FC_ADDR]
            else if reg = 0x07 then
              [gen_mov_word_to_reg FC_OP1 loc_TOP True,
               gen_call_function_R ''FPU_SET_TOP'' FC_OP1,
               dyn_fill_ea FC_OP1,
               gen_mov_word_to_reg FC_OP2 loc_fpu_sw False,
               gen_call_function_RR ''mem_writew'' FC_OP1 FC_OP2]
            else []))"

definition dyn_fpu_esc6 :: "modrm \<Rightarrow> gen_op list" where
  "dyn_fpu_esc6 decode =
     (let reg = modrm_reg decode
      in if modrm_mod decode = 3 then
           (if reg = 0x03 \<and> modrm_rm decode \<noteq> 1 then []
            else
              (if reg = 0x00 then
                 dyn_fpu_top_swapped decode @ [gen_call_function_RR ''FPU_FADD'' FC_OP1 FC_OP2]
               else if reg = 0x01 then
                 dyn_fpu_top_swapped decode @ [gen_call_function_RR ''FPU_FMUL'' FC_OP1 FC_OP2]
               else if reg = 0x02 then
                 dyn_fpu_top decode @ [gen_call_function_RR ''FPU_FCOM'' FC_OP1 FC_OP2]
               else if reg = 0x03 then
                 [gen_mov_word_to_reg FC_OP2 loc_TOP True,
                  gen_add_imm FC_OP2 1,
                  gen_and_imm FC_OP2 7,
                  gen_mov_word_to_reg FC_OP1 loc_TOP True,
                  gen_call_function_RR ''FPU_FCOM'' FC_OP1 FC_OP2,
                  gen_call_function_raw ''FPU_FPOP'']
               else if reg = 0x04 then
                 dyn_fpu_top_swapped decode @ [gen_call_function_RR ''FPU_FSUBR'' FC_OP1 FC_OP2]
               else if reg = 0x05 then
                 dyn_fpu_top_swapped decode @ [gen_call_function_RR ''FPU_FSUB'' FC_OP1 FC_OP2]
               else if reg = 0x06 then
                 dyn_fpu_top_swapped decode @ [gen_call_function_RR ''FPU_FDIVR'' FC_OP1 FC_OP2]
               else if reg = 0x07 then
                 dyn_fpu_top_swapped decode @ [gen_call_function_RR ''FPU_FDIV'' FC_OP1 FC_OP2]
               else [])
              @ [gen_call_function_raw ''FPU_FPOP''])
         else
           [dyn_fill_ea FC_ADDR,
            gen_call_function_R ''FPU_FLD_I16_EA'' FC_ADDR,
            gen_mov_word_to_reg FC_OP1 loc_TOP True] @ dyn_eatree decode)"

definition dyn_fpu_esc7 :: "modrm \<Rightarrow> gen_op list" where
  "dyn_fpu_esc7 decode =
     (let reg = modrm_reg decode
      in if modrm_mod decode = 3 then
           (if reg = 0x00 then
              dyn_fpu_top decode @
              [gen_call_function_R ''FPU_FFREE'' FC_OP2, gen_call_function_raw ''FPU_FPOP'']
            else if reg = 0x01 then
              dyn_fpu_top decode @ [gen_call_function_RR ''FPU_FXCH'' FC_OP1 FC_OP2]
            else if reg = 0x02 \<or> reg = 0x03 then
              dyn_fpu_top decode @
              [gen_call_function_RR ''FPU_FST'' FC_OP1 FC_OP2, gen_call_function_raw ''FPU_FPOP'']
            else if reg = 0x04 then
              (if modrm_rm decode = 0x00 then
                 [gen_mov_word_to_reg FC_OP1 loc_TOP True,
                  gen_call_function_R ''FPU_SET_TOP'' FC_OP1,
                  gen_mov_word_to_reg FC_OP1 loc_fpu_sw False,
                  MOV_REG_WORD16_FROM_HOST_REG FC_OP1]
               else [])
            else [])
         else
           (if reg = 0x00 then
              [gen_call_function_raw ''FPU_PREP_PUSH'',
               dyn_fill_ea FC_OP1,
               gen_mov_word_to_reg FC_OP2 loc_TOP True,
               gen_call_function_RR ''FPU_FLD_I16'' FC_OP1 FC_OP2]
            else if reg = 0x01 then []
            else if reg = 0x02 then
              [dyn_fill_ea FC_ADDR, gen_call_function_R ''FPU_FST_I16'' FC_ADDR]
            else if reg = 0x03 then
              [dyn_fill_ea FC_ADDR, gen_call_function_R ''FPU_FST_I16'' FC_ADDR,
               gen_call_function_raw ''FPU_FPOP'']
            else if reg = 0x04 then
              [gen_call_function_raw ''FPU_PREP_PUSH'',
               dyn_fill_ea FC_OP1,
               gen_mov_word_to_reg FC_OP2 loc_TOP True,
               gen_call_function_RR ''FPU_FBLD'' FC_OP1 FC_OP2]
            else if reg = 0x05 then
              [gen_call_function_raw ''FPU_PREP_PUSH'',
               dyn_fill_ea FC_OP1,
               gen_mov_word_to_reg FC_OP2 loc_TOP True,
               gen_call_function_RR ''FPU_FLD_I64'' FC_OP1 FC_OP2]
            else if reg = 0x06 then
              [dyn_fill_ea FC_ADDR, gen_call_function_R ''FPU_FBST'' FC_ADDR,
               gen_call_function_raw ''FPU_FPOP'']
            else if reg = 0x07 then
              [dyn_fill_ea FC_ADDR, gen_call_function_R ''FPU_FST_I64'' FC_ADDR,
               gen_call_function_raw ''FPU_FPOP'']
            else []))"

section \<open>Running the emitted FPU code\<close>

text \<open>
  What the emitted primitives do when the translated block runs.  The state holds the
  host registers, \<open>TOP\<close> and the status word of the FPU, the registers saved by
  \<open>gen_protect_reg\<close>, the effective address \<open>dyn_fill_ea\<close> computes, the guest's AX and
  the calls made so far, each with the values of its register arguments.  The helpers
  called (fpu_instructions.h and others, not among the sources) are a parameter: a call
  may change \<open>TOP\<close> and the status word and leaves the host registers as the helper
  says, so nothing is assumed to survive a call but what \<open>gen_protect_reg\<close> saved.
\<close>

record run_state =
  hreg :: "HostReg \<Rightarrow> 32 word"
  fpu_TOP :: "32 word"
  fpu_sw :: "16 word"
  saved :: "32 word list"
  ea :: "32 word"
  guest_ax :: "16 word"
  calls :: "(string \<times> 32 word list) list"

type_synonym helper =
  "string \<Rightarrow> 32 word list \<Rightarrow> 32 word \<times> 16 word \<times> (HostReg \<Rightarrow> 32 word)
     \<Rightarrow> 32 word \<times> 16 word \<times> (HostReg \<Rightarrow> 32 word)"

definition do_call :: "helper \<Rightarrow> string \<Rightarrow> 32 word list \<Rightarrow> run_state \<Rightarrow> run_state" where
  "do_call H f args s =
     (case H f args (fpu_TOP s, fpu_sw s, hreg s) of
        (t, w, r) \<Rightarrow> s\<lparr>hreg := r, fpu_TOP := t, fpu_sw := w, calls := calls s @ [(f, args)]\<rparr>)"

fun exec_op :: "helper \<Rightarrow> gen_op \<Rightarrow> run_state \<Rightarrow> run_state" where
  "exec_op H (gen_mov_word_to_reg r loc_TOP dword) s = s\<lparr>hreg := (hreg s)(r := fpu_TOP s)\<rparr>"
| "exec_op H (gen_mov_word_to_reg r loc_fpu_sw dword) s = s\<lparr>hreg := (hreg s)(r := ucast (fpu_sw s))\<rparr>"
| "exec_op H (gen_add_imm r imm) s = s\<lparr>hreg := (hreg s)(r := hreg s r + of_nat imm)\<rparr>"
| "exec_op H (gen_and_imm r imm) s = s\<lparr>hreg := (hreg s)(r := hreg s r AND of_nat imm)\<rparr>"
| "exec_op H (gen_call_function_raw f) s = do_call H f [] s"
| "exec_op H (gen_call_function_R f r) s = do_call H f [hreg s r] s"
| "exec_op H (gen_call_function_RR f r1 r2) s = do_call H f [hreg s r1, hreg s r2] s"
| "exec_op H (gen_protect_reg r) s = s\<lparr>saved := hreg s r # saved s\<rparr>"
| "exec_op H (gen_restore_reg r) s =
     (case saved s of [] \<Rightarrow> s | v # vs \<Rightarrow> s\<lparr>hreg := (hreg s)(r := v), saved := vs\<rparr>)"
| "exec_op H (dyn_fill_ea r) s = s\<lparr>hreg := (hreg s)(r := ea s)\<rparr>"
| "exec_op H (MOV_REG_WORD16_FROM_HOST_REG r) s = s\<lparr>guest_ax := ucast (hreg s r)\<rparr>"

fun exec :: "helper \<Rightarrow> gen_op list \<Rightarrow> run_state \<Rightarrow> run_state" where
  "exec H [] s = s"
| "exec H (c # cs) s = exec H cs (exec_op H c s)"

text \<open>
  A call names a stack register when it takes two register arguments or is \<open>FPU_FFREE\<close>
  (whose one argument is the register to free).
\<close>

definition names_sti :: "string \<times> 32 word list \<Rightarrow> bool" where
  "names_sti c = (length (snd c) = 2 \<or> fst c = ''FPU_FFREE'')"

definition sti_ok :: "helper \<Rightarrow> modrm \<Rightarrow> run_state \<Rightarrow> gen_op list \<Rightarrow> bool" where
  "sti_ok H decode s code =
     list_all (\<lambda>c. names_sti c \<longrightarrow> (fpu_TOP s + of_nat (modrm_rm decode)) AND 7 \<in> set (snd c))
       (calls (exec H code s))"

text \<open>
  A helper table for a concrete run: \<open>FPU_PREP_PUSH\<close> and \<open>FPU_FPOP\<close> move \<open>TOP\<close>, and
  every call leaves \<open>0xdeadbeef\<close> in the host registers.
\<close>

definition helper0 :: helper where
  "helper0 f args st =
     (case st of (t, w, r) \<Rightarrow>
        ((if f = ''FPU_PREP_PUSH'' then (t - 1) AND 7
          else if f = ''FPU_FPOP'' then (t + 1) AND 7 else t),
         w, (\<lambda>x. 0xdeadbeef)))"

definition run0 :: run_state where
  "run0 = \<lparr>hreg = (\<lambda>x. 0), fpu_TOP = 6, fpu_sw = 0, saved = [], ea = 0x2000, guest_ax = 0,
           calls = []\<rparr>"

section \<open>Page flags (include/paging.h)\<close>

definition PFLAG_HASCODE32 :: "8 word" where
  "PFLAG_HASCODE32 = 0x8"

definition PFLAG_HASCODE16 :: "8 word" where
  "PFLAG_HASCODE16 = 0x40"

definition PFLAG_HASCODE :: "8 word" where
  "PFLAG_HASCODE = PFLAG_HASCODE32 OR PFLAG_HASCODE16"

section \<open>The block cache and self-modifying code\<close>

text \<open>
  Modelled from the spec: the recompiler's block cache, the code-tracking page handler
  and the invalidation of blocks are not among the sources, which only define the
  \<open>PFLAG_HASCODE\<close> flags.  By the spec a translated block records its guest start
  address, the translation, the covered guest length and the originating physical pages;
  before a block is cached every page it covers is flagged \<open>has_code\<close> (the 16-bit or
  the 32-bit flag); a write to a page flagged \<open>has_code\<close> evicts every block whose
  originating pages include that page before the store; the cache is keyed by the guest
  start address and eviction is per page.  A translation is represented by the bytes
  it was derived from: running a block runs the translation of exactly these bytes.
\<close>

record TranslatedBlock =
  guest_start_address :: PhysPt
  opcode_sequence :: "8 word list"
  covered_guest_length :: nat
  originating_physical_pages :: "32 word list"

record engine =
  guest_mem :: "PhysPt \<Rightarrow> 8 word"
  page_flags :: "32 word \<Rightarrow> 8 word"
  block_cache :: "TranslatedBlock list"

definition page_of :: "PhysPt \<Rightarrow> 32 word" where
  "page_of addr = drop_bit 12 addr"

primrec fetch_run :: "(PhysPt \<Rightarrow> 8 word) \<Rightarrow> PhysPt \<Rightarrow> nat \<Rightarrow> 8 word list" where
  "fetch_run mem start 0 = []"
| "fetch_run mem start (Suc n) = mem start # fetch_run mem (start + 1) n"

primrec covered_pages :: "PhysPt \<Rightarrow> nat \<Rightarrow> 32 word list" where
  "covered_pages start 0 = []"
| "covered_pages start (Suc n) = page_of start # covered_pages (start + 1) n"

definition cache_block :: "bool \<Rightarrow> PhysPt \<Rightarrow> nat \<Rightarrow> engine \<Rightarrow> engine" where
  "cache_block big start len s =
     (let pages = covered_pages start len;
          flag = (if big then PFLAG_HASCODE32 else PFLAG_HASCODE16);
          blk = \<lparr>guest_start_address = start,
                 opcode_sequence = fetch_run (guest_mem s) start len,
                 covered_guest_length = len,
                 originating_physical_pages = pages\<rparr>
      in s\<lparr>page_flags := (\<lambda>pg. if pg \<in> set pages then page_flags s pg OR flag else page_flags s pg),
           block_cache := blk # block_cache s\<rparr>)"

definition evict_page :: "32 word \<Rightarrow> engine \<Rightarrow> engine" where
  "evict_page pg s =
     s\<lparr>block_cache := filter (\<lambda>b. pg \<notin> set (originating_physical_pages b)) (block_cache s),
       page_flags := (page_flags s)(pg := page_flags s pg AND NOT PFLAG_HASCODE)\<rparr>"

definition write_byte :: "PhysPt \<Rightarrow> 8 word \<Rightarrow> engine \<Rightarrow> engine" where
  "write_byte addr val s =
     (let s1 = (if page_flags s (page_of addr) AND PFLAG_HASCODE \<noteq> 0
                then evict_page (page_of addr) s else s)
      in s1\<lparr>guest_mem := (guest_mem s1)(addr := val)\<rparr>)"

definition find_block :: "PhysPt \<Rightarrow> engine \<Rightarrow> TranslatedBlock option" where
  "find_block start s = find (\<lambda>b. guest_start_address b = start) (block_cache s)"

text \<open>
  Executing at \<open>start\<close>: a cached block is run as it is; otherwise a block of \<open>len\<close>
  bytes is translated from memory, cached and run.  The result is the byte sequence
  whose translation runs, and the engine.
\<close>

definition execute_at :: "bool \<Rightarrow> PhysPt \<Rightarrow> nat \<Rightarrow> engine \<Rightarrow> 8 word list \<times> engine" where
  "execute_at big start len s =
     (case find_block start s of
        Some b \<Rightarrow> (opcode_sequence b, s)
      | None \<Rightarrow> (fetch_run (guest_mem s) start len, cache_block big start len s))"

datatype engine_op = Write PhysPt "8 word" | Execute bool PhysPt nat

fun engine_step :: "engine_op \<Rightarrow> engine \<Rightarrow> engine" where
  "engine_step (Write addr val) s = write_byte addr val s"
| "engine_step (Execute big start len) s = snd (execute_at big start len s)"

fun engine_run :: "engine_op list \<Rightarrow> engine \<Rightarrow> engine" where
  "engine_run [] s = s"
| "engine_run (x # xs) s = engine_run xs (engine_step x s)"

text \<open>
  The cache is coherent when every cached block holds the bytes that memory holds now
  over the range it covers, lists the pages of that range, and every one of them is
  flagged \<open>has_code\<close>.
\<close>

definition coherent :: "engine \<Rightarrow> bool" where
  "coherent s =
     list_all (\<lambda>b. opcode_sequence b
                     = fetch_run (guest_mem s) (guest_start_address b) (covered_guest_length b)
                  \<and> originating_physical_pages b
                     = covered_pages (guest_start_address b) (covered_guest_length b)
                  \<and> list_all (\<lambda>pg. page_flags s pg AND PFLAG_HASCODE \<noteq> 0)
                       (originating_physical_pages b))
       (block_cache s)"

text \<open>
  The scenario of the spec: memory holds \<open>MOV AX,1; RET\<close> (\<open>B8 01 00 C3\<close>) at
  \<open>0x1000\<close>, no page is flagged and the cache is empty.
\<close>

definition engine0 :: engine where
  "engine0 =
     \<lparr>guest_mem = (\<lambda>addr. if addr = 0x1000 then 0xb8 else if addr = 0x1001 then 0x01
                          else if addr = 0x1002 then 0x00 else if addr = 0x1003 then 0xc3 else 0),
      page_flags = (\<lambda>pg. 0),
      block_cache = []\<rparr>"

section \<open>Theorems\<close>

subsection \<open>FPU stack pointer rotation\<close>

lemma and7_less8: "(x :: 32 word) AND 7 < 8"
proof -
  have "x AND 7 \<le> 7" by (rule word_and_le1)
  then show ?thesis by (simp add: word_le_nat_alt word_less_nat_alt)
qed

lemma and7_mod8: "unat ((x :: 32 word) AND 7) = unat x mod 8"
proof -
  have "x AND 7 = take_bit 3 x"
    by (simp add: take_bit_eq_mask mask_eq_exp_minus_1)
  then have "unat (x AND 7) = take_bit 3 (unat x)"
    by (simp only: unsigned_take_bit_eq)
  then show ?thesis by (simp only: take_bit_eq_mod) simp
qed

lemma and7_id: "(x :: 32 word) < 8 \<Longrightarrow> x AND 7 = x"
proof -
  assume "x < 8"
  then have "x < 2 ^ 3" by simp
  then have "take_bit 3 x = x" by (simp add: less_mask_eq take_bit_eq_mask)
  then show ?thesis by (simp add: take_bit_eq_mask mask_eq_exp_minus_1)
qed

lemma mod32_mod8: "(x mod 4294967296) mod 8 = (x::nat) mod 8"
  by (rule mod_mod_cancel) simp

lemma unat_plus_mod8: "unat ((t::32 word) + k) mod 8 = (unat t + unat k) mod 8"
proof -
  have "unat (t + k) = (unat t + unat k) mod 4294967296"
    using unat_word_ariths(1) [of t k] by simp
  then show ?thesis by (simp only: mod32_mod8)
qed

lemma unat_plus1_mod8: "unat ((t::32 word) + 1) mod 8 = (unat t + 1) mod 8"
  using unat_plus_mod8 [of t 1] by simp

lemma unat_minus1_mod8: "unat ((t::32 word) - 1) mod 8 = (unat t + 7) mod 8"
proof -
  have e: "t - 1 = t + 4294967295" by simp
  have "unat (t + 4294967295) mod 8 = (unat t + 4294967295) mod 8"
    using unat_plus_mod8 [of t 4294967295] by simp
  also have "\<dots> = (unat t + 7 + 536870911 * 8) mod 8" by (simp add: add.commute)
  also have "\<dots> = (unat t + 7) mod 8" by (rule mod_mult_self1)
  finally show ?thesis by (simp only: e)
qed

lemma inc_dec_top: "(((t::32 word) - 1) AND 7) + 1 AND 7 = t AND 7"
proof -
  have "unat ((((t - 1) AND 7) + 1) AND 7) = unat (t AND 7)"
    unfolding and7_mod8 unat_plus1_mod8
    unfolding and7_mod8 unat_minus1_mod8 by presburger
  then show ?thesis by (simp only: word_unat_eq_iff)
qed

lemma dec_inc_top: "(((t::32 word) + 1) AND 7) - 1 AND 7 = t AND 7"
proof -
  have "unat ((((t + 1) AND 7) - 1) AND 7) = unat (t AND 7)"
    unfolding and7_mod8 unat_minus1_mod8
    unfolding and7_mod8 unat_plus1_mod8 by presburger
  then show ?thesis by (simp only: word_unat_eq_iff)
qed

text \<open>
  C7.  \<open>FPU_FDECSTP\<close> sets \<open>top\<close> to \<open>(top - 1) mod 8\<close> and \<open>FPU_FINCSTP\<close> sets it to
  \<open>(top + 1) mod 8\<close>; after either operation \<open>top\<close> is in \<open>0..7\<close>; each operation
  undoes the other up to the reduction of \<open>top\<close> to its low three bits, so on every
  state whose \<open>top\<close> is in \<open>0..7\<close> the two are mutually inverse.
\<close>

theorem fpu_top_rotation:
  "unat (TOP (FPU_FDECSTP fpu)) = (unat (TOP fpu) + 7) mod 8
   \<and> int (unat (TOP (FPU_FDECSTP fpu))) = (int (unat (TOP fpu)) - 1) mod 8
   \<and> unat (TOP (FPU_FINCSTP fpu)) = (unat (TOP fpu) + 1) mod 8
   \<and> TOP (FPU_FDECSTP fpu) < 8 \<and> TOP (FPU_FINCSTP fpu) < 8
   \<and> FPU_FINCSTP (FPU_FDECSTP fpu) = fpu\<lparr>TOP := TOP fpu AND 7\<rparr>
   \<and> FPU_FDECSTP (FPU_FINCSTP fpu) = fpu\<lparr>TOP := TOP fpu AND 7\<rparr>
   \<and> (TOP fpu < 8 \<longrightarrow>
        FPU_FINCSTP (FPU_FDECSTP fpu) = fpu \<and> FPU_FDECSTP (FPU_FINCSTP fpu) = fpu)"
proof -
  let ?t = "TOP fpu"
  have dec: "unat (TOP (FPU_FDECSTP fpu)) = (unat ?t + 7) mod 8"
    by (simp add: FPU_FDECSTP_def and7_mod8 unat_minus1_mod8)
  have deci: "int (unat (TOP (FPU_FDECSTP fpu))) = (int (unat ?t) - 1) mod 8"
  proof -
    have "(int (unat ?t) - 1) mod 8 = (int (unat ?t) + 7 + (- 1) * 8) mod 8" by simp
    also have "\<dots> = (int (unat ?t) + 7) mod 8" by (rule mod_mult_self1)
    also have "\<dots> = int ((unat ?t + 7) mod 8)" by (simp add: of_nat_mod)
    finally show ?thesis unfolding dec by simp
  qed
  have inc: "unat (TOP (FPU_FINCSTP fpu)) = (unat ?t + 1) mod 8"
    by (simp add: FPU_FINCSTP_def and7_mod8 unat_plus1_mod8)
  have bd: "TOP (FPU_FDECSTP fpu) < 8" "TOP (FPU_FINCSTP fpu) < 8"
    by (simp_all add: FPU_FDECSTP_def FPU_FINCSTP_def and7_less8)
  have id: "FPU_FINCSTP (FPU_FDECSTP fpu) = fpu\<lparr>TOP := ?t AND 7\<rparr>"
    by (simp add: FPU_FDECSTP_def FPU_FINCSTP_def inc_dec_top)
  have di: "FPU_FDECSTP (FPU_FINCSTP fpu) = fpu\<lparr>TOP := ?t AND 7\<rparr>"
    by (simp add: FPU_FDECSTP_def FPU_FINCSTP_def dec_inc_top)
  have inv: "?t < 8 \<longrightarrow>
        FPU_FINCSTP (FPU_FDECSTP fpu) = fpu \<and> FPU_FDECSTP (FPU_FINCSTP fpu) = fpu"
    unfolding id di by (simp add: and7_id)
  from dec deci inc bd id di inv show ?thesis by blast
qed

theorem fpu_top_rotation_witness:
  "TOP \<lparr>TOP = 0, sw = 0, cw = 0x37F\<rparr> < 8
   \<and> FPU_FDECSTP \<lparr>TOP = 0, sw = 0, cw = 0x37F\<rparr> = \<lparr>TOP = 7, sw = 0, cw = 0x37F\<rparr>
   \<and> FPU_FINCSTP (FPU_FDECSTP \<lparr>TOP = 0, sw = 0, cw = 0x37F\<rparr>) = \<lparr>TOP = 0, sw = 0, cw = 0x37F\<rparr>
   \<and> FPU_FDECSTP (FPU_FINCSTP \<lparr>TOP = 7, sw = 0, cw = 0x37F\<rparr>) = \<lparr>TOP = 7, sw = 0, cw = 0x37F\<rparr>"
  using fpu_top_rotation [of "\<lparr>TOP = 0, sw = 0, cw = 0x37F\<rparr>"]
        fpu_top_rotation [of "\<lparr>TOP = 7, sw = 0, cw = 0x37F\<rparr>"]
  by (simp add: FPU_FDECSTP_def)


subsection \<open>Page-table entry round trip\<close>

lemma and1_take_bit: "(x::32 word) AND 1 = take_bit 1 x"
  by (simp add: take_bit_eq_mask)

lemma and7_take_bit: "(x::32 word) AND 7 = take_bit 3 x"
  by (simp add: take_bit_eq_mask mask_eq_exp_minus_1)

lemma andFFFFF_take_bit: "(x::32 word) AND 0xFFFFF = take_bit 20 x"
  by (simp add: take_bit_eq_mask mask_eq_exp_minus_1)

lemma set_fields:
  "p (X86PageEntry_set v e) = take_bit 1 v"
  "wr (X86PageEntry_set v e) = take_bit 1 (drop_bit 1 v)"
  "us (X86PageEntry_set v e) = take_bit 1 (drop_bit 2 v)"
  "pwt (X86PageEntry_set v e) = take_bit 1 (drop_bit 3 v)"
  "pcd (X86PageEntry_set v e) = take_bit 1 (drop_bit 4 v)"
  "a (X86PageEntry_set v e) = take_bit 1 (drop_bit 5 v)"
  "d (X86PageEntry_set v e) = take_bit 1 (drop_bit 6 v)"
  "pat (X86PageEntry_set v e) = take_bit 1 (drop_bit 7 v)"
  "g (X86PageEntry_set v e) = take_bit 1 (drop_bit 8 v)"
  "avl (X86PageEntry_set v e) = take_bit 3 (drop_bit 9 v)"
  "base (X86PageEntry_set v e) = take_bit 20 (drop_bit 12 v)"
  unfolding X86PageEntry_set_def and1_take_bit and7_take_bit andFFFFF_take_bit by simp_all

lemma getset_bit:
  "bit (X86PageEntry_get (X86PageEntry_set v e)) k = bit v k"
proof (cases "k < 32")
  case False
  then show ?thesis by (auto dest: bit_imp_le_length)
next
  case True
  have len: "LENGTH(32) = 32" by simp
  have g: "bit (X86PageEntry_get (X86PageEntry_set v e)) k =
    ((k < 1 \<and> bit v k) \<or> (1 \<le> k \<and> k - 1 < 1 \<and> bit v (k - 1 + 1))
     \<or> (2 \<le> k \<and> k - 2 < 1 \<and> bit v (k - 2 + 2))
     \<or> (3 \<le> k \<and> k - 3 < 1 \<and> bit v (k - 3 + 3))
     \<or> (4 \<le> k \<and> k - 4 < 1 \<and> bit v (k - 4 + 4))
     \<or> (5 \<le> k \<and> k - 5 < 1 \<and> bit v (k - 5 + 5))
     \<or> (6 \<le> k \<and> k - 6 < 1 \<and> bit v (k - 6 + 6))
     \<or> (7 \<le> k \<and> k - 7 < 1 \<and> bit v (k - 7 + 7))
     \<or> (8 \<le> k \<and> k - 8 < 1 \<and> bit v (k - 8 + 8))
     \<or> (9 \<le> k \<and> k - 9 < 3 \<and> bit v (k - 9 + 9))
     \<or> (12 \<le> k \<and> k - 12 < 20 \<and> bit v (k - 12 + 12)))"
    unfolding X86PageEntry_get_def Let_def set_fields
    using True
    by (simp only: bit_or_iff bit_push_bit_iff bit_take_bit_iff bit_drop_bit_eq bit_0_eq
          or.left_neutral possible_bit_word o_def len add.commute simp_thms disj_assoc
          bot_apply bot_bool_def)
  have "k < 1 \<or> k = 1 \<or> k = 2 \<or> k = 3 \<or> k = 4 \<or> k = 5 \<or> k = 6 \<or> k = 7 \<or> k = 8
        \<or> (9 \<le> k \<and> k < 12) \<or> (12 \<le> k \<and> k < 32)"
    using True by arith
  then show ?thesis unfolding g
    by (elim disjE) (auto simp: numeral_2_eq_2)
qed

text \<open>
  C10.  For every 32-bit value \<open>v\<close> and every entry \<open>e\<close>, \<open>set v\<close> followed by
  \<open>get\<close> returns exactly \<open>v\<close>: the fields \<open>p, wr, us, pwt, pcd, a, d, pat, g\<close> (one bit
  each, bits 0 to 8), \<open>avl\<close> (bits 9 to 11) and \<open>base\<close> (bits 12 to 31) cover all 32
  bits without loss.
\<close>

theorem X86PageEntry_set_get: "X86PageEntry_get (X86PageEntry_set v e) = v"
  by (rule bit_eqI) (simp only: getset_bit)

subsection \<open>Page boundaries\<close>

lemma page_cross:
  fixes q s x :: nat
  assumes x: "x = 4096 * q + 4096 + s" and q: "q < 1048576" and s: "s < 4096"
  shows "(x mod 4294967296) div 4096 \<noteq> q"
proof (cases "q + 1 < 1048576")
  case True
  then have lt: "x < 4294967296" using x s by linarith
  have "x = 4096 * (q + 1) + s" unfolding x by simp
  then have d: "x div 4096 = q + 1" using s by simp
  have "x mod 4294967296 = x" using lt by (rule mod_less)
  then show ?thesis using d by simp
next
  case False
  then have q1: "q = 1048575" using q by linarith
  have "x = s + 4294967296" unfolding x q1 by simp
  then have "x mod 4294967296 = s" using s by simp
  then have "(x mod 4294967296) div 4096 = 0" using s by simp
  then show ?thesis using q1 by simp
qed

lemma page_nat:
  fixes A i :: nat
  assumes "A < 4294967296" "i < 4096"
  shows "(((A + i) mod 4294967296) div 4096 = A div 4096) = (A mod 4096 + i < 4096)"
proof -
  define q where "q = A div 4096"
  define r where "r = A mod 4096"
  define x where "x = A + i"
  have A: "A = 4096 * q + r" and r: "r < 4096" by (simp_all add: q_def r_def)
  have q: "q < 1048576" using assms(1) A by linarith
  have "((x mod 4294967296) div 4096 = q) = (r + i < 4096)"
  proof (cases "r + i < 4096")
    case True
    then have lt: "x < 4294967296" using A q x_def by linarith
    have e: "x = 4096 * q + (r + i)" using A x_def by linarith
    have d: "x div 4096 = q" unfolding e using True by simp
    have "x mod 4294967296 = x" using lt by (rule mod_less)
    then show ?thesis using True d by simp
  next
    case False
    define s where "s = r + i - 4096"
    have s: "r + i = 4096 + s" "s < 4096" using False r assms(2) by (simp_all add: s_def)
    have e: "x = 4096 * q + 4096 + s" using A s(1) x_def by linarith
    have "(x mod 4294967296) div 4096 \<noteq> q"
      by (rule page_cross [OF e q s(2)])
    then show ?thesis using False by simp
  qed
  then show ?thesis unfolding q_def r_def x_def .
qed

lemma unat_and_fff: "unat ((address :: 32 word) AND 0xfff) = unat address mod 4096"
proof -
  have "address AND 0xfff = take_bit 12 address"
    by (simp add: take_bit_eq_mask mask_eq_exp_minus_1)
  then have "unat (address AND 0xfff) = take_bit 12 (unat address)"
    by (simp only: unsigned_take_bit_eq)
  then show ?thesis by (simp only: take_bit_eq_mod) simp
qed

lemma unat_page: "unat (drop_bit 12 (w :: 32 word)) = unat w div 4096"
proof -
  have "unat (drop_bit 12 w) = drop_bit 12 (unat w)" by (rule unat_drop_bit_eq)
  then show ?thesis by (simp only: drop_bit_eq_div) simp
qed

lemma page_word:
  assumes "i < 4096"
  shows "(drop_bit 12 ((address :: 32 word) + of_nat i) = drop_bit 12 address)
         = (unat (address AND 0xfff) + i < 4096)"
proof -
  have lt: "unat address < 4294967296" using unsigned_less [of address, where 'a = nat] by simp
  have i: "unat (of_nat i :: 32 word) = i" using assms by (simp add: unat_of_nat)
  have s: "unat (address + of_nat i) = (unat address + i) mod 4294967296"
    using unat_word_ariths(1) [of address "of_nat i"] i by simp
  have "(drop_bit 12 (address + of_nat i) = drop_bit 12 address)
        = (unat (drop_bit 12 (address + of_nat i)) = unat (drop_bit 12 address))"
    by (simp only: word_unat_eq_iff)
  also have "\<dots> = (((unat address + i) mod 4294967296) div 4096 = unat address div 4096)"
    by (simp only: unat_page s)
  also have "\<dots> = (unat address mod 4096 + i < 4096)"
    by (rule page_nat [OF lt assms])
  finally show ?thesis by (simp only: unat_and_fff)
qed

lemma within_one_page_iff:
  assumes "0 < n" "n \<le> 4096"
  shows "within_one_page address n = (unat (address AND 0xfff) + (n - 1) < 4096)"
proof -
  have "within_one_page address n = (\<forall>i<n. unat (address AND 0xfff) + i < 4096)"
    unfolding within_one_page_def list_all_iff using assms(2)
    by (auto simp: page_word)
  also have "\<dots> = (unat (address AND 0xfff) + (n - 1) < 4096)"
  proof
    assume "\<forall>i<n. unat (address AND 0xfff) + i < 4096"
    moreover have "n - 1 < n" using assms(1) by simp
    ultimately show "unat (address AND 0xfff) + (n - 1) < 4096" by blast
  next
    assume h: "unat (address AND 0xfff) + (n - 1) < 4096"
    show "\<forall>i<n. unat (address AND 0xfff) + i < 4096"
    proof (intro allI impI)
      fix i assume "i < n"
      then have "i \<le> n - 1" by simp
      then show "unat (address AND 0xfff) + i < 4096" using h by linarith
    qed
  qed
  finally show ?thesis .
qed

lemma page_test_w: "within_one_page address 2 = ((address AND 0xfff) < 0xfff)"
  by (simp add: within_one_page_iff word_less_nat_alt)

lemma page_test_d: "within_one_page address 4 = ((address AND 0xfff) < 0xffd)"
  by (simp add: within_one_page_iff word_less_nat_alt)

lemma page_test_q: "within_one_page address 8 = ((address AND 0xfff) < 0xff9)"
  by (simp add: within_one_page_iff word_less_nat_alt)

subsection \<open>Byte accesses\<close>

text \<open>
  C2.  For every address, \<open>mem_readb_inline\<close> returns the byte at the cached host read
  pointer plus the address when the TLB read pointer of the address's page is non-null,
  and what the page's read handler returns otherwise; \<open>mem_writeb_inline\<close> stores the
  byte at the cached host write pointer plus the address when that pointer is non-null
  and calls the page's write handler otherwise.  The read looks the TLB up in the state
  \<open>m'\<close> that the breakpoint hook leaves (\<open>m\<close> itself without breakpoints).
\<close>

theorem mem_byte_dispatch:
  assumes "m' = update_breakpoints E op_mode 1 address m"
  shows "(tlb_read m' (drop_bit 12 address) \<noteq> 0 \<longrightarrow>
            mem_readb_inline E op_mode address m
              = (host_mem m' (tlb_read m' (drop_bit 12 address) + ucast address), m'))
       \<and> (tlb_read m' (drop_bit 12 address) = 0 \<longrightarrow>
            mem_readb_inline E op_mode address m
              = readb (handlers E (tlb_readhandler m' (drop_bit 12 address))) address m')
       \<and> (tlb_write m (drop_bit 12 address) \<noteq> 0 \<longrightarrow>
            mem_writeb_inline E address val m
              = m\<lparr>host_mem := (host_mem m)(tlb_write m (drop_bit 12 address) + ucast address := val)\<rparr>)
       \<and> (tlb_write m (drop_bit 12 address) = 0 \<longrightarrow>
            mem_writeb_inline E address val m
              = writeb (handlers E (tlb_writehandler m (drop_bit 12 address))) address val m)"
  using assms
  by (simp add: mem_readb_inline_def mem_writeb_inline_def Let_def get_tlb_read_def
      get_tlb_write_def get_tlb_readhandler_def get_tlb_writehandler_def host_readb_def
      host_writeb_def)

theorem mem_byte_dispatch_witness:
  "tlb_read machine0 (drop_bit 12 (0x1234 :: 32 word)) \<noteq> 0
   \<and> mem_readb_inline env0 WithBreakpoints 0x1234 machine0 = (0xab, machine0)
   \<and> tlb_read machine0 (drop_bit 12 (0x5234 :: 32 word)) = 0
   \<and> mem_readb_inline env0 SkipBreakpoints 0x5234 machine0 = (0xff, machine0)
   \<and> host_mem (mem_writeb_inline env0 0x1234 0x55 machine0) 0x7f0000001234 = 0x55
   \<and> mem_writeb_inline env0 0x5234 0x55 machine0 = machine0"
  using mem_byte_dispatch [of machine0 env0 WithBreakpoints "0x1234" machine0 "0x55"]
        mem_byte_dispatch [of machine0 env0 SkipBreakpoints "0x5234" machine0 "0x55"]
  by (simp add: update_breakpoints_def env0_def machine0_def unmapped_handler_def)

subsection \<open>Wide accesses and the page boundary\<close>

text \<open>
  C3.  A word, dword or quadword read or write whose bytes all lie within one 4096-byte
  page is serviced by the single-page dispatch (cached host pointer, else handler), and
  one that straddles a page boundary is never serviced that way but by the matching
  unaligned-access fallback.  The reads act on the state \<open>update_breakpoints\<close> leaves.
\<close>

theorem wide_access_routing:
  "(within_one_page address 2 \<longrightarrow>
      mem_readw_inline E op_mode address m
        = single_page_readw E address (update_breakpoints E op_mode 2 address m)
      \<and> mem_writew_inline E address vw m = single_page_writew E address vw m)
   \<and> (\<not> within_one_page address 2 \<longrightarrow>
      mem_readw_inline E op_mode address m
        = mem_unalignedreadw E address (update_breakpoints E op_mode 2 address m)
      \<and> mem_writew_inline E address vw m = mem_unalignedwritew E address vw m)
   \<and> (within_one_page address 4 \<longrightarrow>
      mem_readd_inline E op_mode address m
        = single_page_readd E address (update_breakpoints E op_mode 4 address m)
      \<and> mem_writed_inline E address vd m = single_page_writed E address vd m)
   \<and> (\<not> within_one_page address 4 \<longrightarrow>
      mem_readd_inline E op_mode address m
        = mem_unalignedreadd E address (update_breakpoints E op_mode 4 address m)
      \<and> mem_writed_inline E address vd m = mem_unalignedwrited E address vd m)
   \<and> (within_one_page address 8 \<longrightarrow>
      mem_readq_inline E op_mode address m
        = single_page_readq E address (update_breakpoints E op_mode 8 address m)
      \<and> mem_writeq_inline E address vq m = single_page_writeq E address vq m)
   \<and> (\<not> within_one_page address 8 \<longrightarrow>
      mem_readq_inline E op_mode address m
        = mem_unalignedreadq E address (update_breakpoints E op_mode 8 address m)
      \<and> mem_writeq_inline E address vq m = mem_unalignedwriteq E address vq m)"
proof -
  have w: "within_one_page address 2 \<longrightarrow>
      mem_readw_inline E op_mode address m
        = single_page_readw E address (update_breakpoints E op_mode 2 address m)
      \<and> mem_writew_inline E address vw m = single_page_writew E address vw m"
    by (simp add: page_test_w mem_readw_inline_def mem_writew_inline_def Let_def
        single_page_readw_def single_page_writew_def)
  have nw: "\<not> within_one_page address 2 \<longrightarrow>
      mem_readw_inline E op_mode address m
        = mem_unalignedreadw E address (update_breakpoints E op_mode 2 address m)
      \<and> mem_writew_inline E address vw m = mem_unalignedwritew E address vw m"
    by (simp add: page_test_w mem_readw_inline_def mem_writew_inline_def Let_def)
  have d: "within_one_page address 4 \<longrightarrow>
      mem_readd_inline E op_mode address m
        = single_page_readd E address (update_breakpoints E op_mode 4 address m)
      \<and> mem_writed_inline E address vd m = single_page_writed E address vd m"
    by (simp add: page_test_d mem_readd_inline_def mem_writed_inline_def Let_def
        single_page_readd_def single_page_writed_def)
  have nd: "\<not> within_one_page address 4 \<longrightarrow>
      mem_readd_inline E op_mode address m
        = mem_unalignedreadd E address (update_breakpoints E op_mode 4 address m)
      \<and> mem_writed_inline E address vd m = mem_unalignedwrited E address vd m"
    by (simp add: page_test_d mem_readd_inline_def mem_writed_inline_def Let_def)
  have q: "within_one_page address 8 \<longrightarrow>
      mem_readq_inline E op_mode address m
        = single_page_readq E address (update_breakpoints E op_mode 8 address m)
      \<and> mem_writeq_inline E address vq m = single_page_writeq E address vq m"
    by (simp add: page_test_q mem_readq_inline_def mem_writeq_inline_def Let_def
        single_page_readq_def single_page_writeq_def)
  have nq: "\<not> within_one_page address 8 \<longrightarrow>
      mem_readq_inline E op_mode address m
        = mem_unalignedreadq E address (update_breakpoints E op_mode 8 address m)
      \<and> mem_writeq_inline E address vq m = mem_unalignedwriteq E address vq m"
    by (simp add: page_test_q mem_readq_inline_def mem_writeq_inline_def Let_def)
  from w nw d nd q nq show ?thesis by blast
qed

theorem wide_access_routing_witness:
  "within_one_page 0x1ffe 2 \<and> \<not> within_one_page 0x1fff 2
   \<and> within_one_page 0x1ffc 4 \<and> \<not> within_one_page 0x1ffd 4
   \<and> within_one_page 0x1ff8 8 \<and> \<not> within_one_page 0x1ff9 8
   \<and> mem_readw_inline env0 SkipBreakpoints 0x1ffe machine0 = single_page_readw env0 0x1ffe machine0
   \<and> mem_readw_inline env0 SkipBreakpoints 0x1fff machine0 = mem_unalignedreadw env0 0x1fff machine0
   \<and> mem_writed_inline env0 0x1ffc 0x11223344 machine0 = single_page_writed env0 0x1ffc 0x11223344 machine0
   \<and> mem_writed_inline env0 0x1ffd 0x11223344 machine0 = mem_unalignedwrited env0 0x1ffd 0x11223344 machine0
   \<and> mem_readq_inline env0 SkipBreakpoints 0x1ff8 machine0 = single_page_readq env0 0x1ff8 machine0
   \<and> mem_readq_inline env0 SkipBreakpoints 0x1ff9 machine0 = mem_unalignedreadq env0 0x1ff9 machine0"
  using wide_access_routing [of "0x1ffe" env0 SkipBreakpoints machine0 0 0 0]
        wide_access_routing [of "0x1fff" env0 SkipBreakpoints machine0 0 0 0]
        wide_access_routing [of "0x1ffc" env0 SkipBreakpoints machine0 0 "0x11223344" 0]
        wide_access_routing [of "0x1ffd" env0 SkipBreakpoints machine0 0 "0x11223344" 0]
        wide_access_routing [of "0x1ff8" env0 SkipBreakpoints machine0 0 0 0]
        wide_access_routing [of "0x1ff9" env0 SkipBreakpoints machine0 0 0 0]
  by (simp add: page_test_w page_test_d page_test_q update_breakpoints_def)

subsection \<open>Checked accesses\<close>

lemma store_if_ok_keeps: "fst (store_if_ok val r) \<Longrightarrow> fst (snd (store_if_ok val r)) = val"
  by (cases r) (auto simp: store_if_ok_def split: bool.splits)

text \<open>
  The flag of a checked access is \<open>false\<close> after the access through the cached host
  pointer: on the mapped page of the concrete machine the checked byte read at \<open>0x1234\<close>
  stores \<open>0xab\<close>, the value the trapping read returns, into an output location that
  held 0, and returns \<open>false\<close>.  Read as a success flag, the result would report a
  failed read that modified its output.
\<close>

theorem checked_read_flag_counterexample:
  "tlb_read machine0 (drop_bit 12 (0x1234 :: 32 word)) \<noteq> 0
   \<and> fst (mem_readb_inline env0 WithBreakpoints 0x1234 machine0) = 0xab
   \<and> mem_readb_checked env0 0x1234 0 machine0 = (False, 0xab, machine0)"
  by (simp add: mem_readb_checked_def mem_readb_inline_def update_breakpoints_def env0_def
      get_tlb_read_def machine0_def host_readb_def)

lemma checked_read_member_keeps:
  "fst (checked_read_member body address val m) \<Longrightarrow> fst (snd (checked_read_member body address val m)) = val"
  by (simp add: checked_read_member_def split: prod.splits option.splits)

lemma two_outcomes:
  "(fst R \<Longrightarrow> fst (snd R) = val) \<Longrightarrow> (\<exists>out m1. R = (False, out, m1)) \<or> (\<exists>m1. R = (True, val, m1))"
  by (cases R) auto

lemma bodies_readb: "readb_checked (handlers (env_with_bodies B E) h) = checked_read_member (body_readb (B h))"
  and bodies_readw: "readw_checked (handlers (env_with_bodies B E) h) = checked_read_member (body_readw (B h))"
  and bodies_readd: "readd_checked (handlers (env_with_bodies B E) h) = checked_read_member (body_readd (B h))"
  and bodies_readq: "readq_checked (handlers (env_with_bodies B E) h) = checked_read_member (body_readq (B h))"
  by (simp_all add: env_with_bodies_def handler_with_bodies_def)

lemma readb_checked_fails:
  "fst (mem_readb_checked (env_with_bodies B E) address val m)
     \<Longrightarrow> fst (snd (mem_readb_checked (env_with_bodies B E) address val m)) = val"
  by (simp add: mem_readb_checked_def Let_def bodies_readb checked_read_member_keeps split: if_splits)

lemma readw_checked_fails:
  "fst (mem_readw_checked (env_with_bodies B E) address val m)
     \<Longrightarrow> fst (snd (mem_readw_checked (env_with_bodies B E) address val m)) = val"
  by (simp add: mem_readw_checked_def Let_def bodies_readw checked_read_member_keeps
      mem_unalignedreadw_checked_def store_if_ok_keeps split: if_splits)

lemma readd_checked_fails:
  "fst (mem_readd_checked (env_with_bodies B E) address val m)
     \<Longrightarrow> fst (snd (mem_readd_checked (env_with_bodies B E) address val m)) = val"
  by (simp add: mem_readd_checked_def Let_def bodies_readd checked_read_member_keeps
      mem_unalignedreadd_checked_def store_if_ok_keeps split: if_splits)

lemma readq_checked_fails:
  "fst (mem_readq_checked (env_with_bodies B E) address val m)
     \<Longrightarrow> fst (snd (mem_readq_checked (env_with_bodies B E) address val m)) = val"
  by (simp add: mem_readq_checked_def Let_def bodies_readq checked_read_member_keeps
      mem_unalignedreadq_checked_def store_if_ok_keeps split: if_splits)

lemma trapping_checked_members:
  "readb_checked (handlers (env_with_trapping T D E) h) = readb_checked (handlers E h)"
  "readw_checked (handlers (env_with_trapping T D E) h) = readw_checked (handlers E h)"
  "readd_checked (handlers (env_with_trapping T D E) h) = readd_checked (handlers E h)"
  "readq_checked (handlers (env_with_trapping T D E) h) = readq_checked (handlers E h)"
  "writeb_checked (handlers (env_with_trapping T D E) h) = writeb_checked (handlers E h)"
  "writew_checked (handlers (env_with_trapping T D E) h) = writew_checked (handlers E h)"
  "writed_checked (handlers (env_with_trapping T D E) h) = writed_checked (handlers E h)"
  "writeq_checked (handlers (env_with_trapping T D E) h) = writeq_checked (handlers E h)"
  by (simp_all add: env_with_trapping_def trapping_members_from_def)

lemma readb_checked_no_trap:
  "mem_readb_checked (env_with_trapping T D E) address val m = mem_readb_checked E address val m"
  by (simp add: mem_readb_checked_def Let_def trapping_checked_members cong: if_cong)

lemma writeb_checked_no_trap:
  "mem_writeb_checked (env_with_trapping T D E) address val m = mem_writeb_checked E address val m"
  by (simp add: mem_writeb_checked_def Let_def trapping_checked_members cong: if_cong)

lemma unaligned_read_checked_no_trap:
  "unaligned_read_checked (env_with_trapping T D E) n address m = unaligned_read_checked E n address m"
  by (induction n arbitrary: address m)
    (simp_all add: readb_checked_no_trap split: prod.splits bool.splits)

lemma unaligned_write_checked_no_trap:
  "unaligned_write_checked (env_with_trapping T D E) n address val m
     = unaligned_write_checked E n address val m"
  by (induction n arbitrary: address val m)
    (simp_all add: writeb_checked_no_trap split: prod.splits bool.splits)

lemma wide_checked_no_trap:
  "mem_readw_checked (env_with_trapping T D E) address vw m = mem_readw_checked E address vw m"
  "mem_readd_checked (env_with_trapping T D E) address vd m = mem_readd_checked E address vd m"
  "mem_readq_checked (env_with_trapping T D E) address vq m = mem_readq_checked E address vq m"
  "mem_writew_checked (env_with_trapping T D E) address vw m = mem_writew_checked E address vw m"
  "mem_writed_checked (env_with_trapping T D E) address vd m = mem_writed_checked E address vd m"
  "mem_writeq_checked (env_with_trapping T D E) address vq m = mem_writeq_checked E address vq m"
  by (simp_all add: mem_readw_checked_def mem_readd_checked_def mem_readq_checked_def
      mem_writew_checked_def mem_writed_checked_def mem_writeq_checked_def
      mem_unalignedreadw_checked_def mem_unalignedreadd_checked_def mem_unalignedreadq_checked_def
      mem_unalignedwritew_checked_def mem_unalignedwrited_checked_def mem_unalignedwriteq_checked_def
      Let_def trapping_checked_members unaligned_read_checked_no_trap
      unaligned_write_checked_no_trap cong: if_cong)

text \<open>
  C4, amended.  Every checked read and write variant returns a boolean fault flag
  (\<open>true\<close>: the access failed, \<open>false\<close>: it succeeded) instead of trapping, and never
  raises: a checked read ends in one of two ways, with \<open>false\<close> and a value stored, or
  with \<open>true\<close> and the caller's output location as it was, whatever the width and
  whether or not the access straddles a page boundary; and the result of every checked
  access is the same whatever the trapping members of the handlers and the debugger's
  hook are, so that none of them is called.  On a page with a non-null cached pointer
  (for the wide accesses: with all bytes within the page) the checked read stores the
  value the trapping read returns and returns \<open>false\<close>, and the checked write stores
  what the trapping write stores and returns \<open>false\<close>.  The trapping read runs the
  breakpoint hook first when its \<open>op_mode\<close> says so; the two reads are compared on the
  state the hook leaves.  The two ways a checked read ends are those of handlers whose
  checked reads are the members of bodies as the spec describes them; the other parts
  hold of every environment.
\<close>

theorem checked_access_fault_flag:
  "((\<exists>out m1. mem_readb_checked (env_with_bodies B E) address vb m = (False, out, m1))
      \<or> (\<exists>m1. mem_readb_checked (env_with_bodies B E) address vb m = (True, vb, m1)))
   \<and> ((\<exists>out m1. mem_readw_checked (env_with_bodies B E) address vw m = (False, out, m1))
      \<or> (\<exists>m1. mem_readw_checked (env_with_bodies B E) address vw m = (True, vw, m1)))
   \<and> ((\<exists>out m1. mem_readd_checked (env_with_bodies B E) address vd m = (False, out, m1))
      \<or> (\<exists>m1. mem_readd_checked (env_with_bodies B E) address vd m = (True, vd, m1)))
   \<and> ((\<exists>out m1. mem_readq_checked (env_with_bodies B E) address vq m = (False, out, m1))
      \<or> (\<exists>m1. mem_readq_checked (env_with_bodies B E) address vq m = (True, vq, m1)))
   \<and> mem_readb_checked (env_with_trapping T D E) address vb m = mem_readb_checked E address vb m
   \<and> mem_readw_checked (env_with_trapping T D E) address vw m = mem_readw_checked E address vw m
   \<and> mem_readd_checked (env_with_trapping T D E) address vd m = mem_readd_checked E address vd m
   \<and> mem_readq_checked (env_with_trapping T D E) address vq m = mem_readq_checked E address vq m
   \<and> mem_writeb_checked (env_with_trapping T D E) address vb m = mem_writeb_checked E address vb m
   \<and> mem_writew_checked (env_with_trapping T D E) address vw m = mem_writew_checked E address vw m
   \<and> mem_writed_checked (env_with_trapping T D E) address vd m = mem_writed_checked E address vd m
   \<and> mem_writeq_checked (env_with_trapping T D E) address vq m = mem_writeq_checked E address vq m
   \<and> (get_tlb_read (update_breakpoints E op_mode 1 address m) address \<noteq> 0 \<longrightarrow>
        mem_readb_checked E address vb (update_breakpoints E op_mode 1 address m)
          = (False, mem_readb_inline E op_mode address m))
   \<and> (get_tlb_read (update_breakpoints E op_mode 2 address m) address \<noteq> 0 \<and> within_one_page address 2 \<longrightarrow>
        mem_readw_checked E address vw (update_breakpoints E op_mode 2 address m)
          = (False, mem_readw_inline E op_mode address m))
   \<and> (get_tlb_read (update_breakpoints E op_mode 4 address m) address \<noteq> 0 \<and> within_one_page address 4 \<longrightarrow>
        mem_readd_checked E address vd (update_breakpoints E op_mode 4 address m)
          = (False, mem_readd_inline E op_mode address m))
   \<and> (get_tlb_read (update_breakpoints E op_mode 8 address m) address \<noteq> 0 \<and> within_one_page address 8 \<longrightarrow>
        mem_readq_checked E address vq (update_breakpoints E op_mode 8 address m)
          = (False, mem_readq_inline E op_mode address m))
   \<and> (get_tlb_write m address \<noteq> 0 \<longrightarrow>
        mem_writeb_checked E address vb m = (False, mem_writeb_inline E address vb m))
   \<and> (get_tlb_write m address \<noteq> 0 \<and> within_one_page address 2 \<longrightarrow>
        mem_writew_checked E address vw m = (False, mem_writew_inline E address vw m))
   \<and> (get_tlb_write m address \<noteq> 0 \<and> within_one_page address 4 \<longrightarrow>
        mem_writed_checked E address vd m = (False, mem_writed_inline E address vd m))
   \<and> (get_tlb_write m address \<noteq> 0 \<and> within_one_page address 8 \<longrightarrow>
        mem_writeq_checked E address vq m = (False, mem_writeq_inline E address vq m))"
proof -
  have rb: "get_tlb_read (update_breakpoints E op_mode 1 address m) address \<noteq> 0 \<longrightarrow>
        mem_readb_checked E address vb (update_breakpoints E op_mode 1 address m)
          = (False, mem_readb_inline E op_mode address m)"
    by (simp add: mem_readb_checked_def mem_readb_inline_def Let_def)
  have rw: "get_tlb_read (update_breakpoints E op_mode 2 address m) address \<noteq> 0 \<and> within_one_page address 2 \<longrightarrow>
        mem_readw_checked E address vw (update_breakpoints E op_mode 2 address m)
          = (False, mem_readw_inline E op_mode address m)"
    by (simp add: page_test_w mem_readw_checked_def mem_readw_inline_def Let_def)
  have rd: "get_tlb_read (update_breakpoints E op_mode 4 address m) address \<noteq> 0 \<and> within_one_page address 4 \<longrightarrow>
        mem_readd_checked E address vd (update_breakpoints E op_mode 4 address m)
          = (False, mem_readd_inline E op_mode address m)"
    by (simp add: page_test_d mem_readd_checked_def mem_readd_inline_def Let_def)
  have rq: "get_tlb_read (update_breakpoints E op_mode 8 address m) address \<noteq> 0 \<and> within_one_page address 8 \<longrightarrow>
        mem_readq_checked E address vq (update_breakpoints E op_mode 8 address m)
          = (False, mem_readq_inline E op_mode address m)"
    by (simp add: page_test_q mem_readq_checked_def mem_readq_inline_def Let_def)
  have wb: "get_tlb_write m address \<noteq> 0 \<longrightarrow>
        mem_writeb_checked E address vb m = (False, mem_writeb_inline E address vb m)"
    by (simp add: mem_writeb_checked_def mem_writeb_inline_def Let_def)
  have ww: "get_tlb_write m address \<noteq> 0 \<and> within_one_page address 2 \<longrightarrow>
        mem_writew_checked E address vw m = (False, mem_writew_inline E address vw m)"
    by (simp add: page_test_w mem_writew_checked_def mem_writew_inline_def Let_def)
  have wd: "get_tlb_write m address \<noteq> 0 \<and> within_one_page address 4 \<longrightarrow>
        mem_writed_checked E address vd m = (False, mem_writed_inline E address vd m)"
    by (simp add: page_test_d mem_writed_checked_def mem_writed_inline_def Let_def)
  have wq: "get_tlb_write m address \<noteq> 0 \<and> within_one_page address 8 \<longrightarrow>
        mem_writeq_checked E address vq m = (False, mem_writeq_inline E address vq m)"
    by (simp add: page_test_q mem_writeq_checked_def mem_writeq_inline_def Let_def)
  note facts = two_outcomes [OF readb_checked_fails] two_outcomes [OF readw_checked_fails]
    two_outcomes [OF readd_checked_fails] two_outcomes [OF readq_checked_fails]
    readb_checked_no_trap writeb_checked_no_trap wide_checked_no_trap
    rb rw rd rq wb ww wd wq
  show ?thesis by (intro conjI; rule facts)
qed

lemma rom_readb_2000: "mem_readb_checked env_rom 0x2000 0x11 machine0 = (True, 0x11, machine0)"
  by (simp add: mem_readb_checked_def get_tlb_read_def machine0_def env_rom_def bodies_readb
      checked_read_member_def bodies0_def)

lemma rom_readb_3000: "mem_readb_checked env_rom 0x3000 0x11 machine0 = (False, 0x5a, machine0)"
  by (simp add: mem_readb_checked_def get_tlb_read_def machine0_def env_rom_def bodies_readb
      checked_read_member_def bodies0_def)

lemma rom_readb_1fff: "mem_readb_checked env_rom 0x1fff 0 machine0 = (False, 0, machine0)"
  by (simp add: mem_readb_checked_def get_tlb_read_def machine0_def host_readb_def)

lemma rom_readb_2000_0: "mem_readb_checked env_rom 0x2000 0 machine0 = (True, 0, machine0)"
  by (simp add: mem_readb_checked_def get_tlb_read_def machine0_def env_rom_def bodies_readb
      checked_read_member_def bodies0_def)

lemma rom_unaligned_1fff:
  "unaligned_read_checked env_rom 2 0x1fff machine0 = (True, 0 :: 16 word, machine0)"
proof -
  have "unaligned_read_checked env_rom (Suc (Suc 0)) 0x1fff machine0 = (True, 0 :: 16 word, machine0)"
    by (simp add: rom_readb_1fff rom_readb_2000_0)
  then show ?thesis by (simp only: numeral_2_eq_2)
qed

lemma rom_readw_1fff:
  "mem_readw_checked env_rom 0x1fff 0x2222 machine0 = (True, 0x2222, machine0)"
  by (simp add: mem_readw_checked_def mem_unalignedreadw_checked_def
      rom_unaligned_1fff store_if_ok_def)

text \<open>
  On the concrete machine, page 1 mapped: the checked byte read at \<open>0x2000\<close> fails and
  leaves \<open>0x11\<close> in the output, the one at \<open>0x3000\<close> succeeds through the handler
  with \<open>0x5a\<close>, and the checked word read at \<open>0x1fff\<close> reads its first byte through
  the pointer, fails on the second and leaves \<open>0x2222\<close>.  With trapping members and a
  hook that all write to the host memory, the failed read leaves the machine as it was.
  At \<open>0x1234\<close> the pointer is non-null and the checked accesses return \<open>false\<close> with
  what the trapping accesses give.
\<close>

theorem checked_access_fault_flag_witness:
  "mem_readb_checked env_rom 0x2000 0x11 machine0 = (True, 0x11, machine0)
   \<and> mem_readb_checked env_rom 0x3000 0x11 machine0 = (False, 0x5a, machine0)
   \<and> fst (mem_readw_checked env_rom 0x1fff 0x2222 machine0)
   \<and> fst (snd (mem_readw_checked env_rom 0x1fff 0x2222 machine0)) = 0x2222
   \<and> mem_readb_checked env_loud 0x2000 0x11 machine0 = (True, 0x11, machine0)
   \<and> get_tlb_read machine0 0x1234 \<noteq> 0 \<and> within_one_page 0x1234 2
   \<and> within_one_page 0x1234 4 \<and> within_one_page 0x1234 8
   \<and> mem_readb_checked env_rom 0x1234 0x11 machine0
       = (False, mem_readb_inline env_rom SkipBreakpoints 0x1234 machine0)
   \<and> mem_readb_checked env_rom 0x1234 0x11 machine0 = (False, 0xab, machine0)
   \<and> mem_readw_checked env_rom 0x1234 0x2222 machine0
       = (False, mem_readw_inline env_rom SkipBreakpoints 0x1234 machine0)
   \<and> get_tlb_write machine0 0x1234 \<noteq> 0
   \<and> mem_writeb_checked env_rom 0x1234 0x11 machine0
       = (False, mem_writeb_inline env_rom 0x1234 0x11 machine0)
   \<and> mem_writed_checked env_rom 0x1234 0x55 machine0
       = (False, mem_writed_inline env_rom 0x1234 0x55 machine0)"
proof -
  have f: "fst (mem_readw_checked env_rom 0x1fff 0x2222 machine0)"
    by (simp add: rom_readw_1fff)
  have r: "get_tlb_read machine0 0x1234 \<noteq> 0" "get_tlb_write machine0 0x1234 \<noteq> 0"
    by (simp_all add: get_tlb_read_def get_tlb_write_def machine0_def)
  have pg: "within_one_page 0x1234 2" "within_one_page 0x1234 4" "within_one_page 0x1234 8"
    by (simp_all add: page_test_w page_test_d page_test_q)
  have u: "update_breakpoints env_rom SkipBreakpoints sz addr machine0 = machine0" for sz addr
    by (simp add: update_breakpoints_def)
  have v: "mem_readb_inline env_rom SkipBreakpoints 0x1234 machine0 = (0xab, machine0)"
    by (simp add: mem_readb_inline_def update_breakpoints_def get_tlb_read_def machine0_def
        host_readb_def)
  note t1 = checked_access_fault_flag [where E = env0 and B = "\<lambda>h. bodies0"
      and address = "0x1fff" and m = machine0 and vw = "0x2222", folded env_rom_def]
  note t2 = checked_access_fault_flag [where E = env_rom and address = "0x1234" and m = machine0
      and vb = "0x11" and vw = "0x2222" and vd = "0x55" and op_mode = SkipBreakpoints]
  note t3 = checked_access_fault_flag [where E = env_rom and T = "\<lambda>h. loud_handler"
      and D = "\<lambda>sz address m. host_writeb 0 0xee m" and address = "0x2000" and m = machine0
      and vb = "0x11", folded env_loud_def]
  have a1: "fst (snd (mem_readw_checked env_rom 0x1fff 0x2222 machine0)) = 0x2222"
    using t1 [THEN conjunct2, THEN conjunct1] f by auto
  have a2: "mem_readb_checked env_rom 0x1234 0x11 machine0
       = (False, mem_readb_inline env_rom SkipBreakpoints 0x1234 machine0)"
    using t2 r(1) by (simp add: u)
  have a3: "mem_readw_checked env_rom 0x1234 0x2222 machine0
       = (False, mem_readw_inline env_rom SkipBreakpoints 0x1234 machine0)"
    using t2 r(1) pg(1) by (simp add: u)
  have a4: "mem_writeb_checked env_rom 0x1234 0x11 machine0
       = (False, mem_writeb_inline env_rom 0x1234 0x11 machine0)"
    using t2 r(2) by simp
  have a5: "mem_writed_checked env_rom 0x1234 0x55 machine0
       = (False, mem_writed_inline env_rom 0x1234 0x55 machine0)"
    using t2 r(2) pg(2) by simp
  have a6: "mem_readb_checked env_loud 0x2000 0x11 machine0 = (True, 0x11, machine0)"
    using t3 by (simp add: rom_readb_2000)
  have a7: "mem_readb_checked env_rom 0x1234 0x11 machine0 = (False, 0xab, machine0)"
    using a2 by (simp add: v)
  show ?thesis
    using rom_readb_2000 rom_readb_3000 f r pg a1 a2 a3 a4 a5 a6 a7 by simp
qed

subsection \<open>BSF\<close>

lemma and1_zero_iff: "((v :: 16 word) AND 0x01 = 0) = (\<not> bit v 0)"
  by (simp add: and_one_eq bit_0 even_iff_mod_2_eq_zero)

lemma bsf_loop_least:
  "bit v n \<Longrightarrow> (\<forall>j<n. \<not> bit v j) \<Longrightarrow> bsf_loop r v = Some (r + of_nat n)"
proof (induction n arbitrary: v r)
  case 0
  then have "v AND 0x01 \<noteq> 0" by (simp add: and1_zero_iff)
  then show ?case by (subst bsf_loop.simps) simp
next
  case (Suc n)
  have z: "v AND 0x01 = 0" using Suc.prems(2) by (simp add: and1_zero_iff)
  have b: "bit (drop_bit 1 v) n" using Suc.prems(1) by (simp add: bit_drop_bit_eq)
  have l: "\<forall>j<n. \<not> bit (drop_bit 1 v) j" using Suc.prems(2) by (simp add: bit_drop_bit_eq)
  have "bsf_loop r v = bsf_loop (r + 1) (drop_bit 1 v)"
    using z by (subst bsf_loop.simps) simp
  also have "\<dots> = Some (r + 1 + of_nat n)" by (rule Suc.IH [OF b l])
  finally show ?case by (simp add: add.assoc)
qed

lemma ex_least_bit:
  assumes "(v :: 16 word) \<noteq> 0"
  shows "\<exists>n<16. bit v n \<and> (\<forall>j<n. \<not> bit v j)"
proof -
  from assms obtain k where k: "bit v k" by (auto simp: bit_eq_iff)
  define n where "n = (LEAST i. bit v i)"
  have bn: "bit v n" unfolding n_def using k by (rule LeastI)
  have ln: "\<forall>j<n. \<not> bit v j" unfolding n_def using not_less_Least by blast
  have "n < 16" using bn bit_imp_le_length [of v n] by simp
  with bn ln show ?thesis by blast
qed

lemma get_set_reg16: "get_reg16 (set_reg16 i v cpu) i = v"
proof -
  have "ucast (push_bit 16 (drop_bit 16 (regs cpu i)) OR (ucast v :: 32 word)) = v"
    by (rule bit_eqI) (auto simp: bit_simps)
  then show ?thesis by (simp add: get_reg16_def set_reg16_def)
qed

lemma zf_set: "reg_flags (SETFLAGBIT FLAG_ZF True cpu) AND FLAG_ZF = FLAG_ZF"
  by (simp add: SETFLAGBIT_def word_ao_absorbs)

lemma zf_clear: "reg_flags (SETFLAGBIT FLAG_ZF False cpu) AND FLAG_ZF = 0"
  by (simp add: SETFLAGBIT_def and.assoc)


text \<open>
  C9.  BSF Gw,Ew always completes.  When the source value is zero, ZF is set and no
  register changes; when it is non-zero, ZF is cleared and the destination register
  receives the index of the least-significant set bit of the source.  The source
  operand \<open>val\<close> is the register named by the ModRM byte or the word loaded from the
  effective address, and \<open>m1\<close> the machine after that load.
\<close>

theorem bsf_gw_ew:
  assumes "(if rm \<ge> 0xc0 then (get_reg16 cpu (lookupRMEAregw rm), m) else LoadMw E eaa m) = (val, m1)"
  shows "(val = 0 \<longrightarrow>
            (\<exists>cpu'. CASE_0F_W_0xbc E rm eaa cpu m = Some (Done, cpu', m1)
               \<and> reg_flags cpu' AND FLAG_ZF = FLAG_ZF
               \<and> regs cpu' = regs cpu))
       \<and> (val \<noteq> 0 \<longrightarrow>
            (\<exists>cpu' n. CASE_0F_W_0xbc E rm eaa cpu m = Some (Done, cpu', m1)
               \<and> reg_flags cpu' AND FLAG_ZF = 0
               \<and> n < 16 \<and> bit val n \<and> (\<forall>j<n. \<not> bit val j)
               \<and> get_reg16 cpu' (lookupRMregw rm) = of_nat n
               \<and> (\<forall>i. i \<noteq> lookupRMregw rm \<longrightarrow> regs cpu' i = regs cpu i)))"
proof (intro conjI impI)
  assume z: "val = 0"
  let ?cpu = "(SETFLAGBIT FLAG_ZF True cpu)\<lparr>lflags_type := t_UNKNOWN\<rparr>"
  have "CASE_0F_W_0xbc E rm eaa cpu m = Some (Done, ?cpu, m1)"
    using assms z by (simp add: CASE_0F_W_0xbc_def)
  moreover have "reg_flags ?cpu AND FLAG_ZF = FLAG_ZF" using zf_set [of cpu] by simp
  moreover have "regs ?cpu = regs cpu" by (simp add: SETFLAGBIT_def)
  ultimately show "\<exists>cpu'. CASE_0F_W_0xbc E rm eaa cpu m = Some (Done, cpu', m1)
               \<and> reg_flags cpu' AND FLAG_ZF = FLAG_ZF \<and> regs cpu' = regs cpu"
    by blast
next
  assume nz: "val \<noteq> 0"
  from ex_least_bit [OF nz] obtain n where
    n: "n < 16" "bit val n" "\<forall>j<n. \<not> bit val j" by blast
  have loop: "bsf_loop 0 val = Some (of_nat n)"
    using bsf_loop_least [OF n(2) n(3), of 0] by simp
  let ?cpu = "(set_reg16 (lookupRMregw rm) (of_nat n) (SETFLAGBIT FLAG_ZF False cpu))
                \<lparr>lflags_type := t_UNKNOWN\<rparr>"
  have r: "CASE_0F_W_0xbc E rm eaa cpu m = Some (Done, ?cpu, m1)"
    using assms nz loop by (simp add: CASE_0F_W_0xbc_def)
  have f: "reg_flags ?cpu AND FLAG_ZF = 0"
    using zf_clear [of cpu] by (simp add: set_reg16_def)
  have g: "get_reg16 ?cpu (lookupRMregw rm) = of_nat n"
    using get_set_reg16 [of "lookupRMregw rm" "of_nat n" "SETFLAGBIT FLAG_ZF False cpu"]
    by (simp add: get_reg16_def)
  have o: "\<forall>i. i \<noteq> lookupRMregw rm \<longrightarrow> regs ?cpu i = regs cpu i"
    by (simp add: set_reg16_def SETFLAGBIT_def)
  from r f g o n show "\<exists>cpu' n. CASE_0F_W_0xbc E rm eaa cpu m = Some (Done, cpu', m1)
               \<and> reg_flags cpu' AND FLAG_ZF = 0
               \<and> n < 16 \<and> bit val n \<and> (\<forall>j<n. \<not> bit val j)
               \<and> get_reg16 cpu' (lookupRMregw rm) = of_nat n
               \<and> (\<forall>i. i \<noteq> lookupRMregw rm \<longrightarrow> regs cpu' i = regs cpu i)"
    by blast
qed

lemma bsf_28: "bsf_loop 0 0x28 = Some 3"
  by (simp add: bsf_loop.simps)

lemma lookup_cb: "lookupRMregw 0xcb = 1" "lookupRMEAregw 0xcb = 3"
  by (simp_all add: lookupRMregw_def lookupRMEAregw_def)

lemma cpu_ring0_bx: "get_reg16 cpu_ring0 3 = 0x28"
  by (simp add: get_reg16_def cpu_ring0_def)

theorem bsf_gw_ew_witness:
  "(if (0xcb :: 8 word) \<ge> 0xc0 then (get_reg16 cpu_ring0 (lookupRMEAregw 0xcb), machine0)
    else LoadMw env0 0 machine0) = (0x28, machine0)
   \<and> (0x28 :: 16 word) \<noteq> 0
   \<and> (\<exists>cpu'. CASE_0F_W_0xbc env0 0xcb 0 cpu_ring0 machine0 = Some (Done, cpu', machine0)
         \<and> reg_flags cpu' AND FLAG_ZF = 0
         \<and> get_reg16 cpu' 1 = 3 \<and> regs cpu' 3 = 0x28 \<and> regs cpu' 1 = 0x12340003)"
proof -
  have h: "(if (0xcb :: 8 word) \<ge> 0xc0 then (get_reg16 cpu_ring0 (lookupRMEAregw 0xcb), machine0)
    else LoadMw env0 0 machine0) = (0x28, machine0)"
    by (simp add: lookup_cb cpu_ring0_bx)
  have e: "CASE_0F_W_0xbc env0 0xcb 0 cpu_ring0 machine0
      = Some (Done, (set_reg16 1 3 (SETFLAGBIT FLAG_ZF False cpu_ring0))\<lparr>lflags_type := t_UNKNOWN\<rparr>, machine0)"
    by (simp add: CASE_0F_W_0xbc_def lookup_cb cpu_ring0_bx bsf_28)
  have v: "regs ((set_reg16 1 3 (SETFLAGBIT FLAG_ZF False cpu_ring0))\<lparr>lflags_type := t_UNKNOWN\<rparr>) 1 = 0x12340003"
    "regs ((set_reg16 1 3 (SETFLAGBIT FLAG_ZF False cpu_ring0))\<lparr>lflags_type := t_UNKNOWN\<rparr>) 3 = 0x28"
    by (simp_all add: set_reg16_def SETFLAGBIT_def cpu_ring0_def)
  from bsf_gw_ew [OF h] obtain cpu' n where
    c: "CASE_0F_W_0xbc env0 0xcb 0 cpu_ring0 machine0 = Some (Done, cpu', machine0)"
       "reg_flags cpu' AND FLAG_ZF = 0" "get_reg16 cpu' (lookupRMregw 0xcb) = of_nat n"
    by auto
  have cpu': "cpu' = (set_reg16 1 3 (SETFLAGBIT FLAG_ZF False cpu_ring0))\<lparr>lflags_type := t_UNKNOWN\<rparr>"
    using c(1) e by simp
  have "get_reg16 cpu' 1 = 3" unfolding cpu' using get_set_reg16 [of 1 3 "SETFLAGBIT FLAG_ZF False cpu_ring0"]
    by (simp add: get_reg16_def)
  then show ?thesis using h c(1) c(2) v cpu' by auto
qed

subsection \<open>CMPXCHG\<close>

lemma low_byte_set: "ucast (push_bit 8 (drop_bit 8 (r :: 32 word)) OR ucast (v :: 8 word)) = v"
  by (rule bit_eqI) (auto simp: bit_simps)

lemma low_byte_keeps_high:
  "(ucast (drop_bit 8 (push_bit 8 (drop_bit 8 (r :: 32 word)) OR ucast (v :: 8 word))) :: 8 word)
     = ucast (drop_bit 8 r)"
  by (rule bit_eqI) (auto simp: bit_simps dest: bit_imp_le_length)

lemma high_byte_set:
  "ucast (drop_bit 8 (push_bit 16 (drop_bit 16 (r :: 32 word)) OR push_bit 8 (ucast (v :: 8 word))
      OR take_bit 8 r)) = v"
  by (rule bit_eqI) (auto simp: bit_simps)

lemma low_word_set: "ucast (push_bit 16 (drop_bit 16 (r :: 32 word)) OR ucast (v :: 16 word)) = v"
  by (rule bit_eqI) (auto simp: bit_simps)

lemma get_set_reg8: "i < 8 \<Longrightarrow> get_reg8 (set_reg8 i v cpu) i = v"
proof (cases "i < 4")
  case True
  then have "get_reg8 (set_reg8 i v cpu) i
      = ucast (push_bit 8 (drop_bit 8 (regs cpu i)) OR (ucast v :: 32 word))"
    unfolding get_reg8_def set_reg8_def by (simp del: drop_bit_or)
  then show ?thesis by (simp only: low_byte_set)
next
  case False
  then have "get_reg8 (set_reg8 i v cpu) i
      = ucast (drop_bit 8 (push_bit 16 (drop_bit 16 (regs cpu (i - 4))) OR push_bit 8 (ucast v)
          OR take_bit 8 (regs cpu (i - 4))))"
    unfolding get_reg8_def set_reg8_def by (simp del: drop_bit_or push_bit_or)
  then show ?thesis by (simp only: high_byte_set)
qed

lemma get_set_reg8_al: "i \<noteq> 0 \<Longrightarrow> get_reg8 (set_reg8 0 v cpu) i = get_reg8 cpu i"
proof (cases "i = 4")
  case True
  have "get_reg8 (set_reg8 0 v cpu) 4
      = ucast (drop_bit 8 (push_bit 8 (drop_bit 8 (regs cpu 0)) OR (ucast v :: 32 word)))"
    unfolding get_reg8_def set_reg8_def by (simp del: drop_bit_or)
  then show ?thesis using True by (simp only: low_byte_keeps_high) (simp add: get_reg8_def)
next
  case False
  assume "i \<noteq> 0"
  then show ?thesis using False by (simp add: get_reg8_def set_reg8_def)
qed

lemma get_set_reg16_ax: "i \<noteq> 0 \<Longrightarrow> get_reg16 (set_reg16 0 v cpu) i = get_reg16 cpu i"
  by (simp add: get_reg16_def set_reg16_def)

lemma lookup_lt8: "lookupRMEAregb rm < 8" "lookupRMregb rm < 8"
proof -
  have a: "unat ((x :: 8 word) AND 7) < 8" for x
  proof -
    have "x AND 7 \<le> 7" by (rule word_and_le1)
    then show ?thesis by (simp add: word_le_nat_alt)
  qed
  show "lookupRMEAregb rm < 8" "lookupRMregb rm < 8"
    by (simp_all add: lookupRMEAregb_def lookupRMregb_def a)
qed

lemma zf_test_set: "(reg_flags (SETFLAGBIT FLAG_ZF True cpu) AND FLAG_ZF \<noteq> 0) = True"
  using zf_set [of cpu] by (simp add: FLAG_ZF_def)

lemma zf_test_clear: "(reg_flags (SETFLAGBIT FLAG_ZF False cpu) AND FLAG_ZF \<noteq> 0) = False"
  using zf_clear [of cpu] by simp

lemma get_reg8_SETFLAGBIT: "get_reg8 (SETFLAGBIT f b cpu) i = get_reg8 cpu i"
  by (simp add: get_reg8_def SETFLAGBIT_def)

lemma get_reg16_SETFLAGBIT: "get_reg16 (SETFLAGBIT f b cpu) i = get_reg16 cpu i"
  by (simp add: get_reg16_def SETFLAGBIT_def)


lemma cmpxchg_b_mem:
  assumes "\<not> CPU_ArchitectureType cpu_in < Intel486OldSlow" and "cpu = FillFlags cpu_in"
    and "rm < 0xc0" and "LoadMb E eaa m = (val, m1)"
  shows "\<exists>cpu'. CASE_0F_B_0xb0 E FillFlags rm eaa cpu_in m
            = (Done, cpu', mem_writeb_inline E eaa
                 (if reg_al cpu = val then get_reg8 cpu (lookupRMregb rm) else val) m1)
          \<and> ((reg_flags cpu' AND FLAG_ZF \<noteq> 0) = (reg_al cpu = val))
          \<and> (reg_al cpu = val \<longrightarrow> regs cpu' = regs cpu)
          \<and> (reg_al cpu \<noteq> val \<longrightarrow> reg_al cpu' = val)"
proof (cases "reg_al cpu = val")
  case True
  have "CASE_0F_B_0xb0 E FillFlags rm eaa cpu_in m
      = (Done, SETFLAGBIT FLAG_ZF True cpu, mem_writeb_inline E eaa (get_reg8 cpu (lookupRMregb rm)) m1)"
    using assms True by (simp add: CASE_0F_B_0xb0_def Let_def not_le SaveMb_def)
  moreover have "regs (SETFLAGBIT FLAG_ZF True cpu) = regs cpu" by (simp add: SETFLAGBIT_def)
  ultimately show ?thesis using True zf_test_set [of cpu] by auto
next
  case False
  have "CASE_0F_B_0xb0 E FillFlags rm eaa cpu_in m
      = (Done, SETFLAGBIT FLAG_ZF False (set_reg8 0 val cpu), mem_writeb_inline E eaa val m1)"
    using assms False by (simp add: CASE_0F_B_0xb0_def Let_def not_le SaveMb_def)
  moreover have "reg_al (SETFLAGBIT FLAG_ZF False (set_reg8 0 val cpu)) = val"
    by (simp add: reg_al_def get_reg8_SETFLAGBIT get_set_reg8)
  ultimately show ?thesis using False zf_test_clear [of "set_reg8 0 val cpu"] by auto
qed

lemma cmpxchg_b_reg:
  assumes "\<not> CPU_ArchitectureType cpu_in < Intel486OldSlow" and "cpu = FillFlags cpu_in"
    and "rm \<ge> 0xc0" and "dst = get_reg8 cpu (lookupRMEAregb rm)"
  shows "\<exists>cpu'. CASE_0F_B_0xb0 E FillFlags rm eaa cpu_in m = (Done, cpu', m)
          \<and> ((reg_flags cpu' AND FLAG_ZF \<noteq> 0) = (reg_al cpu = dst))
          \<and> (reg_al cpu = dst \<longrightarrow>
                get_reg8 cpu' (lookupRMEAregb rm) = get_reg8 cpu (lookupRMregb rm))
          \<and> (reg_al cpu \<noteq> dst \<longrightarrow>
                get_reg8 cpu' (lookupRMEAregb rm) = dst \<and> reg_al cpu' = dst
                \<and> (\<forall>i. i \<noteq> 0 \<longrightarrow> regs cpu' i = regs cpu i))"
proof (cases "reg_al cpu = dst")
  case True
  let ?c = "SETFLAGBIT FLAG_ZF True (set_reg8 (lookupRMEAregb rm) (get_reg8 cpu (lookupRMregb rm)) cpu)"
  have "CASE_0F_B_0xb0 E FillFlags rm eaa cpu_in m = (Done, ?c, m)"
    using assms True by (simp add: CASE_0F_B_0xb0_def Let_def)
  moreover have "get_reg8 ?c (lookupRMEAregb rm) = get_reg8 cpu (lookupRMregb rm)"
    by (simp add: get_reg8_SETFLAGBIT get_set_reg8 lookup_lt8)
  ultimately show ?thesis
    using True zf_test_set [of "set_reg8 (lookupRMEAregb rm) (get_reg8 cpu (lookupRMregb rm)) cpu"]
    by auto
next
  case False
  let ?c = "SETFLAGBIT FLAG_ZF False (set_reg8 0 dst cpu)"
  have ne: "lookupRMEAregb rm \<noteq> 0"
  proof
    assume "lookupRMEAregb rm = 0"
    then have "reg_al cpu = dst" using assms(4) by (simp add: reg_al_def)
    with False show False by simp
  qed
  have "CASE_0F_B_0xb0 E FillFlags rm eaa cpu_in m = (Done, ?c, m)"
    using assms False by (simp add: CASE_0F_B_0xb0_def Let_def)
  moreover have "get_reg8 ?c (lookupRMEAregb rm) = dst"
    using ne assms(4) by (simp add: get_reg8_SETFLAGBIT get_set_reg8_al)
  moreover have "reg_al ?c = dst"
    by (simp add: reg_al_def get_reg8_SETFLAGBIT get_set_reg8)
  moreover have "\<forall>i. i \<noteq> 0 \<longrightarrow> regs ?c i = regs cpu i"
    by (simp add: SETFLAGBIT_def set_reg8_def)
  ultimately show ?thesis using False zf_test_clear [of "set_reg8 0 dst cpu"] by auto
qed

lemma cmpxchg_w_mem:
  assumes "\<not> CPU_ArchitectureType cpu_in < Intel486OldSlow" and "cpu = FillFlags cpu_in"
    and "rm < 0xc0" and "LoadMw E eaa m = (val, m1)"
  shows "\<exists>cpu'. CASE_0F_W_0xb1 E FillFlags rm eaa cpu_in m
            = (Done, cpu', mem_writew_inline E eaa
                 (if reg_ax cpu = val then get_reg16 cpu (lookupRMregw rm) else val) m1)
          \<and> ((reg_flags cpu' AND FLAG_ZF \<noteq> 0) = (reg_ax cpu = val))
          \<and> (reg_ax cpu = val \<longrightarrow> regs cpu' = regs cpu)
          \<and> (reg_ax cpu \<noteq> val \<longrightarrow> reg_ax cpu' = val)"
proof (cases "reg_ax cpu = val")
  case True
  have "CASE_0F_W_0xb1 E FillFlags rm eaa cpu_in m
      = (Done, SETFLAGBIT FLAG_ZF True cpu, mem_writew_inline E eaa (get_reg16 cpu (lookupRMregw rm)) m1)"
    using assms True by (simp add: CASE_0F_W_0xb1_def Let_def not_le SaveMw_def)
  moreover have "regs (SETFLAGBIT FLAG_ZF True cpu) = regs cpu" by (simp add: SETFLAGBIT_def)
  ultimately show ?thesis using True zf_test_set [of cpu] by auto
next
  case False
  have "CASE_0F_W_0xb1 E FillFlags rm eaa cpu_in m
      = (Done, SETFLAGBIT FLAG_ZF False (set_reg16 0 val cpu), mem_writew_inline E eaa val m1)"
    using assms False by (simp add: CASE_0F_W_0xb1_def Let_def not_le SaveMw_def)
  moreover have "reg_ax (SETFLAGBIT FLAG_ZF False (set_reg16 0 val cpu)) = val"
    by (simp add: reg_ax_def get_reg16_SETFLAGBIT get_set_reg16)
  ultimately show ?thesis using False zf_test_clear [of "set_reg16 0 val cpu"] by auto
qed

lemma cmpxchg_w_reg:
  assumes "\<not> CPU_ArchitectureType cpu_in < Intel486OldSlow" and "cpu = FillFlags cpu_in"
    and "rm \<ge> 0xc0" and "dst = get_reg16 cpu (lookupRMEAregw rm)"
  shows "\<exists>cpu'. CASE_0F_W_0xb1 E FillFlags rm eaa cpu_in m = (Done, cpu', m)
          \<and> ((reg_flags cpu' AND FLAG_ZF \<noteq> 0) = (reg_ax cpu = dst))
          \<and> (reg_ax cpu = dst \<longrightarrow>
                get_reg16 cpu' (lookupRMEAregw rm) = get_reg16 cpu (lookupRMregw rm))
          \<and> (reg_ax cpu \<noteq> dst \<longrightarrow>
                get_reg16 cpu' (lookupRMEAregw rm) = dst \<and> reg_ax cpu' = dst
                \<and> (\<forall>i. i \<noteq> 0 \<longrightarrow> regs cpu' i = regs cpu i))"
proof (cases "reg_ax cpu = dst")
  case True
  let ?c = "SETFLAGBIT FLAG_ZF True (set_reg16 (lookupRMEAregw rm) (get_reg16 cpu (lookupRMregw rm)) cpu)"
  have "CASE_0F_W_0xb1 E FillFlags rm eaa cpu_in m = (Done, ?c, m)"
    using assms True by (simp add: CASE_0F_W_0xb1_def Let_def)
  moreover have "get_reg16 ?c (lookupRMEAregw rm) = get_reg16 cpu (lookupRMregw rm)"
    by (simp add: get_reg16_SETFLAGBIT get_set_reg16)
  ultimately show ?thesis
    using True zf_test_set [of "set_reg16 (lookupRMEAregw rm) (get_reg16 cpu (lookupRMregw rm)) cpu"]
    by auto
next
  case False
  let ?c = "SETFLAGBIT FLAG_ZF False (set_reg16 0 dst cpu)"
  have ne: "lookupRMEAregw rm \<noteq> 0"
  proof
    assume "lookupRMEAregw rm = 0"
    then have "reg_ax cpu = dst" using assms(4) by (simp add: reg_ax_def)
    with False show False by simp
  qed
  have "CASE_0F_W_0xb1 E FillFlags rm eaa cpu_in m = (Done, ?c, m)"
    using assms False by (simp add: CASE_0F_W_0xb1_def Let_def)
  moreover have "get_reg16 ?c (lookupRMEAregw rm) = dst"
    using ne assms(4) by (simp add: get_reg16_SETFLAGBIT get_set_reg16_ax)
  moreover have "reg_ax ?c = dst"
    by (simp add: reg_ax_def get_reg16_SETFLAGBIT get_set_reg16)
  moreover have "\<forall>i. i \<noteq> 0 \<longrightarrow> regs ?c i = regs cpu i"
    by (simp add: SETFLAGBIT_def set_reg16_def)
  ultimately show ?thesis using False zf_test_clear [of "set_reg16 0 dst cpu"] by auto
qed


text \<open>
  C8.  On a processor that has CMPXCHG (\<open>cpu\<close> is the state after \<open>FillFlags\<close>):
  with a memory operand (ModRM below \<open>0xc0\<close>) the case always ends with a write to the
  operand's address \<open>eaa\<close>, of the source register when the accumulator equals the
  loaded value and of the loaded value itself otherwise, in which case the accumulator
  is loaded with it; with a register operand nothing is written to memory, the
  destination register receives the source register when the comparison succeeds and
  keeps its value when it fails, the accumulator then being loaded with it and no
  other register changed; ZF is set exactly when the comparison succeeds.  The same for
  the byte form \<open>0F B0\<close> and the word form \<open>0F B1\<close>.
\<close>

theorem cmpxchg_semantics:
  assumes "\<not> CPU_ArchitectureType cpu_in < Intel486OldSlow" and "cpu = FillFlags cpu_in"
  shows
   "(rm < 0xc0 \<longrightarrow>
       (\<forall>val m1. LoadMb E eaa m = (val, m1) \<longrightarrow>
          (\<exists>cpu'. CASE_0F_B_0xb0 E FillFlags rm eaa cpu_in m
                    = (Done, cpu', mem_writeb_inline E eaa
                         (if reg_al cpu = val then get_reg8 cpu (lookupRMregb rm) else val) m1)
             \<and> ((reg_flags cpu' AND FLAG_ZF \<noteq> 0) = (reg_al cpu = val))
             \<and> (reg_al cpu = val \<longrightarrow> regs cpu' = regs cpu)
             \<and> (reg_al cpu \<noteq> val \<longrightarrow> reg_al cpu' = val)))
     \<and> (\<forall>val m1. LoadMw E eaa m = (val, m1) \<longrightarrow>
          (\<exists>cpu'. CASE_0F_W_0xb1 E FillFlags rm eaa cpu_in m
                    = (Done, cpu', mem_writew_inline E eaa
                         (if reg_ax cpu = val then get_reg16 cpu (lookupRMregw rm) else val) m1)
             \<and> ((reg_flags cpu' AND FLAG_ZF \<noteq> 0) = (reg_ax cpu = val))
             \<and> (reg_ax cpu = val \<longrightarrow> regs cpu' = regs cpu)
             \<and> (reg_ax cpu \<noteq> val \<longrightarrow> reg_ax cpu' = val))))
    \<and> (rm \<ge> 0xc0 \<longrightarrow>
       (\<exists>cpu'. CASE_0F_B_0xb0 E FillFlags rm eaa cpu_in m = (Done, cpu', m)
          \<and> ((reg_flags cpu' AND FLAG_ZF \<noteq> 0) = (reg_al cpu = get_reg8 cpu (lookupRMEAregb rm)))
          \<and> (reg_al cpu = get_reg8 cpu (lookupRMEAregb rm) \<longrightarrow>
                get_reg8 cpu' (lookupRMEAregb rm) = get_reg8 cpu (lookupRMregb rm))
          \<and> (reg_al cpu \<noteq> get_reg8 cpu (lookupRMEAregb rm) \<longrightarrow>
                get_reg8 cpu' (lookupRMEAregb rm) = get_reg8 cpu (lookupRMEAregb rm)
                \<and> reg_al cpu' = get_reg8 cpu (lookupRMEAregb rm)
                \<and> (\<forall>i. i \<noteq> 0 \<longrightarrow> regs cpu' i = regs cpu i)))
     \<and> (\<exists>cpu'. CASE_0F_W_0xb1 E FillFlags rm eaa cpu_in m = (Done, cpu', m)
          \<and> ((reg_flags cpu' AND FLAG_ZF \<noteq> 0) = (reg_ax cpu = get_reg16 cpu (lookupRMEAregw rm)))
          \<and> (reg_ax cpu = get_reg16 cpu (lookupRMEAregw rm) \<longrightarrow>
                get_reg16 cpu' (lookupRMEAregw rm) = get_reg16 cpu (lookupRMregw rm))
          \<and> (reg_ax cpu \<noteq> get_reg16 cpu (lookupRMEAregw rm) \<longrightarrow>
                get_reg16 cpu' (lookupRMEAregw rm) = get_reg16 cpu (lookupRMEAregw rm)
                \<and> reg_ax cpu' = get_reg16 cpu (lookupRMEAregw rm)
                \<and> (\<forall>i. i \<noteq> 0 \<longrightarrow> regs cpu' i = regs cpu i))))"
proof (intro conjI impI allI)
  fix val m1
  assume "rm < 0xc0" and "LoadMb E eaa m = (val, m1)"
  then show "\<exists>cpu'. CASE_0F_B_0xb0 E FillFlags rm eaa cpu_in m
                    = (Done, cpu', mem_writeb_inline E eaa
                         (if reg_al cpu = val then get_reg8 cpu (lookupRMregb rm) else val) m1)
             \<and> ((reg_flags cpu' AND FLAG_ZF \<noteq> 0) = (reg_al cpu = val))
             \<and> (reg_al cpu = val \<longrightarrow> regs cpu' = regs cpu)
             \<and> (reg_al cpu \<noteq> val \<longrightarrow> reg_al cpu' = val)"
    by (rule cmpxchg_b_mem [where FillFlags = FillFlags and cpu_in = cpu_in, OF assms])
next
  fix val m1
  assume "rm < 0xc0" and "LoadMw E eaa m = (val, m1)"
  then show "\<exists>cpu'. CASE_0F_W_0xb1 E FillFlags rm eaa cpu_in m
                    = (Done, cpu', mem_writew_inline E eaa
                         (if reg_ax cpu = val then get_reg16 cpu (lookupRMregw rm) else val) m1)
             \<and> ((reg_flags cpu' AND FLAG_ZF \<noteq> 0) = (reg_ax cpu = val))
             \<and> (reg_ax cpu = val \<longrightarrow> regs cpu' = regs cpu)
             \<and> (reg_ax cpu \<noteq> val \<longrightarrow> reg_ax cpu' = val)"
    by (rule cmpxchg_w_mem [where FillFlags = FillFlags and cpu_in = cpu_in, OF assms])
next
  assume "rm \<ge> 0xc0"
  then show "\<exists>cpu'. CASE_0F_B_0xb0 E FillFlags rm eaa cpu_in m = (Done, cpu', m)
          \<and> ((reg_flags cpu' AND FLAG_ZF \<noteq> 0) = (reg_al cpu = get_reg8 cpu (lookupRMEAregb rm)))
          \<and> (reg_al cpu = get_reg8 cpu (lookupRMEAregb rm) \<longrightarrow>
                get_reg8 cpu' (lookupRMEAregb rm) = get_reg8 cpu (lookupRMregb rm))
          \<and> (reg_al cpu \<noteq> get_reg8 cpu (lookupRMEAregb rm) \<longrightarrow>
                get_reg8 cpu' (lookupRMEAregb rm) = get_reg8 cpu (lookupRMEAregb rm)
                \<and> reg_al cpu' = get_reg8 cpu (lookupRMEAregb rm)
                \<and> (\<forall>i. i \<noteq> 0 \<longrightarrow> regs cpu' i = regs cpu i))"
    by (rule cmpxchg_b_reg [where FillFlags = FillFlags and cpu_in = cpu_in, OF assms _ refl])
next
  assume "rm \<ge> 0xc0"
  then show "\<exists>cpu'. CASE_0F_W_0xb1 E FillFlags rm eaa cpu_in m = (Done, cpu', m)
          \<and> ((reg_flags cpu' AND FLAG_ZF \<noteq> 0) = (reg_ax cpu = get_reg16 cpu (lookupRMEAregw rm)))
          \<and> (reg_ax cpu = get_reg16 cpu (lookupRMEAregw rm) \<longrightarrow>
                get_reg16 cpu' (lookupRMEAregw rm) = get_reg16 cpu (lookupRMregw rm))
          \<and> (reg_ax cpu \<noteq> get_reg16 cpu (lookupRMEAregw rm) \<longrightarrow>
                get_reg16 cpu' (lookupRMEAregw rm) = get_reg16 cpu (lookupRMEAregw rm)
                \<and> reg_ax cpu' = get_reg16 cpu (lookupRMEAregw rm)
                \<and> (\<forall>i. i \<noteq> 0 \<longrightarrow> regs cpu' i = regs cpu i))"
    by (rule cmpxchg_w_reg [where FillFlags = FillFlags and cpu_in = cpu_in, OF assms _ refl])
qed

lemma cpu_ring0_arch: "\<not> CPU_ArchitectureType cpu_ring0 < Intel486OldSlow"
  by (simp add: cpu_ring0_def Intel486OldSlow_def)

lemma LoadMb_1234: "LoadMb env0 0x1234 machine0 = (0xab, machine0)"
  by (simp add: LoadMb_def mem_readb_inline_def update_breakpoints_def env0_def
      get_tlb_read_def machine0_def host_readb_def)

lemma cpu_ring0_al: "reg_al cpu_ring0 = 0x33"
  by (simp add: reg_al_def get_reg8_def cpu_ring0_def)

text \<open>
  CMPXCHG [0x1234],CL (ModRM \<open>0x0b\<close> with the address taken as given) finds \<open>0xab\<close> in
  memory and \<open>0x33\<close> in AL: the byte is written back, AL becomes \<open>0xab\<close>, ZF is
  clear.  CMPXCHG CL,BL (ModRM \<open>0xd9\<close>) compares AL with CL, \<open>0x78\<close>: CL keeps its
  value, AL becomes \<open>0x78\<close>.
\<close>

theorem cmpxchg_semantics_witness:
  "\<not> CPU_ArchitectureType cpu_ring0 < Intel486OldSlow \<and> cpu_ring0 = id cpu_ring0
   \<and> (0x0b :: 8 word) < 0xc0 \<and> LoadMb env0 0x1234 machine0 = (0xab, machine0)
   \<and> (\<exists>cpu'. CASE_0F_B_0xb0 env0 id 0x0b 0x1234 cpu_ring0 machine0
                = (Done, cpu', mem_writeb_inline env0 0x1234 0xab machine0)
          \<and> reg_flags cpu' AND FLAG_ZF = 0 \<and> reg_al cpu' = 0xab)
   \<and> (0xd9 :: 8 word) \<ge> 0xc0
   \<and> (\<exists>cpu'. CASE_0F_B_0xb0 env0 id 0xd9 0 cpu_ring0 machine0 = (Done, cpu', machine0)
          \<and> reg_flags cpu' AND FLAG_ZF = 0 \<and> get_reg8 cpu' 1 = 0x78 \<and> reg_al cpu' = 0x78)"
proof -
  have i: "cpu_ring0 = id cpu_ring0" by simp
  have lt: "(0x0b :: 8 word) < 0xc0" and ge: "(0xd9 :: 8 word) \<ge> 0xc0" by simp_all
  note t = cmpxchg_semantics [where FillFlags = id and cpu_in = cpu_ring0 and cpu = cpu_ring0, OF cpu_ring0_arch i]
  from t [where rm = "0x0b" and E = env0 and eaa = "0x1234" and m = machine0] lt LoadMb_1234
  obtain c1 where c1: "CASE_0F_B_0xb0 env0 id 0x0b 0x1234 cpu_ring0 machine0
        = (Done, c1, mem_writeb_inline env0 0x1234
             (if reg_al cpu_ring0 = 0xab then get_reg8 cpu_ring0 (lookupRMregb 0x0b) else 0xab) machine0)"
      "(reg_flags c1 AND FLAG_ZF \<noteq> 0) = (reg_al cpu_ring0 = 0xab)"
      "reg_al cpu_ring0 \<noteq> 0xab \<longrightarrow> reg_al c1 = 0xab"
    by blast
  have m: "\<exists>cpu'. CASE_0F_B_0xb0 env0 id 0x0b 0x1234 cpu_ring0 machine0
                = (Done, cpu', mem_writeb_inline env0 0x1234 0xab machine0)
          \<and> reg_flags cpu' AND FLAG_ZF = 0 \<and> reg_al cpu' = 0xab"
    using c1 by (simp add: cpu_ring0_al)
  have lk: "lookupRMEAregb 0xd9 = 1" "lookupRMregb 0xd9 = 3"
    by (simp_all add: lookupRMEAregb_def lookupRMregb_def)
  have cl: "get_reg8 cpu_ring0 (Suc 0) = 0x78" by (simp add: get_reg8_def cpu_ring0_def)
  from t [where rm = "0xd9" and E = env0 and eaa = 0 and m = machine0] ge
  obtain c2 where c2: "CASE_0F_B_0xb0 env0 id 0xd9 0 cpu_ring0 machine0 = (Done, c2, machine0)"
      "(reg_flags c2 AND FLAG_ZF \<noteq> 0) = (reg_al cpu_ring0 = get_reg8 cpu_ring0 (lookupRMEAregb 0xd9))"
      "reg_al cpu_ring0 \<noteq> get_reg8 cpu_ring0 (lookupRMEAregb 0xd9) \<longrightarrow>
         get_reg8 c2 (lookupRMEAregb 0xd9) = get_reg8 cpu_ring0 (lookupRMEAregb 0xd9)
         \<and> reg_al c2 = get_reg8 cpu_ring0 (lookupRMEAregb 0xd9)"
    by blast
  have r: "\<exists>cpu'. CASE_0F_B_0xb0 env0 id 0xd9 0 cpu_ring0 machine0 = (Done, cpu', machine0)
          \<and> reg_flags cpu' AND FLAG_ZF = 0 \<and> get_reg8 cpu' 1 = 0x78 \<and> reg_al cpu' = 0x78"
    using c2 by (simp add: lk cl cpu_ring0_al)
  from cpu_ring0_arch i lt ge LoadMb_1234 m r show ?thesis by blast
qed

subsection \<open>MOV Rd,CRx\<close>

text \<open>
  C5.  The byte sequence \<open>0F 20 C0\<close> (MOV EAX,CR0: ModRM byte \<open>0xc0\<close>) at privilege
  level 0 in protected mode ends normally with the value of CR0 in EAX and nothing else
  changed; at any non-zero privilege level it ends with the protection exception and the
  state as it was.
\<close>

theorem mov_rd_crx_c0:
  "(cpl cpu = 0 \<and> pmode cpu \<longrightarrow>
      CASE_0F_B_0x20 0xc0 cpu = (Done, cpu\<lparr>regs := (regs cpu)(0 := cr cpu 0)\<rparr>))
   \<and> (cpl cpu \<noteq> 0 \<longrightarrow>
      CASE_0F_B_0x20 0xc0 cpu = (RunException EXCEPTION_GP, cpu))"
  by (simp add: CASE_0F_B_0x20_def CPU_READ_CRX_def lookupRMEAregd_def set_reg32_def)

theorem mov_rd_crx_c0_witness:
  "cpl cpu_ring0 = 0 \<and> pmode cpu_ring0
   \<and> CASE_0F_B_0x20 0xc0 cpu_ring0 = (Done, cpu_ring0\<lparr>regs := (regs cpu_ring0)(0 := 0x60000011)\<rparr>)
   \<and> cpl (cpu_ring0\<lparr>cpl := 3\<rparr>) \<noteq> 0
   \<and> CASE_0F_B_0x20 0xc0 (cpu_ring0\<lparr>cpl := 3\<rparr>) = (RunException 13, cpu_ring0\<lparr>cpl := 3\<rparr>)"
  using mov_rd_crx_c0 [of cpu_ring0] mov_rd_crx_c0 [of "cpu_ring0\<lparr>cpl := 3\<rparr>"]
  by (simp add: cpu_ring0_def EXCEPTION_GP_def)

subsection \<open>Stack registers in the recompiled FPU code\<close>

lemma exec_append: "exec H (xs @ ys) s = exec H ys (exec H xs s)"
  by (induction xs arbitrary: s) simp_all

lemma exec_dyn_fpu_top:
  "exec H (dyn_fpu_top decode) s
     = s\<lparr>hreg := (hreg s)(FC_OP2 := (fpu_TOP s + of_nat (modrm_rm decode)) AND 7,
                            FC_OP1 := fpu_TOP s)\<rparr>"
  by (simp add: dyn_fpu_top_def)

lemma exec_dyn_fpu_top_swapped:
  "exec H (dyn_fpu_top_swapped decode) s
     = s\<lparr>hreg := (hreg s)(FC_OP1 := (fpu_TOP s + of_nat (modrm_rm decode)) AND 7,
                            FC_OP2 := fpu_TOP s)\<rparr>"
  by (simp add: dyn_fpu_top_swapped_def)

lemma calls_do_call [simp]: "calls (do_call H f args s) = calls s @ [(f, args)]"
  by (simp add: do_call_def split: prod.splits)

lemma saved_do_call [simp]: "saved (do_call H f args s) = saved s"
  by (simp add: do_call_def split: prod.splits)

lemma esc0_ok:
  assumes "modrm_mod decode = 3" "calls s = []"
  shows "sti_ok H decode s (dyn_fpu_esc0 decode)"
  using assms
  by (simp add: sti_ok_def dyn_fpu_esc0_def Let_def exec_append exec_dyn_fpu_top
      names_sti_def)


lemma esc1_ok:
  assumes "modrm_mod decode = 3" "calls s = []"
  shows "sti_ok H decode s (dyn_fpu_esc1 decode)"
  using assms
  by (simp add: sti_ok_def dyn_fpu_esc1_def Let_def exec_append exec_dyn_fpu_top
      names_sti_def)

lemma esc2_ok:
  assumes "modrm_mod decode = 3" "calls s = []"
  shows "sti_ok H decode s (dyn_fpu_esc2 decode)"
  using assms
  by (simp add: sti_ok_def dyn_fpu_esc2_def Let_def exec_append exec_dyn_fpu_top
      names_sti_def)

lemma esc3_ok:
  assumes "modrm_mod decode = 3" "calls s = []" "dyn_fpu_esc3 decode = Inr code"
  shows "sti_ok H decode s code"
  using assms
  by (auto simp add: sti_ok_def dyn_fpu_esc3_def Let_def names_sti_def split: if_splits)

lemma esc4_ok:
  assumes "modrm_mod decode = 3" "calls s = []"
  shows "sti_ok H decode s (dyn_fpu_esc4 decode)"
  using assms
  by (simp add: sti_ok_def dyn_fpu_esc4_def Let_def exec_append exec_dyn_fpu_top
      exec_dyn_fpu_top_swapped names_sti_def)

lemma esc5_ok:
  assumes "modrm_mod decode = 3" "calls s = []"
  shows "sti_ok H decode s (dyn_fpu_esc5 decode)"
  using assms
  by (simp add: sti_ok_def dyn_fpu_esc5_def Let_def exec_append exec_dyn_fpu_top
      names_sti_def)

lemma esc6_ok:
  assumes "modrm_mod decode = 3" "calls s = []"
  shows "sti_ok H decode s (dyn_fpu_esc6 decode)"
  using assms
  by (simp add: sti_ok_def dyn_fpu_esc6_def Let_def exec_append exec_dyn_fpu_top
      exec_dyn_fpu_top_swapped names_sti_def)

lemma esc7_ok:
  assumes "modrm_mod decode = 3" "calls s = []"
  shows "sti_ok H decode s (dyn_fpu_esc7 decode)"
  using assms
  by (simp add: sti_ok_def dyn_fpu_esc7_def Let_def exec_append exec_dyn_fpu_top
      names_sti_def)

lemma sti_slot: "unat (((t :: 32 word) + of_nat i) AND 7) = (unat t + i) mod 8"
proof -
  have "unat ((t + of_nat i) AND 7) = (unat t + unat (of_nat i :: 32 word)) mod 8"
    by (simp only: and7_mod8 unat_plus_mod8)
  also have "\<dots> = (unat t + i mod 4294967296) mod 8" by (simp add: unat_of_nat)
  also have "\<dots> = (unat t + i) mod 8"
    by (metis mod32_mod8 mod_add_right_eq)
  finally show ?thesis .
qed


lemma esc0_calls:
  assumes "modrm_mod decode = 3" and "calls s = []"
    and "t = fpu_TOP s" and "slot = (fpu_TOP s + of_nat (modrm_rm decode)) AND 7"
  shows "modrm_reg decode = 0 \<longrightarrow> calls (exec H (dyn_fpu_esc0 decode) s) = [(''FPU_FADD'', [t, slot])]"
    and "modrm_reg decode = 1 \<longrightarrow> calls (exec H (dyn_fpu_esc0 decode) s) = [(''FPU_FMUL'', [t, slot])]"
    and "modrm_reg decode = 2 \<longrightarrow> calls (exec H (dyn_fpu_esc0 decode) s) = [(''FPU_FCOM'', [t, slot])]"
    and "modrm_reg decode = 3 \<longrightarrow> calls (exec H (dyn_fpu_esc0 decode) s)
           = [(''FPU_FCOM'', [t, slot]), (''FPU_FPOP'', [])]"
    and "modrm_reg decode = 4 \<longrightarrow> calls (exec H (dyn_fpu_esc0 decode) s) = [(''FPU_FSUB'', [t, slot])]"
    and "modrm_reg decode = 5 \<longrightarrow> calls (exec H (dyn_fpu_esc0 decode) s) = [(''FPU_FSUBR'', [t, slot])]"
    and "modrm_reg decode = 6 \<longrightarrow> calls (exec H (dyn_fpu_esc0 decode) s) = [(''FPU_FDIV'', [t, slot])]"
    and "modrm_reg decode = 7 \<longrightarrow> calls (exec H (dyn_fpu_esc0 decode) s) = [(''FPU_FDIVR'', [t, slot])]"
  using assms
  by (simp_all add: dyn_fpu_esc0_def exec_append exec_dyn_fpu_top)

lemma esc1_calls:
  assumes "modrm_mod decode = 3" and "calls s = []"
    and "t = fpu_TOP s" and "slot = (fpu_TOP s + of_nat (modrm_rm decode)) AND 7"
  shows "modrm_reg decode = 0 \<longrightarrow> calls (exec H (dyn_fpu_esc1 decode) s)
           = [(''FPU_PREP_PUSH'', []),
              (''FPU_FST'', [slot, fst (H ''FPU_PREP_PUSH'' [] (t, fpu_sw s, (hreg s)(FC_OP1 := slot)))])]"
    and "modrm_reg decode = 1 \<longrightarrow> calls (exec H (dyn_fpu_esc1 decode) s) = [(''FPU_FXCH'', [t, slot])]"
    and "modrm_reg decode = 3 \<longrightarrow> calls (exec H (dyn_fpu_esc1 decode) s)
           = [(''FPU_FST'', [t, slot]), (''FPU_FPOP'', [])]"
  using assms
  by (simp_all add: dyn_fpu_esc1_def exec_append exec_dyn_fpu_top do_call_def case_prod_beta)

lemma esc2_calls:
  assumes "modrm_mod decode = 3" and "calls s = []"
    and "t = fpu_TOP s" and "slot = (fpu_TOP s + of_nat (modrm_rm decode)) AND 7"
  shows "modrm_reg decode = 5 \<and> modrm_rm decode = 1 \<longrightarrow> calls (exec H (dyn_fpu_esc2 decode) s)
           = [(''FPU_FUCOM'', [t, slot]), (''FPU_FPOP'', []), (''FPU_FPOP'', [])]"
  using assms
  by (simp_all add: dyn_fpu_esc2_def)

lemma esc4_calls:
  assumes "modrm_mod decode = 3" and "calls s = []"
    and "t = fpu_TOP s" and "slot = (fpu_TOP s + of_nat (modrm_rm decode)) AND 7"
  shows "modrm_reg decode = 0 \<longrightarrow> calls (exec H (dyn_fpu_esc4 decode) s) = [(''FPU_FADD'', [slot, t])]"
    and "modrm_reg decode = 1 \<longrightarrow> calls (exec H (dyn_fpu_esc4 decode) s) = [(''FPU_FMUL'', [slot, t])]"
    and "modrm_reg decode = 2 \<longrightarrow> calls (exec H (dyn_fpu_esc4 decode) s) = [(''FPU_FCOM'', [t, slot])]"
    and "modrm_reg decode = 3 \<longrightarrow> calls (exec H (dyn_fpu_esc4 decode) s)
           = [(''FPU_FCOM'', [t, slot]), (''FPU_FPOP'', [])]"
    and "modrm_reg decode = 4 \<longrightarrow> calls (exec H (dyn_fpu_esc4 decode) s) = [(''FPU_FSUBR'', [slot, t])]"
    and "modrm_reg decode = 5 \<longrightarrow> calls (exec H (dyn_fpu_esc4 decode) s) = [(''FPU_FSUB'', [slot, t])]"
    and "modrm_reg decode = 6 \<longrightarrow> calls (exec H (dyn_fpu_esc4 decode) s) = [(''FPU_FDIVR'', [slot, t])]"
    and "modrm_reg decode = 7 \<longrightarrow> calls (exec H (dyn_fpu_esc4 decode) s) = [(''FPU_FDIV'', [slot, t])]"
  using assms
  by (simp_all add: dyn_fpu_esc4_def exec_append exec_dyn_fpu_top exec_dyn_fpu_top_swapped)

lemma esc5_calls:
  assumes "modrm_mod decode = 3" and "calls s = []"
    and "t = fpu_TOP s" and "slot = (fpu_TOP s + of_nat (modrm_rm decode)) AND 7"
  shows "modrm_reg decode = 0 \<longrightarrow> calls (exec H (dyn_fpu_esc5 decode) s) = [(''FPU_FFREE'', [slot])]"
    and "modrm_reg decode = 1 \<longrightarrow> calls (exec H (dyn_fpu_esc5 decode) s) = [(''FPU_FXCH'', [t, slot])]"
    and "modrm_reg decode = 2 \<longrightarrow> calls (exec H (dyn_fpu_esc5 decode) s) = [(''FPU_FST'', [t, slot])]"
    and "modrm_reg decode = 3 \<longrightarrow> calls (exec H (dyn_fpu_esc5 decode) s)
           = [(''FPU_FST'', [t, slot]), (''FPU_FPOP'', [])]"
    and "modrm_reg decode = 4 \<longrightarrow> calls (exec H (dyn_fpu_esc5 decode) s) = [(''FPU_FUCOM'', [t, slot])]"
    and "modrm_reg decode = 5 \<longrightarrow> calls (exec H (dyn_fpu_esc5 decode) s)
           = [(''FPU_FUCOM'', [t, slot]), (''FPU_FPOP'', [])]"
  using assms
  by (simp_all add: dyn_fpu_esc5_def exec_append exec_dyn_fpu_top)

lemma esc6_calls:
  assumes "modrm_mod decode = 3" and "calls s = []"
    and "t = fpu_TOP s" and "slot = (fpu_TOP s + of_nat (modrm_rm decode)) AND 7"
  shows "modrm_reg decode = 0 \<longrightarrow> calls (exec H (dyn_fpu_esc6 decode) s)
           = [(''FPU_FADD'', [slot, t]), (''FPU_FPOP'', [])]"
    and "modrm_reg decode = 1 \<longrightarrow> calls (exec H (dyn_fpu_esc6 decode) s)
           = [(''FPU_FMUL'', [slot, t]), (''FPU_FPOP'', [])]"
    and "modrm_reg decode = 2 \<longrightarrow> calls (exec H (dyn_fpu_esc6 decode) s)
           = [(''FPU_FCOM'', [t, slot]), (''FPU_FPOP'', [])]"
    and "modrm_reg decode = 3 \<and> modrm_rm decode = 1 \<longrightarrow> calls (exec H (dyn_fpu_esc6 decode) s)
           = [(''FPU_FCOM'', [t, slot]), (''FPU_FPOP'', []), (''FPU_FPOP'', [])]"
    and "modrm_reg decode = 4 \<longrightarrow> calls (exec H (dyn_fpu_esc6 decode) s)
           = [(''FPU_FSUBR'', [slot, t]), (''FPU_FPOP'', [])]"
    and "modrm_reg decode = 5 \<longrightarrow> calls (exec H (dyn_fpu_esc6 decode) s)
           = [(''FPU_FSUB'', [slot, t]), (''FPU_FPOP'', [])]"
    and "modrm_reg decode = 6 \<longrightarrow> calls (exec H (dyn_fpu_esc6 decode) s)
           = [(''FPU_FDIVR'', [slot, t]), (''FPU_FPOP'', [])]"
    and "modrm_reg decode = 7 \<longrightarrow> calls (exec H (dyn_fpu_esc6 decode) s)
           = [(''FPU_FDIV'', [slot, t]), (''FPU_FPOP'', [])]"
  using assms
  by (simp_all add: dyn_fpu_esc6_def exec_append exec_dyn_fpu_top exec_dyn_fpu_top_swapped)

lemma esc7_calls:
  assumes "modrm_mod decode = 3" and "calls s = []"
    and "t = fpu_TOP s" and "slot = (fpu_TOP s + of_nat (modrm_rm decode)) AND 7"
  shows "modrm_reg decode = 0 \<longrightarrow> calls (exec H (dyn_fpu_esc7 decode) s)
           = [(''FPU_FFREE'', [slot]), (''FPU_FPOP'', [])]"
    and "modrm_reg decode = 1 \<longrightarrow> calls (exec H (dyn_fpu_esc7 decode) s) = [(''FPU_FXCH'', [t, slot])]"
    and "modrm_reg decode = 2 \<longrightarrow> calls (exec H (dyn_fpu_esc7 decode) s)
           = [(''FPU_FST'', [t, slot]), (''FPU_FPOP'', [])]"
    and "modrm_reg decode = 3 \<longrightarrow> calls (exec H (dyn_fpu_esc7 decode) s)
           = [(''FPU_FST'', [t, slot]), (''FPU_FPOP'', [])]"
  using assms
  by (simp_all add: dyn_fpu_esc7_def exec_append exec_dyn_fpu_top)

text \<open>
  C6.  In register-direct form (mode field 3), the code the dynamic recompiler emits for
  an FPU opcode that names a stack register ST(i), \<open>i\<close> the ModRM \<open>rm\<close> field, hands
  that register to the FPU helper as the slot \<open>(TOP + rm) AND 7\<close>, \<open>TOP\<close> being its
  value when the instruction's code starts to run.  For each such opcode of the escape
  translators the calls the emitted code makes are exactly the ones listed, \<open>t\<close> being
  \<open>TOP\<close> and \<open>slot\<close> the slot: the arithmetic and compare opcodes of \<open>D8\<close>; FLD
  ST(i), FXCH and FSTP of \<open>D9\<close>; FUCOMPP (\<open>DA E9\<close>, ST(1)); the reversed-operand
  arithmetic of \<open>DC\<close> and, popping, of \<open>DE\<close>, with FCOMPP (\<open>DE D9\<close>, ST(1)); FFREE,
  FXCH, FST, FSTP, FUCOM and FUCOMP of \<open>DD\<close>; and the \<open>DF\<close> forms.  FLD ST(i)
  computes the slot before it pushes and stores it into the top the push leaves.  No
  other call of any translator's code names a stack register without that slot among
  its arguments, whatever the helpers called before it do.  \<open>dyn_fpu_top\<close> leaves the
  slot in \<open>FC_OP2\<close> and \<open>TOP\<close> in \<open>FC_OP1\<close>, \<open>dyn_fpu_top_swapped\<close> the other way
  round, and on numbers the slot is \<open>(TOP + rm) mod 8\<close>.
\<close>

theorem dynrec_sti_slot:
  assumes "modrm_mod decode = 3" and "calls s = []"
    and "t = fpu_TOP s" and "slot = (fpu_TOP s + of_nat (modrm_rm decode)) AND 7"
  shows "(modrm_reg decode = 0 \<longrightarrow> calls (exec H (dyn_fpu_esc0 decode) s) = [(''FPU_FADD'', [t, slot])])
       \<and> (modrm_reg decode = 1 \<longrightarrow> calls (exec H (dyn_fpu_esc0 decode) s) = [(''FPU_FMUL'', [t, slot])])
       \<and> (modrm_reg decode = 2 \<longrightarrow> calls (exec H (dyn_fpu_esc0 decode) s) = [(''FPU_FCOM'', [t, slot])])
       \<and> (modrm_reg decode = 3 \<longrightarrow> calls (exec H (dyn_fpu_esc0 decode) s)
           = [(''FPU_FCOM'', [t, slot]), (''FPU_FPOP'', [])])
       \<and> (modrm_reg decode = 4 \<longrightarrow> calls (exec H (dyn_fpu_esc0 decode) s) = [(''FPU_FSUB'', [t, slot])])
       \<and> (modrm_reg decode = 5 \<longrightarrow> calls (exec H (dyn_fpu_esc0 decode) s) = [(''FPU_FSUBR'', [t, slot])])
       \<and> (modrm_reg decode = 6 \<longrightarrow> calls (exec H (dyn_fpu_esc0 decode) s) = [(''FPU_FDIV'', [t, slot])])
       \<and> (modrm_reg decode = 7 \<longrightarrow> calls (exec H (dyn_fpu_esc0 decode) s) = [(''FPU_FDIVR'', [t, slot])])
       \<and> (modrm_reg decode = 0 \<longrightarrow> calls (exec H (dyn_fpu_esc1 decode) s)
           = [(''FPU_PREP_PUSH'', []),
              (''FPU_FST'', [slot, fst (H ''FPU_PREP_PUSH'' [] (t, fpu_sw s, (hreg s)(FC_OP1 := slot)))])])
       \<and> (modrm_reg decode = 1 \<longrightarrow> calls (exec H (dyn_fpu_esc1 decode) s) = [(''FPU_FXCH'', [t, slot])])
       \<and> (modrm_reg decode = 3 \<longrightarrow> calls (exec H (dyn_fpu_esc1 decode) s)
           = [(''FPU_FST'', [t, slot]), (''FPU_FPOP'', [])])
       \<and> (modrm_reg decode = 5 \<and> modrm_rm decode = 1 \<longrightarrow> calls (exec H (dyn_fpu_esc2 decode) s)
           = [(''FPU_FUCOM'', [t, slot]), (''FPU_FPOP'', []), (''FPU_FPOP'', [])])
       \<and> (modrm_reg decode = 0 \<longrightarrow> calls (exec H (dyn_fpu_esc4 decode) s) = [(''FPU_FADD'', [slot, t])])
       \<and> (modrm_reg decode = 1 \<longrightarrow> calls (exec H (dyn_fpu_esc4 decode) s) = [(''FPU_FMUL'', [slot, t])])
       \<and> (modrm_reg decode = 2 \<longrightarrow> calls (exec H (dyn_fpu_esc4 decode) s) = [(''FPU_FCOM'', [t, slot])])
       \<and> (modrm_reg decode = 3 \<longrightarrow> calls (exec H (dyn_fpu_esc4 decode) s)
           = [(''FPU_FCOM'', [t, slot]), (''FPU_FPOP'', [])])
       \<and> (modrm_reg decode = 4 \<longrightarrow> calls (exec H (dyn_fpu_esc4 decode) s) = [(''FPU_FSUBR'', [slot, t])])
       \<and> (modrm_reg decode = 5 \<longrightarrow> calls (exec H (dyn_fpu_esc4 decode) s) = [(''FPU_FSUB'', [slot, t])])
       \<and> (modrm_reg decode = 6 \<longrightarrow> calls (exec H (dyn_fpu_esc4 decode) s) = [(''FPU_FDIVR'', [slot, t])])
       \<and> (modrm_reg decode = 7 \<longrightarrow> calls (exec H (dyn_fpu_esc4 decode) s) = [(''FPU_FDIV'', [slot, t])])
       \<and> (modrm_reg decode = 0 \<longrightarrow> calls (exec H (dyn_fpu_esc5 decode) s) = [(''FPU_FFREE'', [slot])])
       \<and> (modrm_reg decode = 1 \<longrightarrow> calls (exec H (dyn_fpu_esc5 decode) s) = [(''FPU_FXCH'', [t, slot])])
       \<and> (modrm_reg decode = 2 \<longrightarrow> calls (exec H (dyn_fpu_esc5 decode) s) = [(''FPU_FST'', [t, slot])])
       \<and> (modrm_reg decode = 3 \<longrightarrow> calls (exec H (dyn_fpu_esc5 decode) s)
           = [(''FPU_FST'', [t, slot]), (''FPU_FPOP'', [])])
       \<and> (modrm_reg decode = 4 \<longrightarrow> calls (exec H (dyn_fpu_esc5 decode) s) = [(''FPU_FUCOM'', [t, slot])])
       \<and> (modrm_reg decode = 5 \<longrightarrow> calls (exec H (dyn_fpu_esc5 decode) s)
           = [(''FPU_FUCOM'', [t, slot]), (''FPU_FPOP'', [])])
       \<and> (modrm_reg decode = 0 \<longrightarrow> calls (exec H (dyn_fpu_esc6 decode) s)
           = [(''FPU_FADD'', [slot, t]), (''FPU_FPOP'', [])])
       \<and> (modrm_reg decode = 1 \<longrightarrow> calls (exec H (dyn_fpu_esc6 decode) s)
           = [(''FPU_FMUL'', [slot, t]), (''FPU_FPOP'', [])])
       \<and> (modrm_reg decode = 2 \<longrightarrow> calls (exec H (dyn_fpu_esc6 decode) s)
           = [(''FPU_FCOM'', [t, slot]), (''FPU_FPOP'', [])])
       \<and> (modrm_reg decode = 3 \<and> modrm_rm decode = 1 \<longrightarrow> calls (exec H (dyn_fpu_esc6 decode) s)
           = [(''FPU_FCOM'', [t, slot]), (''FPU_FPOP'', []), (''FPU_FPOP'', [])])
       \<and> (modrm_reg decode = 4 \<longrightarrow> calls (exec H (dyn_fpu_esc6 decode) s)
           = [(''FPU_FSUBR'', [slot, t]), (''FPU_FPOP'', [])])
       \<and> (modrm_reg decode = 5 \<longrightarrow> calls (exec H (dyn_fpu_esc6 decode) s)
           = [(''FPU_FSUB'', [slot, t]), (''FPU_FPOP'', [])])
       \<and> (modrm_reg decode = 6 \<longrightarrow> calls (exec H (dyn_fpu_esc6 decode) s)
           = [(''FPU_FDIVR'', [slot, t]), (''FPU_FPOP'', [])])
       \<and> (modrm_reg decode = 7 \<longrightarrow> calls (exec H (dyn_fpu_esc6 decode) s)
           = [(''FPU_FDIV'', [slot, t]), (''FPU_FPOP'', [])])
       \<and> (modrm_reg decode = 0 \<longrightarrow> calls (exec H (dyn_fpu_esc7 decode) s)
           = [(''FPU_FFREE'', [slot]), (''FPU_FPOP'', [])])
       \<and> (modrm_reg decode = 1 \<longrightarrow> calls (exec H (dyn_fpu_esc7 decode) s) = [(''FPU_FXCH'', [t, slot])])
       \<and> (modrm_reg decode = 2 \<longrightarrow> calls (exec H (dyn_fpu_esc7 decode) s)
           = [(''FPU_FST'', [t, slot]), (''FPU_FPOP'', [])])
       \<and> (modrm_reg decode = 3 \<longrightarrow> calls (exec H (dyn_fpu_esc7 decode) s)
           = [(''FPU_FST'', [t, slot]), (''FPU_FPOP'', [])])
       \<and> sti_ok H decode s (dyn_fpu_esc0 decode)
       \<and> sti_ok H decode s (dyn_fpu_esc1 decode)
       \<and> sti_ok H decode s (dyn_fpu_esc2 decode)
       \<and> (\<forall>code. dyn_fpu_esc3 decode = Inr code \<longrightarrow> sti_ok H decode s code)
       \<and> sti_ok H decode s (dyn_fpu_esc4 decode)
       \<and> sti_ok H decode s (dyn_fpu_esc5 decode)
       \<and> sti_ok H decode s (dyn_fpu_esc6 decode)
       \<and> sti_ok H decode s (dyn_fpu_esc7 decode)
       \<and> hreg (exec H (dyn_fpu_top decode) s) FC_OP2 = slot
       \<and> hreg (exec H (dyn_fpu_top decode) s) FC_OP1 = t
       \<and> hreg (exec H (dyn_fpu_top_swapped decode) s) FC_OP1 = slot
       \<and> hreg (exec H (dyn_fpu_top_swapped decode) s) FC_OP2 = t
       \<and> unat slot = (unat t + modrm_rm decode) mod 8"
proof -
  note ok = assms(1,2)
  have e3: "\<forall>code. dyn_fpu_esc3 decode = Inr code \<longrightarrow> sti_ok H decode s code"
    using esc3_ok [OF ok] by blast
  have tops: "hreg (exec H (dyn_fpu_top decode) s) FC_OP2 = slot"
    "hreg (exec H (dyn_fpu_top decode) s) FC_OP1 = t"
    "hreg (exec H (dyn_fpu_top_swapped decode) s) FC_OP1 = slot"
    "hreg (exec H (dyn_fpu_top_swapped decode) s) FC_OP2 = t"
    using assms(3,4) by (simp_all add: exec_dyn_fpu_top exec_dyn_fpu_top_swapped)
  have num: "unat slot = (unat t + modrm_rm decode) mod 8"
    using assms(3,4) by (simp only: sti_slot)
  note facts = esc0_calls [OF assms] esc1_calls [OF assms] esc2_calls [OF assms]
    esc4_calls [OF assms] esc5_calls [OF assms] esc6_calls [OF assms] esc7_calls [OF assms]
    esc0_ok [OF ok] esc1_ok [OF ok] esc2_ok [OF ok] e3 esc4_ok [OF ok] esc5_ok [OF ok]
    esc6_ok [OF ok] esc7_ok [OF ok] tops num
  show ?thesis by (intro conjI; rule facts)
qed

lemma modrm_c3: "dyn_get_modrm 0xc3 = \<lparr>modrm_val = 0xc3, modrm_mod = 3, modrm_reg = 0, modrm_rm = 3\<rparr>"
  by (simp add: dyn_get_modrm_def)

lemma modrm_e9: "dyn_get_modrm 0xe9 = \<lparr>modrm_val = 0xe9, modrm_mod = 3, modrm_reg = 5, modrm_rm = 1\<rparr>"
  by (simp add: dyn_get_modrm_def)

lemma modrm_d9: "dyn_get_modrm 0xd9 = \<lparr>modrm_val = 0xd9, modrm_mod = 3, modrm_reg = 3, modrm_rm = 1\<rparr>"
  by (simp add: dyn_get_modrm_def)

text \<open>
  With \<open>TOP = 6\<close>, the ModRM byte \<open>0xc3\<close> names ST(3), slot 1: \<open>D8 C3\<close> (FADD
  ST,ST(3)) calls \<open>FPU_FADD(6, 1)\<close>; \<open>D9 C3\<close> (FLD ST(3)) computes the slot, pushes, and
  stores slot 1 into the new top, slot 5; \<open>DC C3\<close> (FADD ST(3),ST) calls
  \<open>FPU_FADD(1, 6)\<close>; \<open>DD C3\<close> (FFREE ST(3)) calls \<open>FPU_FFREE(1)\<close>; \<open>DF C3\<close> frees
  slot 1 and pops.  \<open>DA E9\<close> (FUCOMPP) and \<open>DE D9\<close> (FCOMPP) name ST(1), slot 7,
  compare slot 6 with it and pop twice.
\<close>

theorem dynrec_sti_slot_witness:
  "modrm_mod (dyn_get_modrm 0xc3) = 3 \<and> modrm_reg (dyn_get_modrm 0xc3) = 0
   \<and> modrm_rm (dyn_get_modrm 0xc3) = 3
   \<and> calls run0 = [] \<and> fpu_TOP run0 = 6
   \<and> (fpu_TOP run0 + of_nat (modrm_rm (dyn_get_modrm 0xc3))) AND 7 = 1
   \<and> calls (exec helper0 (dyn_fpu_esc0 (dyn_get_modrm 0xc3)) run0) = [(''FPU_FADD'', [6, 1])]
   \<and> calls (exec helper0 (dyn_fpu_esc1 (dyn_get_modrm 0xc3)) run0)
       = [(''FPU_PREP_PUSH'', []), (''FPU_FST'', [1, 5])]
   \<and> calls (exec helper0 (dyn_fpu_esc4 (dyn_get_modrm 0xc3)) run0) = [(''FPU_FADD'', [1, 6])]
   \<and> calls (exec helper0 (dyn_fpu_esc5 (dyn_get_modrm 0xc3)) run0) = [(''FPU_FFREE'', [1])]
   \<and> calls (exec helper0 (dyn_fpu_esc7 (dyn_get_modrm 0xc3)) run0)
       = [(''FPU_FFREE'', [1]), (''FPU_FPOP'', [])]
   \<and> sti_ok helper0 (dyn_get_modrm 0xc3) run0 (dyn_fpu_esc1 (dyn_get_modrm 0xc3))
   \<and> unat ((1 :: 32 word)) = (unat (6 :: 32 word) + modrm_rm (dyn_get_modrm 0xc3)) mod 8
   \<and> modrm_mod (dyn_get_modrm 0xe9) = 3 \<and> modrm_reg (dyn_get_modrm 0xe9) = 5
   \<and> modrm_rm (dyn_get_modrm 0xe9) = 1
   \<and> (fpu_TOP run0 + of_nat (modrm_rm (dyn_get_modrm 0xe9))) AND 7 = 7
   \<and> calls (exec helper0 (dyn_fpu_esc2 (dyn_get_modrm 0xe9)) run0)
       = [(''FPU_FUCOM'', [6, 7]), (''FPU_FPOP'', []), (''FPU_FPOP'', [])]
   \<and> modrm_mod (dyn_get_modrm 0xd9) = 3 \<and> modrm_reg (dyn_get_modrm 0xd9) = 3
   \<and> modrm_rm (dyn_get_modrm 0xd9) = 1
   \<and> calls (exec helper0 (dyn_fpu_esc6 (dyn_get_modrm 0xd9)) run0)
       = [(''FPU_FCOM'', [6, 7]), (''FPU_FPOP'', []), (''FPU_FPOP'', [])]"
proof -
  have c3: "modrm_mod (dyn_get_modrm 0xc3) = 3" "modrm_reg (dyn_get_modrm 0xc3) = 0"
    "modrm_rm (dyn_get_modrm 0xc3) = 3"
    by (simp_all add: modrm_c3)
  have e9: "modrm_mod (dyn_get_modrm 0xe9) = 3" "modrm_reg (dyn_get_modrm 0xe9) = 5"
    "modrm_rm (dyn_get_modrm 0xe9) = 1"
    by (simp_all add: modrm_e9)
  have d9: "modrm_mod (dyn_get_modrm 0xd9) = 3" "modrm_reg (dyn_get_modrm 0xd9) = 3"
    "modrm_rm (dyn_get_modrm 0xd9) = 1"
    by (simp_all add: modrm_d9)
  have r: "calls run0 = []" "fpu_TOP run0 = 6" "6 = fpu_TOP run0"
    by (simp_all add: run0_def)
  have s3: "(fpu_TOP run0 + of_nat (modrm_rm (dyn_get_modrm 0xc3))) AND 7 = 1"
    "1 = (fpu_TOP run0 + of_nat (modrm_rm (dyn_get_modrm 0xc3))) AND 7"
    by (simp_all add: modrm_c3 run0_def)
  have s1: "(fpu_TOP run0 + of_nat (modrm_rm (dyn_get_modrm 0xe9))) AND 7 = 7"
    "7 = (fpu_TOP run0 + of_nat (modrm_rm (dyn_get_modrm 0xe9))) AND 7"
    "7 = (fpu_TOP run0 + of_nat (modrm_rm (dyn_get_modrm 0xd9))) AND 7"
    by (simp_all add: modrm_e9 modrm_d9 run0_def)
  have push: "fst (helper0 ''FPU_PREP_PUSH'' [] (6, fpu_sw run0, (hreg run0)(FC_OP1 := 1))) = 5"
    by (simp add: helper0_def)
  note at_c3 = dynrec_sti_slot [OF c3(1) r(1) r(3) s3(2), of helper0]
  note at_e9 = dynrec_sti_slot [OF e9(1) r(1) r(3) s1(2), of helper0]
  note at_d9 = dynrec_sti_slot [OF d9(1) r(1) r(3) s1(3), of helper0]
  have "calls (exec helper0 (dyn_fpu_esc0 (dyn_get_modrm 0xc3)) run0) = [(''FPU_FADD'', [6, 1])]"
    using at_c3 c3(2) by simp
  moreover have "calls (exec helper0 (dyn_fpu_esc1 (dyn_get_modrm 0xc3)) run0)
       = [(''FPU_PREP_PUSH'', []), (''FPU_FST'', [1, 5])]"
    using at_c3 c3(2) push by simp
  moreover have "calls (exec helper0 (dyn_fpu_esc4 (dyn_get_modrm 0xc3)) run0) = [(''FPU_FADD'', [1, 6])]"
    using at_c3 c3(2) by simp
  moreover have "calls (exec helper0 (dyn_fpu_esc5 (dyn_get_modrm 0xc3)) run0) = [(''FPU_FFREE'', [1])]"
    using at_c3 c3(2) by simp
  moreover have "calls (exec helper0 (dyn_fpu_esc7 (dyn_get_modrm 0xc3)) run0)
       = [(''FPU_FFREE'', [1]), (''FPU_FPOP'', [])]"
    using at_c3 c3(2) by simp
  moreover have "sti_ok helper0 (dyn_get_modrm 0xc3) run0 (dyn_fpu_esc1 (dyn_get_modrm 0xc3))"
    using at_c3 by simp
  moreover have "unat ((1 :: 32 word)) = (unat (6 :: 32 word) + modrm_rm (dyn_get_modrm 0xc3)) mod 8"
    using at_c3 by - (elim conjE, assumption)
  moreover have "calls (exec helper0 (dyn_fpu_esc2 (dyn_get_modrm 0xe9)) run0)
       = [(''FPU_FUCOM'', [6, 7]), (''FPU_FPOP'', []), (''FPU_FPOP'', [])]"
    using at_e9 e9(2,3) by simp
  moreover have "calls (exec helper0 (dyn_fpu_esc6 (dyn_get_modrm 0xd9)) run0)
       = [(''FPU_FCOM'', [6, 7]), (''FPU_FPOP'', []), (''FPU_FPOP'', [])]"
    using at_d9 d9(2,3) by simp
  ultimately show ?thesis using c3 e9 d9 r(1,2) s3(1) s1(1) by - (intro conjI, assumption+)
qed

subsection \<open>Self-modifying code\<close>

lemma bit_nonzero: "bit (w :: 8 word) n \<Longrightarrow> w \<noteq> 0"
  by auto

lemma hascode_bits:
  "(f OR PFLAG_HASCODE32) AND PFLAG_HASCODE \<noteq> 0" "(f OR PFLAG_HASCODE16) AND PFLAG_HASCODE \<noteq> 0"
proof -
  have "bit ((f OR PFLAG_HASCODE32) AND PFLAG_HASCODE) 3"
    by (simp add: PFLAG_HASCODE_def PFLAG_HASCODE32_def PFLAG_HASCODE16_def bit_simps)
  then show "(f OR PFLAG_HASCODE32) AND PFLAG_HASCODE \<noteq> 0" by (rule bit_nonzero)
  have "bit ((f OR PFLAG_HASCODE16) AND PFLAG_HASCODE) 6"
    by (simp add: PFLAG_HASCODE_def PFLAG_HASCODE32_def PFLAG_HASCODE16_def bit_simps)
  then show "(f OR PFLAG_HASCODE16) AND PFLAG_HASCODE \<noteq> 0" by (rule bit_nonzero)
qed

lemma hascode_mono:
  "f AND PFLAG_HASCODE \<noteq> 0 \<Longrightarrow> (f OR x) AND PFLAG_HASCODE \<noteq> 0"
proof -
  assume "f AND PFLAG_HASCODE \<noteq> 0"
  then obtain n where "bit (f AND PFLAG_HASCODE) n" by (auto simp: bit_eq_iff)
  then have "bit ((f OR x) AND PFLAG_HASCODE) n" by (simp add: bit_simps)
  then show ?thesis by (rule bit_nonzero)
qed

lemma fetch_run_update:
  "page_of addr \<notin> set (covered_pages start n) \<Longrightarrow>
     fetch_run (mem(addr := v)) start n = fetch_run mem start n"
  by (induction n arbitrary: start) auto

lemma length_fetch_run [simp]: "length (fetch_run mem start n) = n"
  by (induction n arbitrary: start) auto


lemma coherent_cache_block:
  assumes "coherent s"
  shows "coherent (cache_block big start len s)"
proof -
  let ?flag = "if big then PFLAG_HASCODE32 else PFLAG_HASCODE16"
  have new: "(f OR ?flag) AND PFLAG_HASCODE \<noteq> 0" for f
    using hascode_bits [of f] by simp
  have old: "f AND PFLAG_HASCODE \<noteq> 0 \<Longrightarrow> (f OR ?flag) AND PFLAG_HASCODE \<noteq> 0" for f
    by (rule hascode_mono)
  show ?thesis
    using assms new old
    by (auto simp: coherent_def cache_block_def Let_def list_all_iff)
qed

lemma coherent_write_byte:
  assumes "coherent s"
  shows "coherent (write_byte addr val s)"
proof (cases "page_flags s (page_of addr) AND PFLAG_HASCODE \<noteq> 0")
  case True
  have "\<And>b. b \<in> set (block_cache s) \<Longrightarrow> page_of addr \<notin> set (originating_physical_pages b)
      \<Longrightarrow> fetch_run ((guest_mem s)(addr := val)) (guest_start_address b) (covered_guest_length b)
          = opcode_sequence b"
    using assms by (auto simp: coherent_def list_all_iff fetch_run_update)
  then show ?thesis
    using assms True
    by (auto simp: coherent_def write_byte_def evict_page_def Let_def list_all_iff)
next
  case False
  have none: "\<And>b. b \<in> set (block_cache s) \<Longrightarrow> page_of addr \<notin> set (originating_physical_pages b)"
    using assms False by (auto simp: coherent_def list_all_iff)
  have "\<And>b. b \<in> set (block_cache s)
      \<Longrightarrow> fetch_run ((guest_mem s)(addr := val)) (guest_start_address b) (covered_guest_length b)
          = opcode_sequence b"
  proof -
    fix b assume b: "b \<in> set (block_cache s)"
    then have "page_of addr \<notin> set (covered_pages (guest_start_address b) (covered_guest_length b))"
      using none [OF b] assms by (auto simp: coherent_def list_all_iff)
    then show "fetch_run ((guest_mem s)(addr := val)) (guest_start_address b) (covered_guest_length b)
          = opcode_sequence b"
      using assms b by (auto simp: coherent_def list_all_iff fetch_run_update)
  qed
  then show ?thesis
    using assms False
    by (auto simp: coherent_def write_byte_def Let_def list_all_iff)
qed


lemma coherent_step: "coherent s \<Longrightarrow> coherent (engine_step x s)"
  by (cases x)
     (auto simp: coherent_write_byte coherent_cache_block execute_at_def split: option.splits)

lemma coherent_run: "coherent s \<Longrightarrow> coherent (engine_run xs s)"
  by (induction xs arbitrary: s) (auto simp: coherent_step)

lemma find_block_in_cache: "find_block start s = Some b \<Longrightarrow>
    b \<in> set (block_cache s) \<and> guest_start_address b = start"
  by (auto simp: find_block_def find_Some_iff)

lemma execute_at_current:
  assumes "coherent s"
  shows "fst (execute_at big start len s)
           = fetch_run (guest_mem s) start (length (fst (execute_at big start len s)))"
proof (cases "find_block start s")
  case None
  then show ?thesis by (simp add: execute_at_def)
next
  case (Some b)
  from find_block_in_cache [OF Some] assms
  have "opcode_sequence b = fetch_run (guest_mem s) start (covered_guest_length b)"
    by (auto simp: coherent_def list_all_iff)
  then show ?thesis using Some by (simp add: execute_at_def)
qed

lemma no_block_on_written_page:
  assumes "coherent s" and "b \<in> set (block_cache (write_byte addr val s))"
  shows "page_of addr \<notin> set (originating_physical_pages b)"
proof (cases "page_flags s (page_of addr) AND PFLAG_HASCODE \<noteq> 0")
  case True
  then show ?thesis using assms(2) by (auto simp: write_byte_def evict_page_def Let_def)
next
  case False
  then have "b \<in> set (block_cache s)" using assms(2) by (simp add: write_byte_def Let_def)
  then show ?thesis using assms(1) False by (auto simp: coherent_def list_all_iff)
qed

lemma covered_pages_member:
  "i < n \<Longrightarrow> page_of (start + of_nat i) \<in> set (covered_pages start n)"
proof (induction n arbitrary: start i)
  case 0
  then show ?case by simp
next
  case (Suc n)
  show ?case
  proof (cases i)
    case 0
    then show ?thesis by simp
  next
    case (Suc k)
    then have "k < n" using Suc.prems by simp
    from Suc.IH [OF this, of "start + 1"]
    have h1: "page_of (start + 1 + of_nat k) \<in> set (covered_pages (start + 1) n)" .
    have h2: "start + of_nat i = start + 1 + of_nat k" using Suc by simp
    have "page_of (start + of_nat i) \<in> set (covered_pages (start + 1) n)"
      using h1 by (simp only: h2)
    then show ?thesis by simp
  qed
qed

text \<open>
  C1.  Starting from a coherent cache (the empty cache is one), after any sequence of
  writes and executions the cache is coherent, so whatever \<open>execute_at\<close> runs at any
  address is the translation of the bytes memory holds at that moment; and after a write
  no cached block lists the written page among its originating pages, so no block
  covering the written byte is left.
\<close>

theorem smc_no_stale_block:
  assumes "coherent s"
  shows "coherent (engine_run xs s)
       \<and> fst (execute_at big start len (engine_run xs s))
           = fetch_run (guest_mem (engine_run xs s)) start
               (length (fst (execute_at big start len (engine_run xs s))))
       \<and> (\<forall>b \<in> set (block_cache (write_byte addr val (engine_run xs s))).
             page_of addr \<notin> set (originating_physical_pages b)
             \<and> (\<forall>i < covered_guest_length b. guest_start_address b + of_nat i \<noteq> addr))
       \<and> guest_mem (write_byte addr val (engine_run xs s)) addr = val"
proof -
  have c: "coherent (engine_run xs s)" using assms by (rule coherent_run)
  have e: "fst (execute_at big start len (engine_run xs s))
           = fetch_run (guest_mem (engine_run xs s)) start
               (length (fst (execute_at big start len (engine_run xs s))))"
    using c by (rule execute_at_current)
  have w: "\<forall>b \<in> set (block_cache (write_byte addr val (engine_run xs s))).
             page_of addr \<notin> set (originating_physical_pages b)
             \<and> (\<forall>i < covered_guest_length b. guest_start_address b + of_nat i \<noteq> addr)"
  proof (intro ballI conjI allI impI)
    fix b assume b: "b \<in> set (block_cache (write_byte addr val (engine_run xs s)))"
    show n: "page_of addr \<notin> set (originating_physical_pages b)"
      using c b by (rule no_block_on_written_page)
    fix i assume i: "i < covered_guest_length b"
    have "coherent (write_byte addr val (engine_run xs s))" using c by (rule coherent_write_byte)
    then have "originating_physical_pages b
        = covered_pages (guest_start_address b) (covered_guest_length b)"
      using b by (auto simp: coherent_def list_all_iff)
    then have "page_of (guest_start_address b + of_nat i) \<in> set (originating_physical_pages b)"
      using covered_pages_member [OF i] by simp
    then show "guest_start_address b + of_nat i \<noteq> addr" using n by auto
  qed
  have m: "guest_mem (write_byte addr val (engine_run xs s)) addr = val"
    by (simp add: write_byte_def evict_page_def Let_def)
  from c e w m show ?thesis by blast
qed


lemma coherent_engine0: "coherent engine0"
  by (simp add: coherent_def engine0_def)

lemma fetch_run_4:
  "fetch_run mem start 4 = [mem start, mem (start + 1), mem (start + 2), mem (start + 3)]"
  by (simp add: eval_nat_numeral add.assoc)

lemma covered_pages_4:
  "covered_pages start 4
     = [page_of start, page_of (start + 1), page_of (start + 2), page_of (start + 3)]"
  by (simp add: eval_nat_numeral add.assoc)

lemma engine0_translated:
  "engine_run [Execute False 0x1000 4] engine0
     = engine0\<lparr>page_flags := (\<lambda>pg. if pg = 1 then 0x40 else 0),
               block_cache := [\<lparr>guest_start_address = 0x1000,
                                opcode_sequence = [0xb8, 0x01, 0x00, 0xc3],
                                covered_guest_length = 4,
                                originating_physical_pages = [1, 1, 1, 1]\<rparr>]\<rparr>"
  by (simp add: execute_at_def find_block_def cache_block_def engine0_def Let_def
      fetch_run_4 covered_pages_4 page_of_def PFLAG_HASCODE16_def fun_eq_iff)

lemma engine0_written:
  "engine_run [Execute False 0x1000 4, Write 0x1000 0x90] engine0
     = engine0\<lparr>guest_mem := (guest_mem engine0)(0x1000 := 0x90),
               page_flags := (\<lambda>pg. 0),
               block_cache := []\<rparr>"
proof -
  have "engine_run [Execute False 0x1000 4, Write 0x1000 0x90] engine0
      = write_byte 0x1000 0x90 (engine_run [Execute False 0x1000 4] engine0)"
    by simp
  then show ?thesis
    unfolding engine0_translated
    by (simp add: write_byte_def evict_page_def page_of_def PFLAG_HASCODE_def
        PFLAG_HASCODE32_def PFLAG_HASCODE16_def engine0_def fun_eq_iff)
qed

text \<open>
  The scenario of the spec: the block \<open>MOV AX,1; RET\<close> at \<open>0x1000\<close> is translated
  and cached; a write of \<open>0x90\<close> at \<open>0x1000\<close> empties the cache; executing at
  \<open>0x1000\<close> again runs \<open>90 01 00 C3\<close>, the new bytes.
\<close>

theorem smc_no_stale_block_witness:
  "coherent engine0
   \<and> fst (execute_at False 0x1000 4 engine0) = [0xb8, 0x01, 0x00, 0xc3]
   \<and> length (block_cache (engine_run [Execute False 0x1000 4] engine0)) = 1
   \<and> block_cache (engine_run [Execute False 0x1000 4, Write 0x1000 0x90] engine0) = []
   \<and> coherent (engine_run [Execute False 0x1000 4, Write 0x1000 0x90] engine0)
   \<and> fst (execute_at False 0x1000 4
            (engine_run [Execute False 0x1000 4, Write 0x1000 0x90] engine0))
       = [0x90, 0x01, 0x00, 0xc3]"
proof -
  note t = smc_no_stale_block [OF coherent_engine0,
      of "[Execute False 0x1000 4, Write 0x1000 0x90]" False "0x1000" 4 "0x1000" "0x90"]
  have c: "coherent (engine_run [Execute False 0x1000 4, Write 0x1000 0x90] engine0)"
    using t by blast
  have e0: "fst (execute_at False 0x1000 4 engine0) = [0xb8, 0x01, 0x00, 0xc3]"
    by (simp add: execute_at_def find_block_def engine0_def fetch_run_4)
  have l: "length (block_cache (engine_run [Execute False 0x1000 4] engine0)) = 1"
    unfolding engine0_translated by simp
  have b: "block_cache (engine_run [Execute False 0x1000 4, Write 0x1000 0x90] engine0) = []"
    unfolding engine0_written by simp
  have e1: "fst (execute_at False 0x1000 4
            (engine_run [Execute False 0x1000 4, Write 0x1000 0x90] engine0))
       = [0x90, 0x01, 0x00, 0xc3]"
    unfolding engine0_written
    by (simp add: execute_at_def find_block_def engine0_def fetch_run_4)
  from coherent_engine0 e0 l b c e1 show ?thesis by blast
qed

end
